theory Spec2Isabelle
  imports Main "HOL-Library.Char_ord" "HOL-Library.List_Lexorder"
begin

section \<open>Shared types (src/shared/types.ts, src/shared/constants.ts)\<close>

text \<open>
  The branded string types of the source are plain strings at run time. Timestamps are
  the millisecond values of \<^verbatim>\<open>Date.now()\<close>, modelled as unbounded integers.
\<close>

type_synonym UserId = string
type_synonym MessageId = string
type_synonym RoomId = string
type_synonym Timestamp = int
type_synonym ConnId = string

datatype UserStatus = online | away | offline

record User =
  user_id :: UserId
  user_username :: string
  user_avatar :: string
  user_status :: UserStatus
  user_joinedAt :: Timestamp

record Message =
  msg_id :: MessageId
  msg_roomId :: RoomId
  msg_authorId :: UserId
  msg_content :: string
  msg_createdAt :: Timestamp
  msg_editedAt :: "Timestamp option"
  msg_replyTo :: "MessageId option"

record Room =
  room_id :: RoomId
  room_name :: string
  room_description :: string
  room_createdAt :: Timestamp
  room_participants :: "UserId set"

record ReplyInfo =
  reply_id :: string
  reply_authorUsername :: string
  reply_contentPreview :: string

record MessageDTO =
  dto_id :: string
  dto_roomId :: string
  dto_author_id :: string
  dto_author_username :: string
  dto_author_avatar :: string
  dto_content :: string
  dto_createdAt :: int
  dto_editedAt :: "int option"
  dto_replyTo :: "ReplyInfo option"

record RoomInfo =
  info_id :: string
  info_name :: string
  info_description :: string
  info_participantCount :: nat

text \<open>Client frames after schema validation: the payload fields in the order of the source.\<close>

datatype ClientEvent =
    JOIN_ROOM RoomId string
  | LEAVE_ROOM RoomId
  | SEND_MESSAGE RoomId string "string option"
  | EDIT_MESSAGE MessageId string
  | DELETE_MESSAGE MessageId
  | TYPING_START RoomId
  | TYPING_STOP RoomId
  | UPDATE_STATUS UserStatus

text \<open>
  Server frames. Where the source writes \<^verbatim>\<open>state.userId as string\<close> the cast checks
  nothing at run time, so those payload fields carry the session value as it is
  (\<open>None\<close> is JavaScript's \<^verbatim>\<open>null\<close>). The error code of an \<open>ERROR\<close> frame is the string
  the source puts there.
\<close>

datatype ServerEvent =
    CONNECTED User "RoomInfo list"
  | USER_JOINED User RoomId
  | USER_LEFT "UserId option" RoomId
  | MESSAGE_RECEIVED MessageDTO
  | MESSAGE_EDITED MessageId string "Timestamp option"
  | MESSAGE_DELETED MessageId
  | USER_TYPING "UserId option" "string option" RoomId
  | USER_STOPPED_TYPING "UserId option" RoomId
  | USER_STATUS_CHANGED UserId UserStatus
  | ROOM_HISTORY RoomId "MessageDTO list" "User list"
  | ERROR string string

definition TYPING_TIMEOUT_MS :: nat where
  "TYPING_TIMEOUT_MS = 3000"

definition RATE_LIMIT_MESSAGES_PER_MINUTE :: int where
  "RATE_LIMIT_MESSAGES_PER_MINUTE = 30"

section \<open>Exceptions, results and domain events\<close>

text \<open>
  A thrown JavaScript \<^verbatim>\<open>Error\<close> (a rejected promise) is a value; every function that can
  throw returns \<open>error + 'a\<close> with \<open>Inl\<close> for the exception.
\<close>

datatype error = Error string

text \<open>\<^verbatim>\<open>UseCaseError(message, code)\<close> and the tagged \<^verbatim>\<open>Result\<close> of the use cases.\<close>

datatype UseCaseError = UseCaseError string string

fun error_message :: "UseCaseError \<Rightarrow> string" where
  "error_message (UseCaseError m c) = m"

fun error_code :: "UseCaseError \<Rightarrow> string" where
  "error_code (UseCaseError m c) = c"

datatype ('t, 'e) Result = success 't | failure 'e

text \<open>The events of \<^verbatim>\<open>ChatEvents\<close> that the code emits.\<close>

datatype ChatEvent =
    user_connected UserId string
  | user_disconnected UserId
  | user_status_changed UserId UserStatus
  | message_sent MessageId RoomId UserId
  | message_edited MessageId
  | message_deleted MessageId
  | room_user_joined RoomId UserId
  | room_user_left RoomId UserId

text \<open>
  What a handler reads from its environment while it processes one frame: the clock and
  the identifier generator. All reads of \<^verbatim>\<open>Date.now()\<close> made for one frame return \<open>now\<close>.
\<close>

record Env =
  now :: int
  nanoid :: "nat \<Rightarrow> string"

section \<open>The session state and the registry (src/server/connectionManager.ts)\<close>

record ConnectionState =
  userId :: "UserId option"
  roomId :: "string option"
  username :: "string option"
  typingTimeout :: "nat option"
  lastMessageTime :: int
  messageCount :: int

text \<open>JavaScript truthiness of a \<^verbatim>\<open>string | null\<close>: \<^verbatim>\<open>null\<close> and the empty string are falsy.\<close>

definition truthy :: "string option \<Rightarrow> bool" where
  "truthy v = (case v of None \<Rightarrow> False | Some x \<Rightarrow> x \<noteq> [])"

text \<open>The cast \<^verbatim>\<open>v as string\<close>, used by the source only behind a truthiness guard.\<close>

definition asString :: "string option \<Rightarrow> string" where
  "asString v = (case v of None \<Rightarrow> [] | Some x \<Rightarrow> x)"

text \<open>
  The state of the server process as far as the connection manager can change or observe
  it. The three maps are the private fields of \<^verbatim>\<open>ConnectionManager\<close>; a subscriber
  \<^verbatim>\<open>Set\<close> is a duplicate-free list in insertion order, which is the order a broadcast
  iterates in. The socket object of a connection is identified with its connection id, so
  its mutable \<^verbatim>\<open>data.state\<close> is the value stored under that id. \<open>store\<close> is the
  database behind the unit of work, \<open>emitted\<close> the domain events published so far,
  \<open>sent\<close> the frames handed to \<^verbatim>\<open>ws.send\<close> in order (a throwing \<^verbatim>\<open>ws.send\<close> is caught
  and logged by the source, so it changes nothing else), \<open>timers\<close> the pending
  \<^verbatim>\<open>setTimeout\<close> callbacks by handle: each one is a call of \<^verbatim>\<open>handleTypingStop\<close> with
  the captured connection id and payload, to run after the recorded delay.
\<close>

record 'db Server =
  connections :: "ConnId \<rightharpoonup> ConnectionState"
  userConnections :: "UserId \<rightharpoonup> ConnId"
  roomSubscriptions :: "RoomId \<rightharpoonup> ConnId list"
  store :: 'db
  emitted :: "ChatEvent list"
  sent :: "(ConnId \<times> ServerEvent) list"
  timers :: "nat \<rightharpoonup> (ConnId \<times> RoomId \<times> nat)"
  nextTimer :: nat

definition initialState :: ConnectionState where
  "initialState = \<lparr> userId = None, roomId = None, username = None, typingTimeout = None,
     lastMessageTime = 0, messageCount = 0 \<rparr>"

definition newServer :: "'db \<Rightarrow> 'db Server" where
  "newServer d = \<lparr> connections = Map.empty, userConnections = Map.empty,
     roomSubscriptions = Map.empty, store = d, emitted = [], sent = [],
     timers = Map.empty, nextTimer = 0 \<rparr>"

text \<open>
  A write to a field of the state object of a connection. The handlers receive the object
  (\<open>state\<close>, read when the frame is dispatched) and the connection id; they read the
  fields from \<open>state\<close> and write them through \<open>modState\<close>. No handler reads a field
  after it has written it, so the value read at dispatch is the value the source reads.
\<close>

definition modState ::
  "ConnId \<Rightarrow> (ConnectionState \<Rightarrow> ConnectionState) \<Rightarrow> 'db Server \<Rightarrow> 'db Server" where
  "modState connectionId f s =
     s\<lparr> connections := (connections s)(connectionId := map_option f (connections s connectionId)) \<rparr>"

definition addConnection :: "ConnId \<Rightarrow> ConnectionState \<Rightarrow> 'db Server \<Rightarrow> 'db Server" where
  "addConnection connectionId ws s = s\<lparr> connections := (connections s)(connectionId \<mapsto> ws) \<rparr>"

definition set_add :: "'a \<Rightarrow> 'a list \<Rightarrow> 'a list" where
  "set_add x xs = (if x \<in> set xs then xs else xs @ [x])"

definition ConnectionManager_joinRoom :: "ConnId \<Rightarrow> RoomId \<Rightarrow> 'db Server \<Rightarrow> 'db Server" where
  "ConnectionManager_joinRoom connectionId rid s =
     (let subscribers = (case roomSubscriptions s rid of None \<Rightarrow> [] | Some subs \<Rightarrow> subs)
      in s\<lparr> roomSubscriptions := (roomSubscriptions s)(rid \<mapsto> set_add connectionId subscribers) \<rparr>)"

definition ConnectionManager_leaveRoom :: "ConnId \<Rightarrow> RoomId \<Rightarrow> 'db Server \<Rightarrow> 'db Server" where
  "ConnectionManager_leaveRoom connectionId rid s =
     (case roomSubscriptions s rid of
        None \<Rightarrow> s
      | Some subscribers \<Rightarrow>
          (let subscribers' = removeAll connectionId subscribers
           in if subscribers' = []
              then s\<lparr> roomSubscriptions := (roomSubscriptions s)(rid := None) \<rparr>
              else s\<lparr> roomSubscriptions := (roomSubscriptions s)(rid \<mapsto> subscribers') \<rparr>))"

definition send :: "ConnId \<Rightarrow> ServerEvent \<Rightarrow> 'db Server \<Rightarrow> 'db Server" where
  "send ws event s = s\<lparr> sent := sent s @ [(ws, event)] \<rparr>"

definition broadcastToRoom ::
  "RoomId \<Rightarrow> ServerEvent \<Rightarrow> ConnId option \<Rightarrow> 'db Server \<Rightarrow> 'db Server" where
  "broadcastToRoom rid event excludeConnectionId s =
     (case roomSubscriptions s rid of
        None \<Rightarrow> s
      | Some subscribers \<Rightarrow>
          fold (\<lambda>connId s'.
                  if Some connId = excludeConnectionId then s'
                  else (case connections s' connId of
                          None \<Rightarrow> s'
                        | Some connection \<Rightarrow> send connId event s'))
               subscribers s)"

definition sendError :: "ConnId \<Rightarrow> string \<Rightarrow> string \<Rightarrow> 'db Server \<Rightarrow> 'db Server" where
  "sendError ws code message s = send ws (ERROR code message) s"

subsection \<open>Rate limiting\<close>

definition checkRateLimit :: "int \<Rightarrow> ConnectionState \<Rightarrow> bool \<times> ConnectionState" where
  "checkRateLimit t state =
     (let oneMinuteAgo = t - 60000;
          state1 = (if lastMessageTime state < oneMinuteAgo
                    then state\<lparr> messageCount := 0, lastMessageTime := t \<rparr>
                    else state);
          state2 = state1\<lparr> messageCount := messageCount state1 + 1, lastMessageTime := t \<rparr>
      in (messageCount state2 \<le> RATE_LIMIT_MESSAGES_PER_MINUTE, state2))"

text \<open>\<^verbatim>\<open>validateUserAuthorized\<close> and \<^verbatim>\<open>validateRateLimit\<close>: the verdict and the state after.\<close>

definition validateUserAuthorized ::
  "ConnectionState \<Rightarrow> ConnId \<Rightarrow> 'db Server \<Rightarrow> bool \<times> 'db Server" where
  "validateUserAuthorized state ws s =
     (if \<not> truthy (userId state) \<or> \<not> truthy (username state)
      then (False, sendError ws ''UNAUTHORIZED'' ''Must join a room first'' s)
      else (True, s))"

definition validateRateLimit ::
  "int \<Rightarrow> ConnectionState \<Rightarrow> ConnId \<Rightarrow> 'db Server \<Rightarrow> bool \<times> 'db Server" where
  "validateRateLimit t state ws s =
     (let (ok, state') = checkRateLimit t state;
          s1 = modState ws (\<lambda>st. st\<lparr> messageCount := messageCount state',
                                      lastMessageTime := lastMessageTime state' \<rparr>) s
      in if \<not> ok
         then (False, sendError ws ''RATE_LIMITED'' ''Too many messages. Please slow down.'' s1)
         else (True, s1))"

subsection \<open>Typing timers\<close>

definition clearTimeout :: "nat \<Rightarrow> 'db Server \<Rightarrow> 'db Server" where
  "clearTimeout h s = s\<lparr> timers := (timers s)(h := None) \<rparr>"

definition setTimeout :: "ConnId \<times> RoomId \<Rightarrow> nat \<Rightarrow> 'db Server \<Rightarrow> nat \<times> 'db Server" where
  "setTimeout callback delay s =
     (nextTimer s,
      s\<lparr> timers := (timers s)(nextTimer s \<mapsto> (fst callback, snd callback, delay)),
         nextTimer := nextTimer s + 1 \<rparr>)"

definition handleTypingStop ::
  "ConnId \<Rightarrow> ConnectionState \<Rightarrow> RoomId \<Rightarrow> 'db Server \<Rightarrow> 'db Server" where
  "handleTypingStop connectionId state payload_roomId s =
     (if \<not> truthy (userId state) then s
      else
        (let s1 = (case typingTimeout state of
                     Some h \<Rightarrow> modState connectionId (\<lambda>st. st\<lparr> typingTimeout := None \<rparr>)
                                 (clearTimeout h s)
                   | None \<Rightarrow> s)
         in broadcastToRoom payload_roomId
              (USER_STOPPED_TYPING (userId state) payload_roomId) (Some connectionId) s1))"

definition handleTypingStart ::
  "ConnId \<Rightarrow> ConnectionState \<Rightarrow> RoomId \<Rightarrow> 'db Server \<Rightarrow> 'db Server" where
  "handleTypingStart connectionId state payload_roomId s =
     (if \<not> truthy (userId state) \<or> \<not> truthy (username state) then s
      else
        (let s1 = (case typingTimeout state of Some h \<Rightarrow> clearTimeout h s | None \<Rightarrow> s);
             (h', s2) = setTimeout (connectionId, payload_roomId) TYPING_TIMEOUT_MS s1;
             s3 = modState connectionId (\<lambda>st. st\<lparr> typingTimeout := Some h' \<rparr>) s2
         in broadcastToRoom payload_roomId
              (USER_TYPING (userId state) (username state) payload_roomId)
              (Some connectionId) s3))"

text \<open>
  The run time firing a pending timer: the handle leaves the pending set and the callback
  runs on the state object it captured, which is the state stored under the connection
  id (\<^verbatim>\<open>removeConnection\<close> cancels the timer before it unregisters the connection, so a
  pending timer belongs to a registered connection; for a handle that is not pending, or
  whose connection is gone, nothing runs).
\<close>

definition fireTimer :: "nat \<Rightarrow> 'db Server \<Rightarrow> 'db Server" where
  "fireTimer h s =
     (case timers s h of
        None \<Rightarrow> s
      | Some (connectionId, payload_roomId, delay) \<Rightarrow>
          (let s1 = s\<lparr> timers := (timers s)(h := None) \<rparr>
           in case connections s1 connectionId of
                None \<Rightarrow> s1
              | Some state \<Rightarrow> handleTypingStop connectionId state payload_roomId s1))"

section \<open>The storage ports (interface UnitOfWork)\<close>

text \<open>
  The connection manager and the use cases are written against the repository
  interfaces, so the model takes the unit of work as a parameter: a record of the
  repository methods the use cases and the manager call, as functions of the database
  value \<open>'db\<close>. A query returns its answer or the exception it rejects with; a command
  returns the database after it, or the exception (a rejected statement leaves the
  database as it was). Commands that stamp \<^verbatim>\<open>Date.now()\<close> take the clock value first.
\<close>

record 'db UnitOfWork =
  users_findById :: "'db \<Rightarrow> UserId \<Rightarrow> error + User option"
  users_findByUsername :: "'db \<Rightarrow> string \<Rightarrow> error + User option"
  users_save :: "int \<Rightarrow> 'db \<Rightarrow> User \<Rightarrow> error + 'db"
  users_findByIds :: "'db \<Rightarrow> UserId list \<Rightarrow> error + User list"
  users_updateStatus :: "int \<Rightarrow> 'db \<Rightarrow> UserId \<Rightarrow> UserStatus \<Rightarrow> error + 'db"
  users_updateLastSeen :: "int \<Rightarrow> 'db \<Rightarrow> UserId \<Rightarrow> error + 'db"
  messages_findById :: "'db \<Rightarrow> MessageId \<Rightarrow> error + Message option"
  messages_findByRoom :: "'db \<Rightarrow> RoomId \<Rightarrow> nat \<Rightarrow> int option \<Rightarrow> error + Message list"
  messages_save :: "int \<Rightarrow> 'db \<Rightarrow> Message \<Rightarrow> error + 'db"
  messages_update :: "int \<Rightarrow> 'db \<Rightarrow> Message \<Rightarrow> error + 'db"
  messages_delete :: "int \<Rightarrow> 'db \<Rightarrow> MessageId \<Rightarrow> error + 'db"
  rooms_findById :: "'db \<Rightarrow> RoomId \<Rightarrow> error + Room option"
  rooms_findAll :: "'db \<Rightarrow> error + Room list"
  rooms_addParticipant :: "int \<Rightarrow> 'db \<Rightarrow> RoomId \<Rightarrow> UserId \<Rightarrow> error + 'db"
  rooms_removeParticipant :: "'db \<Rightarrow> RoomId \<Rightarrow> UserId \<Rightarrow> error + 'db"
  rooms_getParticipants :: "'db \<Rightarrow> RoomId \<Rightarrow> error + UserId list"
  rooms_getParticipantCount :: "'db \<Rightarrow> RoomId \<Rightarrow> error + nat"

subsection \<open>Sequencing of awaited calls\<close>

text \<open>
  An \<^verbatim>\<open>async\<close> function is a function of the state it runs in that returns its result
  (or the exception it rejects with) and the state after: what it changed before it threw
  stays changed. \<open>bindE\<close> is \<^verbatim>\<open>await\<close>: the rest runs only if the awaited call returned.
\<close>

definition returnE :: "'a \<Rightarrow> 's \<Rightarrow> (error + 'a) \<times> 's" where
  "returnE x s = (Inr x, s)"

definition throwE :: "error \<Rightarrow> 's \<Rightarrow> (error + 'a) \<times> 's" where
  "throwE e s = (Inl e, s)"

definition bindE ::
  "('s \<Rightarrow> (error + 'a) \<times> 's) \<Rightarrow> ('a \<Rightarrow> 's \<Rightarrow> (error + 'b) \<times> 's) \<Rightarrow> 's \<Rightarrow> (error + 'b) \<times> 's" where
  "bindE m f s = (case m s of (Inl e, s') \<Rightarrow> (Inl e, s') | (Inr x, s') \<Rightarrow> f x s')"

text \<open>A use case runs on the database and the list of domain events it has emitted.\<close>

type_synonym ('db, 'a) uc = "'db \<times> ChatEvent list \<Rightarrow> (error + 'a) \<times> ('db \<times> ChatEvent list)"

definition query :: "('db \<Rightarrow> error + 'a) \<Rightarrow> ('db, 'a) uc" where
  "query q = (\<lambda>(d, evs). (case q d of Inl e \<Rightarrow> (Inl e, (d, evs)) | Inr x \<Rightarrow> (Inr x, (d, evs))))"

definition command :: "('db \<Rightarrow> error + 'db) \<Rightarrow> ('db, unit) uc" where
  "command c = (\<lambda>(d, evs). (case c d of Inl e \<Rightarrow> (Inl e, (d, evs)) | Inr d' \<Rightarrow> (Inr (), (d', evs))))"

definition emit :: "ChatEvent \<Rightarrow> ('db, unit) uc" where
  "emit e = (\<lambda>(d, evs). (Inr (), (d, evs @ [e])))"

fun mapE :: "('a \<Rightarrow> 's \<Rightarrow> (error + 'b) \<times> 's) \<Rightarrow> 'a list \<Rightarrow> 's \<Rightarrow> (error + 'b list) \<times> 's" where
  "mapE f [] = returnE []"
| "mapE f (x # xs) = bindE (f x) (\<lambda>y. bindE (mapE f xs) (\<lambda>ys. returnE (y # ys)))"

section \<open>Entity factories (src/domain/entities.ts)\<close>

definition AVATAR_COLORS :: "string list" where
  "AVATAR_COLORS = [''#FF6B6B'', ''#4ECDC4'', ''#45B7D1'', ''#96CEB4'', ''#FFEAA7'', ''#DDA0DD'',
     ''#98D8C8'', ''#F7DC6F'', ''#BB8FCE'', ''#85C1E9'', ''#F8B500'', ''#FF6F61'']"

definition generateAvatar :: "string \<Rightarrow> string" where
  "generateAvatar name =
     (let hash = sum_list (map (\<lambda>c. (of_char c :: nat)) name);
          i = hash mod length AVATAR_COLORS
      in if i < length AVATAR_COLORS then AVATAR_COLORS ! i else ''#4ECDC4'')"

definition UserFactory_create :: "Env \<Rightarrow> string \<Rightarrow> User" where
  "UserFactory_create env name =
     \<lparr> user_id = nanoid env 12, user_username = name, user_avatar = generateAvatar name,
       user_status = online, user_joinedAt = now env \<rparr>"

definition UserFactory_updateStatus :: "User \<Rightarrow> UserStatus \<Rightarrow> User" where
  "UserFactory_updateStatus user status = user\<lparr> user_status := status \<rparr>"

definition MessageFactory_create ::
  "Env \<Rightarrow> RoomId \<Rightarrow> UserId \<Rightarrow> string \<Rightarrow> MessageId option \<Rightarrow> Message" where
  "MessageFactory_create env rid authorId content replyTo =
     \<lparr> msg_id = nanoid env 16, msg_roomId = rid, msg_authorId = authorId,
       msg_content = content, msg_createdAt = now env, msg_editedAt = None,
       msg_replyTo = replyTo \<rparr>"

definition MessageFactory_edit :: "Env \<Rightarrow> Message \<Rightarrow> string \<Rightarrow> Message" where
  "MessageFactory_edit env message newContent =
     message\<lparr> msg_content := newContent, msg_editedAt := Some (now env) \<rparr>"

definition truncateForPreview :: "string \<Rightarrow> string" where
  "truncateForPreview content =
     (if length content \<le> 50 then content else take 50 content @ ''...'')"

section \<open>The use cases (src/application/useCases.ts)\<close>

definition getOrCreateUser :: "'db UnitOfWork \<Rightarrow> Env \<Rightarrow> string \<Rightarrow> ('db, User) uc" where
  "getOrCreateUser uow env name =
     bindE (query (\<lambda>d. users_findByUsername uow d name)) (\<lambda>existingUser.
       case existingUser of
         Some existing \<Rightarrow>
           bindE (command (\<lambda>d. users_updateStatus uow (now env) d (user_id existing) online)) (\<lambda>_.
             returnE (UserFactory_updateStatus existing online))
       | None \<Rightarrow>
           (let newUser = UserFactory_create env name
            in bindE (command (\<lambda>d. users_save uow (now env) d newUser)) (\<lambda>_. returnE newUser)))"

definition messageToDTO :: "'db UnitOfWork \<Rightarrow> Message \<Rightarrow> ('db, MessageDTO) uc" where
  "messageToDTO uow message =
     bindE (query (\<lambda>d. users_findById uow d (msg_authorId message))) (\<lambda>author.
       case author of
         None \<Rightarrow> throwE (Error (''Author '' @ msg_authorId message
                                 @ '' not found for message '' @ msg_id message))
       | Some author \<Rightarrow>
           bindE (if truthy (msg_replyTo message)
                  then bindE (query (\<lambda>d. messages_findById uow d (asString (msg_replyTo message))))
                         (\<lambda>replyMessage.
                            case replyMessage of
                              None \<Rightarrow> returnE None
                            | Some replyMessage \<Rightarrow>
                                bindE (query (\<lambda>d. users_findById uow d (msg_authorId replyMessage)))
                                  (\<lambda>replyAuthor. returnE (Some
                                     \<lparr> reply_id = msg_id replyMessage,
                                       reply_authorUsername =
                                         (case replyAuthor of
                                            Some a \<Rightarrow> user_username a
                                          | None \<Rightarrow> ''Unknown''),
                                       reply_contentPreview =
                                         truncateForPreview (msg_content replyMessage) \<rparr>)))
                  else returnE None)
             (\<lambda>replyInfo. returnE
                \<lparr> dto_id = msg_id message, dto_roomId = msg_roomId message,
                  dto_author_id = user_id author, dto_author_username = user_username author,
                  dto_author_avatar = user_avatar author, dto_content = msg_content message,
                  dto_createdAt = msg_createdAt message, dto_editedAt = msg_editedAt message,
                  dto_replyTo = replyInfo \<rparr>))"

definition getRoomMessagesWithAuthors :: "'db UnitOfWork \<Rightarrow> RoomId \<Rightarrow> ('db, MessageDTO list) uc" where
  "getRoomMessagesWithAuthors uow rid =
     bindE (query (\<lambda>d. messages_findByRoom uow d rid 50 None)) (\<lambda>messages.
       mapE (messageToDTO uow) messages)"

definition getOnlineParticipants :: "'db UnitOfWork \<Rightarrow> RoomId \<Rightarrow> ('db, User list) uc" where
  "getOnlineParticipants uow rid =
     bindE (query (\<lambda>d. rooms_getParticipants uow d rid)) (\<lambda>participantIds.
       bindE (query (\<lambda>d. users_findByIds uow d participantIds)) (\<lambda>users.
         returnE (filter (\<lambda>u. user_status u \<noteq> offline) users)))"

definition emitJoinEvents :: "RoomId \<Rightarrow> User \<Rightarrow> ('db, unit) uc" where
  "emitJoinEvents rid user =
     bindE (emit (room_user_joined rid (user_id user))) (\<lambda>_.
       emit (user_connected (user_id user) (user_username user)))"

definition buildRoomInfo :: "Room \<Rightarrow> nat \<Rightarrow> RoomInfo" where
  "buildRoomInfo room participantCount =
     \<lparr> info_id = room_id room, info_name = room_name room,
       info_description = room_description room, info_participantCount = participantCount \<rparr>"

record JoinRoomOutput =
  out_user :: User
  out_room :: RoomInfo
  out_messages :: "MessageDTO list"
  out_users :: "User list"

definition useCases_joinRoom ::
  "'db UnitOfWork \<Rightarrow> Env \<Rightarrow> RoomId \<Rightarrow> string \<Rightarrow> ('db, (JoinRoomOutput, UseCaseError) Result) uc" where
  "useCases_joinRoom uow env in_roomId in_username =
     bindE (query (\<lambda>d. rooms_findById uow d in_roomId)) (\<lambda>room.
       case room of
         None \<Rightarrow> returnE (failure (UseCaseError
                   (''Room '' @ [CHR 0x27] @ in_roomId @ [CHR 0x27] @ '' not found'')
                   ''ROOM_NOT_FOUND''))
       | Some room \<Rightarrow>
           bindE (getOrCreateUser uow env in_username) (\<lambda>user.
           bindE (command (\<lambda>d. rooms_addParticipant uow (now env) d in_roomId (user_id user))) (\<lambda>_.
           bindE (getRoomMessagesWithAuthors uow in_roomId) (\<lambda>messageDTOs.
           bindE (getOnlineParticipants uow in_roomId) (\<lambda>onlineUsers.
           bindE (query (\<lambda>d. rooms_getParticipantCount uow d in_roomId)) (\<lambda>participantCount.
           bindE (emitJoinEvents in_roomId user) (\<lambda>_.
             returnE (success \<lparr> out_user = user,
                                out_room = buildRoomInfo room participantCount,
                                out_messages = messageDTOs,
                                out_users = onlineUsers \<rparr>))))))))"

definition useCases_leaveRoom ::
  "'db UnitOfWork \<Rightarrow> Env \<Rightarrow> RoomId \<Rightarrow> UserId \<Rightarrow> ('db, (unit, UseCaseError) Result) uc" where
  "useCases_leaveRoom uow env in_roomId in_userId =
     bindE (query (\<lambda>d. rooms_findById uow d in_roomId)) (\<lambda>room.
       case room of
         None \<Rightarrow> returnE (failure (UseCaseError ''Room not found'' ''ROOM_NOT_FOUND''))
       | Some room \<Rightarrow>
           bindE (command (\<lambda>d. rooms_removeParticipant uow d in_roomId in_userId)) (\<lambda>_.
           bindE (command (\<lambda>d. users_updateStatus uow (now env) d in_userId offline)) (\<lambda>_.
           bindE (command (\<lambda>d. users_updateLastSeen uow (now env) d in_userId)) (\<lambda>_.
           bindE (emit (room_user_left in_roomId in_userId)) (\<lambda>_.
             returnE (success ()))))))"

record SendMessageInput =
  input_roomId :: string
  input_authorId :: string
  input_content :: string
  input_replyTo :: "string option"

definition useCases_sendMessage ::
  "'db UnitOfWork \<Rightarrow> Env \<Rightarrow> SendMessageInput \<Rightarrow> ('db, (MessageDTO, UseCaseError) Result) uc" where
  "useCases_sendMessage uow env input =
     bindE (query (\<lambda>d. rooms_findById uow d (input_roomId input))) (\<lambda>room.
       case room of
         None \<Rightarrow> returnE (failure (UseCaseError ''Room not found'' ''ROOM_NOT_FOUND''))
       | Some room \<Rightarrow>
           bindE (query (\<lambda>d. users_findById uow d (input_authorId input))) (\<lambda>author.
             case author of
               None \<Rightarrow> returnE (failure (UseCaseError ''User not found'' ''USER_NOT_FOUND''))
             | Some author \<Rightarrow>
                 (let message = MessageFactory_create env (input_roomId input)
                                  (input_authorId input) (input_content input)
                                  (if truthy (input_replyTo input) then input_replyTo input
                                   else None)
                  in bindE (command (\<lambda>d. messages_save uow (now env) d message)) (\<lambda>_.
                     bindE (emit (message_sent (msg_id message) (input_roomId input)
                                    (input_authorId input))) (\<lambda>_.
                     bindE (messageToDTO uow message) (\<lambda>dto.
                       returnE (success dto)))))))"

definition useCases_editMessage ::
  "'db UnitOfWork \<Rightarrow> Env \<Rightarrow> MessageId \<Rightarrow> UserId \<Rightarrow> string
     \<Rightarrow> ('db, (Message, UseCaseError) Result) uc" where
  "useCases_editMessage uow env in_messageId in_userId in_content =
     bindE (query (\<lambda>d. messages_findById uow d in_messageId)) (\<lambda>message.
       case message of
         None \<Rightarrow> returnE (failure (UseCaseError ''Message not found'' ''MESSAGE_NOT_FOUND''))
       | Some message \<Rightarrow>
           if msg_authorId message \<noteq> in_userId
           then returnE (failure (UseCaseError ''Not authorized to edit this message''
                                    ''UNAUTHORIZED''))
           else (let updatedMessage = MessageFactory_edit env message in_content
                 in bindE (command (\<lambda>d. messages_update uow (now env) d updatedMessage)) (\<lambda>_.
                    bindE (emit (message_edited in_messageId)) (\<lambda>_.
                      returnE (success updatedMessage)))))"

definition useCases_deleteMessage ::
  "'db UnitOfWork \<Rightarrow> Env \<Rightarrow> MessageId \<Rightarrow> UserId \<Rightarrow> ('db, (unit, UseCaseError) Result) uc" where
  "useCases_deleteMessage uow env in_messageId in_userId =
     bindE (query (\<lambda>d. messages_findById uow d in_messageId)) (\<lambda>message.
       case message of
         None \<Rightarrow> returnE (failure (UseCaseError ''Message not found'' ''MESSAGE_NOT_FOUND''))
       | Some message \<Rightarrow>
           if msg_authorId message \<noteq> in_userId
           then returnE (failure (UseCaseError ''Not authorized to delete this message''
                                    ''UNAUTHORIZED''))
           else bindE (command (\<lambda>d. messages_delete uow (now env) d in_messageId)) (\<lambda>_.
                bindE (emit (message_deleted in_messageId)) (\<lambda>_.
                  returnE (success ()))))"

definition useCases_updateUserStatus ::
  "'db UnitOfWork \<Rightarrow> Env \<Rightarrow> UserId \<Rightarrow> UserStatus \<Rightarrow> ('db, (User, UseCaseError) Result) uc" where
  "useCases_updateUserStatus uow env in_userId in_status =
     bindE (query (\<lambda>d. users_findById uow d in_userId)) (\<lambda>user.
       case user of
         None \<Rightarrow> returnE (failure (UseCaseError ''User not found'' ''USER_NOT_FOUND''))
       | Some user \<Rightarrow>
           bindE (command (\<lambda>d. users_updateStatus uow (now env) d in_userId in_status)) (\<lambda>_.
           bindE (emit (user_status_changed in_userId in_status)) (\<lambda>_.
             returnE (success (UserFactory_updateStatus user in_status)))))"

definition useCases_getRooms :: "'db UnitOfWork \<Rightarrow> ('db, RoomInfo list) uc" where
  "useCases_getRooms uow =
     bindE (query (rooms_findAll uow)) (\<lambda>rooms.
       mapE (\<lambda>room. bindE (query (\<lambda>d. rooms_getParticipantCount uow d (room_id room)))
                      (\<lambda>participantCount. returnE (buildRoomInfo room participantCount)))
            rooms)"

section \<open>The connection manager's handlers (src/server/connectionManager.ts)\<close>

text \<open>
  The listeners that the constructor registers on the event emitter. Only
  \<^verbatim>\<open>user:status-changed\<close> has a listener that does anything: it resolves the rooms of
  the user and broadcasts to each. The listener is an \<^verbatim>\<open>async\<close> function called by
  \<^verbatim>\<open>emit\<close> without a handler for its rejection, so a failing \<^verbatim>\<open>findAll\<close> is not seen
  by the emitter.
\<close>

definition getRoomsForUser :: "'db UnitOfWork \<Rightarrow> UserId \<Rightarrow> 'db \<Rightarrow> error + RoomId list" where
  "getRoomsForUser uow uid d =
     (case rooms_findAll uow d of
        Inl e \<Rightarrow> Inl e
      | Inr rooms \<Rightarrow> Inr (map room_id (filter (\<lambda>room. uid \<in> room_participants room) rooms)))"

definition deliver :: "'db UnitOfWork \<Rightarrow> ChatEvent \<Rightarrow> 'db Server \<Rightarrow> 'db Server" where
  "deliver uow ev s =
     (case ev of
        user_status_changed uid status \<Rightarrow>
          (case getRoomsForUser uow uid (store s) of
             Inl e \<Rightarrow> s
           | Inr rooms \<Rightarrow>
               fold (\<lambda>rid s'. broadcastToRoom rid (USER_STATUS_CHANGED uid status) None s') rooms s)
      | _ \<Rightarrow> s)"

text \<open>
  A call of a use case from a handler: the use case runs on the database, the events it
  emitted are published (recorded, and handed to the listeners), and its result or its
  exception comes back to the handler.
\<close>

definition runUseCase ::
  "'db UnitOfWork \<Rightarrow> ('db, 'a) uc \<Rightarrow> 'db Server \<Rightarrow> (error + 'a) \<times> 'db Server" where
  "runUseCase uow m s =
     (case m (store s, []) of
        (r, (d', evs)) \<Rightarrow>
          (r, fold (deliver uow) evs (s\<lparr> store := d', emitted := emitted s @ evs \<rparr>)))"

definition handleJoinRoom ::
  "'db UnitOfWork \<Rightarrow> Env \<Rightarrow> ConnId \<Rightarrow> RoomId \<Rightarrow> string \<Rightarrow> 'db Server \<Rightarrow> (error + unit) \<times> 'db Server" where
  "handleJoinRoom uow env connectionId payload_roomId payload_username =
     bindE (runUseCase uow (useCases_joinRoom uow env payload_roomId payload_username)) (\<lambda>result.
       case result of
         failure err \<Rightarrow>
           (\<lambda>s. (Inr (), send connectionId (ERROR (error_code err) (error_message err)) s))
       | success out \<Rightarrow>
           bindE (\<lambda>s.
             (let user = out_user out;
                  s1 = modState connectionId
                         (\<lambda>st. st\<lparr> userId := Some (user_id user), roomId := Some payload_roomId,
                                    username := Some (user_username user) \<rparr>) s;
                  s2 = s1\<lparr> userConnections := (userConnections s1)(user_id user \<mapsto> connectionId) \<rparr>
              in (Inr (), ConnectionManager_joinRoom connectionId payload_roomId s2)))
           (\<lambda>_. bindE (runUseCase uow (useCases_getRooms uow)) (\<lambda>rooms s.
             (let user = out_user out;
                  s1 = send connectionId (CONNECTED user rooms) s;
                  s2 = send connectionId
                         (ROOM_HISTORY payload_roomId (out_messages out) (out_users out)) s1
              in (Inr (), broadcastToRoom payload_roomId (USER_JOINED user payload_roomId)
                            (Some connectionId) s2)))))"

definition handleLeaveRoom ::
  "'db UnitOfWork \<Rightarrow> Env \<Rightarrow> ConnId \<Rightarrow> ConnectionState \<Rightarrow> RoomId \<Rightarrow> 'db Server
     \<Rightarrow> (error + unit) \<times> 'db Server" where
  "handleLeaveRoom uow env connectionId state payload_roomId =
     (if \<not> truthy (userId state) \<or> \<not> truthy (roomId state) then returnE ()
      else
        bindE (runUseCase uow (useCases_leaveRoom uow env payload_roomId (asString (userId state))))
          (\<lambda>_ s. (Inr (), broadcastToRoom payload_roomId (USER_LEFT (userId state) payload_roomId)
                             None (ConnectionManager_leaveRoom connectionId payload_roomId s))))"

definition buildSendMessageInput ::
  "ConnectionState \<Rightarrow> RoomId \<Rightarrow> string \<Rightarrow> string option \<Rightarrow> SendMessageInput" where
  "buildSendMessageInput state payload_roomId payload_content payload_replyTo =
     \<lparr> input_roomId = payload_roomId, input_authorId = asString (userId state),
       input_content = payload_content,
       input_replyTo = (if truthy payload_replyTo then payload_replyTo else None) \<rparr>"

definition handleSendMessage ::
  "'db UnitOfWork \<Rightarrow> Env \<Rightarrow> ConnId \<Rightarrow> ConnectionState \<Rightarrow> RoomId \<Rightarrow> string \<Rightarrow> string option
     \<Rightarrow> 'db Server \<Rightarrow> (error + unit) \<times> 'db Server" where
  "handleSendMessage uow env connectionId state payload_roomId payload_content payload_replyTo s =
     (case validateUserAuthorized state connectionId s of
        (False, s1) \<Rightarrow> (Inr (), s1)
      | (True, s1) \<Rightarrow>
          (case validateRateLimit (now env) state connectionId s1 of
             (False, s2) \<Rightarrow> (Inr (), s2)
           | (True, s2) \<Rightarrow>
               bindE (runUseCase uow
                        (useCases_sendMessage uow env
                           (buildSendMessageInput state payload_roomId payload_content
                              payload_replyTo)))
                 (\<lambda>result.
                    case result of
                      failure err \<Rightarrow>
                        (\<lambda>s. (Inr (), sendError connectionId (error_code err) (error_message err) s))
                    | success dto \<Rightarrow>
                        (\<lambda>s. (Inr (), broadcastToRoom payload_roomId (MESSAGE_RECEIVED dto) None
                                         (handleTypingStop connectionId state payload_roomId s))))
                 s2))"

definition handleEditMessage ::
  "'db UnitOfWork \<Rightarrow> Env \<Rightarrow> ConnId \<Rightarrow> ConnectionState \<Rightarrow> MessageId \<Rightarrow> string \<Rightarrow> 'db Server
     \<Rightarrow> (error + unit) \<times> 'db Server" where
  "handleEditMessage uow env ws state payload_messageId payload_content =
     (if \<not> truthy (userId state) then returnE ()
      else
        bindE (runUseCase uow
                 (useCases_editMessage uow env payload_messageId (asString (userId state))
                    payload_content))
          (\<lambda>result.
             case result of
               failure err \<Rightarrow>
                 (\<lambda>s. (Inr (), send ws
                          (ERROR (if error_code err = ''MESSAGE_NOT_FOUND''
                                     \<or> error_code err = ''UNAUTHORIZED''
                                  then error_code err else ''INTERNAL_ERROR'')
                                 (error_message err)) s))
             | success message \<Rightarrow>
                 (\<lambda>s. (Inr (),
                    if truthy (roomId state)
                    then broadcastToRoom (asString (roomId state))
                           (MESSAGE_EDITED payload_messageId payload_content (msg_editedAt message))
                           None s
                    else s))))"

definition handleDeleteMessage ::
  "'db UnitOfWork \<Rightarrow> Env \<Rightarrow> ConnId \<Rightarrow> ConnectionState \<Rightarrow> MessageId \<Rightarrow> 'db Server
     \<Rightarrow> (error + unit) \<times> 'db Server" where
  "handleDeleteMessage uow env ws state payload_messageId =
     (if \<not> truthy (userId state) then returnE ()
      else
        bindE (runUseCase uow
                 (useCases_deleteMessage uow env payload_messageId (asString (userId state))))
          (\<lambda>result.
             case result of
               failure err \<Rightarrow>
                 (\<lambda>s. (Inr (), send ws (ERROR (error_code err) (error_message err)) s))
             | success _ \<Rightarrow>
                 (\<lambda>s. (Inr (),
                    if truthy (roomId state)
                    then broadcastToRoom (asString (roomId state))
                           (MESSAGE_DELETED payload_messageId) None s
                    else s))))"

definition handleUpdateStatus ::
  "'db UnitOfWork \<Rightarrow> Env \<Rightarrow> ConnectionState \<Rightarrow> UserStatus \<Rightarrow> 'db Server
     \<Rightarrow> (error + unit) \<times> 'db Server" where
  "handleUpdateStatus uow env state payload_status =
     (if \<not> truthy (userId state) then returnE ()
      else
        bindE (runUseCase uow
                 (useCases_updateUserStatus uow env (asString (userId state)) payload_status))
          (\<lambda>_. returnE ()))"

fun routeEvent ::
  "'db UnitOfWork \<Rightarrow> Env \<Rightarrow> ConnId \<Rightarrow> ConnectionState \<Rightarrow> ClientEvent \<Rightarrow> 'db Server
     \<Rightarrow> (error + unit) \<times> 'db Server" where
  "routeEvent uow env connectionId state (JOIN_ROOM rid name) =
     handleJoinRoom uow env connectionId rid name"
| "routeEvent uow env connectionId state (LEAVE_ROOM rid) =
     handleLeaveRoom uow env connectionId state rid"
| "routeEvent uow env connectionId state (SEND_MESSAGE rid content replyTo) =
     handleSendMessage uow env connectionId state rid content replyTo"
| "routeEvent uow env connectionId state (EDIT_MESSAGE mid content) =
     handleEditMessage uow env connectionId state mid content"
| "routeEvent uow env connectionId state (DELETE_MESSAGE mid) =
     handleDeleteMessage uow env connectionId state mid"
| "routeEvent uow env connectionId state (TYPING_START rid) =
     (\<lambda>s. (Inr (), handleTypingStart connectionId state rid s))"
| "routeEvent uow env connectionId state (TYPING_STOP rid) =
     (\<lambda>s. (Inr (), handleTypingStop connectionId state rid s))"
| "routeEvent uow env connectionId state (UPDATE_STATUS status) =
     handleUpdateStatus uow env state status"

text \<open>
  An inbound frame as \<^verbatim>\<open>handleMessage\<close> sees it after \<^verbatim>\<open>JSON.parse\<close> and the schema
  validator, both of which are libraries outside the manager: text that is no JSON, JSON
  that the schema refuses (with the messages of its issues), or a client event.
\<close>

datatype Frame = InvalidJson | SchemaInvalid "string list" | Valid ClientEvent

fun joinWith :: "string \<Rightarrow> string list \<Rightarrow> string" where
  "joinWith sep [] = []"
| "joinWith sep [x] = x"
| "joinWith sep (x # y # ys) = x @ sep @ joinWith sep (y # ys)"

definition handleMessage ::
  "'db UnitOfWork \<Rightarrow> Env \<Rightarrow> ConnId \<Rightarrow> Frame \<Rightarrow> 'db Server \<Rightarrow> (error + unit) \<times> 'db Server" where
  "handleMessage uow env connectionId rawMessage s =
     (case connections s connectionId of
        None \<Rightarrow> (Inr (), s)
      | Some state \<Rightarrow>
          (case rawMessage of
             InvalidJson \<Rightarrow> (Inr (), sendError connectionId ''INVALID_MESSAGE'' ''Invalid JSON'' s)
           | SchemaInvalid issues \<Rightarrow>
               (Inr (), sendError connectionId ''INVALID_MESSAGE'' (joinWith '', '' issues) s)
           | Valid event \<Rightarrow> routeEvent uow env connectionId state event s))"

text \<open>Publishing an event from the manager itself (\<^verbatim>\<open>this.events.emit\<close>).\<close>

definition emitEvent :: "'db UnitOfWork \<Rightarrow> ChatEvent \<Rightarrow> 'db Server \<Rightarrow> 'db Server" where
  "emitEvent uow ev s = deliver uow ev (s\<lparr> emitted := emitted s @ [ev] \<rparr>)"

definition storeCommand :: "('db \<Rightarrow> error + 'db) \<Rightarrow> 'db Server \<Rightarrow> (error + unit) \<times> 'db Server" where
  "storeCommand c s =
     (case c (store s) of Inl e \<Rightarrow> (Inl e, s) | Inr d' \<Rightarrow> (Inr (), s\<lparr> store := d' \<rparr>))"

definition removeConnection ::
  "'db UnitOfWork \<Rightarrow> Env \<Rightarrow> ConnId \<Rightarrow> 'db Server \<Rightarrow> (error + unit) \<times> 'db Server" where
  "removeConnection uow env connId s =
     bindE
       (case connections s connId of
          None \<Rightarrow> returnE ()
        | Some state \<Rightarrow>
            (\<lambda>s.
              (let s1 = (case typingTimeout state of Some h \<Rightarrow> clearTimeout h s | None \<Rightarrow> s);
                   s2 = (if truthy (roomId state)
                         then broadcastToRoom (asString (roomId state))
                                (USER_LEFT (userId state) (asString (roomId state)))
                                (Some connId)
                                (ConnectionManager_leaveRoom connId (asString (roomId state)) s1)
                         else s1)
               in if truthy (userId state)
                  then bindE (storeCommand (\<lambda>d. users_updateStatus uow (now env) d
                                                  (asString (userId state)) offline)) (\<lambda>_.
                       bindE (storeCommand (\<lambda>d. users_updateLastSeen uow (now env) d
                                                  (asString (userId state)))) (\<lambda>_ s'.
                         (Inr (), emitEvent uow (user_disconnected (asString (userId state))) s')))
                         s2
                  else (Inr (), s2))))
       (\<lambda>_ s'. (Inr (), s'\<lparr> connections := (connections s')(connId := None) \<rparr>))
       s"

section \<open>The SQLite repositories (src/infrastructure/database.ts, repositories.ts)\<close>

text \<open>
  The tables of the schema, each a list of rows in insertion order, with the columns of
  the row types of the source. The \<^verbatim>\<open>CHECK\<close> on \<^verbatim>\<open>users.status\<close> admits the three
  status names only, so the column holds a \<open>UserStatus\<close>.
\<close>

record UserRow =
  u_id :: string
  u_username :: string
  u_avatar :: string
  u_status :: UserStatus
  u_joined_at :: int
  u_last_seen_at :: "int option"
  u_created_at :: int
  u_updated_at :: int

record RoomRow =
  r_id :: string
  r_name :: string
  r_description :: string
  r_is_private :: int
  r_created_at :: int
  r_updated_at :: int

record RoomParticipantRow =
  p_room_id :: string
  p_user_id :: string
  p_joined_at :: int

record MessageRow =
  m_id :: string
  m_room_id :: string
  m_author_id :: string
  m_content :: string
  m_reply_to_id :: "string option"
  m_is_deleted :: int
  m_created_at :: int
  m_edited_at :: "int option"
  m_updated_at :: int

record Database =
  tbl_users :: "UserRow list"
  tbl_rooms :: "RoomRow list"
  tbl_room_participants :: "RoomParticipantRow list"
  tbl_messages :: "MessageRow list"

text \<open>
  A statement that violates a constraint of the schema throws (\<^verbatim>\<open>PRAGMA foreign_keys = ON\<close>).
  \<^verbatim>\<open>COLLATE NOCASE\<close> compares after folding the ASCII upper-case letters.
\<close>

definition constraintFailed :: "string \<Rightarrow> error" where
  "constraintFailed what = Error (what @ '' constraint failed'')"

definition lower_ascii :: "char \<Rightarrow> char" where
  "lower_ascii c =
     (if 65 \<le> (of_char c :: nat) \<and> (of_char c :: nat) \<le> 90
      then char_of ((of_char c :: nat) + 32) else c)"

definition nocase_eq :: "string \<Rightarrow> string \<Rightarrow> bool" where
  "nocase_eq a b = (map lower_ascii a = map lower_ascii b)"

definition userRowToEntity :: "UserRow \<Rightarrow> User" where
  "userRowToEntity row =
     \<lparr> user_id = u_id row, user_username = u_username row, user_avatar = u_avatar row,
       user_status = u_status row, user_joinedAt = u_joined_at row \<rparr>"

definition roomRowToEntity :: "RoomRow \<Rightarrow> UserId set \<Rightarrow> Room" where
  "roomRowToEntity row participants =
     \<lparr> room_id = r_id row, room_name = r_name row, room_description = r_description row,
       room_createdAt = r_created_at row, room_participants = participants \<rparr>"

definition messageRowToEntity :: "MessageRow \<Rightarrow> Message" where
  "messageRowToEntity row =
     \<lparr> msg_id = m_id row, msg_roomId = m_room_id row, msg_authorId = m_author_id row,
       msg_content = m_content row, msg_createdAt = m_created_at row,
       msg_editedAt = m_edited_at row, msg_replyTo = m_reply_to_id row \<rparr>"

subsection \<open>SQLiteUserRepository\<close>

definition SQLiteUserRepository_findById :: "Database \<Rightarrow> UserId \<Rightarrow> error + User option" where
  "SQLiteUserRepository_findById d i =
     Inr (map_option userRowToEntity (find (\<lambda>row. u_id row = i) (tbl_users d)))"

definition SQLiteUserRepository_findByUsername :: "Database \<Rightarrow> string \<Rightarrow> error + User option" where
  "SQLiteUserRepository_findByUsername d name =
     Inr (map_option userRowToEntity (find (\<lambda>row. nocase_eq (u_username row) name) (tbl_users d)))"

definition SQLiteUserRepository_save :: "int \<Rightarrow> Database \<Rightarrow> User \<Rightarrow> error + Database" where
  "SQLiteUserRepository_save t d user =
     (if \<exists>row \<in> set (tbl_users d). u_id row = user_id user
      then Inl (constraintFailed ''UNIQUE'')
      else if \<exists>row \<in> set (tbl_users d). nocase_eq (u_username row) (user_username user)
      then Inl (constraintFailed ''UNIQUE'')
      else Inr (d\<lparr> tbl_users := tbl_users d @
             [\<lparr> u_id = user_id user, u_username = user_username user,
                u_avatar = user_avatar user, u_status = user_status user,
                u_joined_at = user_joinedAt user, u_last_seen_at = None,
                u_created_at = t, u_updated_at = t \<rparr>] \<rparr>))"

text \<open>
  A \<^verbatim>\<open>SELECT\<close> without \<^verbatim>\<open>ORDER BY\<close> promises no order; the model returns the rows in
  table order.
\<close>

definition SQLiteUserRepository_findByIds :: "Database \<Rightarrow> UserId list \<Rightarrow> error + User list" where
  "SQLiteUserRepository_findByIds d ids =
     (if ids = [] then Inr []
      else Inr (map userRowToEntity (filter (\<lambda>row. u_id row \<in> set ids) (tbl_users d))))"

definition SQLiteUserRepository_updateStatus ::
  "int \<Rightarrow> Database \<Rightarrow> UserId \<Rightarrow> UserStatus \<Rightarrow> error + Database" where
  "SQLiteUserRepository_updateStatus t d i status =
     Inr (d\<lparr> tbl_users := map (\<lambda>row. if u_id row = i
                                        then row\<lparr> u_status := status, u_updated_at := t \<rparr>
                                        else row) (tbl_users d) \<rparr>)"

definition SQLiteUserRepository_updateLastSeen :: "int \<Rightarrow> Database \<Rightarrow> UserId \<Rightarrow> error + Database" where
  "SQLiteUserRepository_updateLastSeen t d i =
     Inr (d\<lparr> tbl_users := map (\<lambda>row. if u_id row = i
                                        then row\<lparr> u_last_seen_at := Some t, u_updated_at := t \<rparr>
                                        else row) (tbl_users d) \<rparr>)"

subsection \<open>SQLiteMessageRepository\<close>

definition SQLiteMessageRepository_findById :: "Database \<Rightarrow> MessageId \<Rightarrow> error + Message option" where
  "SQLiteMessageRepository_findById d i =
     Inr (map_option messageRowToEntity
            (find (\<lambda>row. m_id row = i \<and> m_is_deleted row = 0) (tbl_messages d)))"

text \<open>
  \<^verbatim>\<open>ORDER BY created_at DESC LIMIT ?\<close>, then reversed by the repository. The order among
  rows of equal \<^verbatim>\<open>created_at\<close> is not fixed by SQL; the model takes the later row first.
\<close>

definition SQLiteMessageRepository_findByRoom ::
  "Database \<Rightarrow> RoomId \<Rightarrow> nat \<Rightarrow> int option \<Rightarrow> error + Message list" where
  "SQLiteMessageRepository_findByRoom d rid limit before_ts =
     (let selected = filter (\<lambda>row. m_room_id row = rid \<and> m_is_deleted row = 0
                                   \<and> (case before_ts of None \<Rightarrow> True
                                       | Some b \<Rightarrow> m_created_at row < b))
                       (tbl_messages d);
          rows = take limit (rev (sort_key m_created_at selected))
      in Inr (rev (map messageRowToEntity rows)))"

definition SQLiteMessageRepository_save :: "int \<Rightarrow> Database \<Rightarrow> Message \<Rightarrow> error + Database" where
  "SQLiteMessageRepository_save t d message =
     (if \<exists>row \<in> set (tbl_messages d). m_id row = msg_id message
      then Inl (constraintFailed ''UNIQUE'')
      else if (\<forall>row \<in> set (tbl_rooms d). r_id row \<noteq> msg_roomId message)
            \<or> (\<forall>row \<in> set (tbl_users d). u_id row \<noteq> msg_authorId message)
            \<or> (case msg_replyTo message of
                  None \<Rightarrow> False
                | Some parent \<Rightarrow> parent \<noteq> msg_id message
                                 \<and> (\<forall>row \<in> set (tbl_messages d). m_id row \<noteq> parent))
      then Inl (constraintFailed ''FOREIGN KEY'')
      else Inr (d\<lparr> tbl_messages := tbl_messages d @
             [\<lparr> m_id = msg_id message, m_room_id = msg_roomId message,
                m_author_id = msg_authorId message, m_content = msg_content message,
                m_reply_to_id = msg_replyTo message, m_is_deleted = 0,
                m_created_at = msg_createdAt message, m_edited_at = None,
                m_updated_at = t \<rparr>] \<rparr>))"

definition SQLiteMessageRepository_update :: "int \<Rightarrow> Database \<Rightarrow> Message \<Rightarrow> error + Database" where
  "SQLiteMessageRepository_update t d message =
     Inr (d\<lparr> tbl_messages := map (\<lambda>row. if m_id row = msg_id message
                                           then row\<lparr> m_content := msg_content message,
                                                     m_edited_at := msg_editedAt message,
                                                     m_updated_at := t \<rparr>
                                           else row) (tbl_messages d) \<rparr>)"

definition SQLiteMessageRepository_delete :: "int \<Rightarrow> Database \<Rightarrow> MessageId \<Rightarrow> error + Database" where
  "SQLiteMessageRepository_delete t d i =
     Inr (d\<lparr> tbl_messages := map (\<lambda>row. if m_id row = i
                                           then row\<lparr> m_is_deleted := 1, m_updated_at := t \<rparr>
                                           else row) (tbl_messages d) \<rparr>)"

subsection \<open>SQLiteRoomRepository\<close>

definition SQLiteRoomRepository_getParticipants :: "Database \<Rightarrow> RoomId \<Rightarrow> error + UserId list" where
  "SQLiteRoomRepository_getParticipants d rid =
     Inr (map p_user_id (filter (\<lambda>row. p_room_id row = rid) (tbl_room_participants d)))"

definition getParticipantsSet :: "Database \<Rightarrow> RoomId \<Rightarrow> error + UserId set" where
  "getParticipantsSet d rid =
     (case SQLiteRoomRepository_getParticipants d rid of
        Inl e \<Rightarrow> Inl e
      | Inr participants \<Rightarrow> Inr (set participants))"

definition SQLiteRoomRepository_findById :: "Database \<Rightarrow> RoomId \<Rightarrow> error + Room option" where
  "SQLiteRoomRepository_findById d i =
     (case find (\<lambda>row. r_id row = i) (tbl_rooms d) of
        None \<Rightarrow> Inr None
      | Some row \<Rightarrow>
          (case getParticipantsSet d i of
             Inl e \<Rightarrow> Inl e
           | Inr participants \<Rightarrow> Inr (Some (roomRowToEntity row participants))))"

fun roomRowsToEntities :: "Database \<Rightarrow> RoomRow list \<Rightarrow> error + Room list" where
  "roomRowsToEntities d [] = Inr []"
| "roomRowsToEntities d (row # rows) =
     (case getParticipantsSet d (r_id row) of
        Inl e \<Rightarrow> Inl e
      | Inr participants \<Rightarrow>
          (case roomRowsToEntities d rows of
             Inl e \<Rightarrow> Inl e
           | Inr rooms \<Rightarrow> Inr (roomRowToEntity row participants # rooms)))"

text \<open>\<^verbatim>\<open>ORDER BY name\<close> in the binary collation; rows of equal name stay in table order.\<close>

definition SQLiteRoomRepository_findAll :: "Database \<Rightarrow> error + Room list" where
  "SQLiteRoomRepository_findAll d = roomRowsToEntities d (sort_key r_name (tbl_rooms d))"

text \<open>
  \<^verbatim>\<open>INSERT OR IGNORE\<close>: a row that repeats the primary key is skipped; a new row whose
  room or user does not exist violates a foreign key, which \<^verbatim>\<open>OR IGNORE\<close> does not cover.
\<close>

definition SQLiteRoomRepository_addParticipant ::
  "int \<Rightarrow> Database \<Rightarrow> RoomId \<Rightarrow> UserId \<Rightarrow> error + Database" where
  "SQLiteRoomRepository_addParticipant t d rid uid =
     (if \<exists>row \<in> set (tbl_room_participants d). p_room_id row = rid \<and> p_user_id row = uid
      then Inr d
      else if (\<forall>row \<in> set (tbl_rooms d). r_id row \<noteq> rid)
            \<or> (\<forall>row \<in> set (tbl_users d). u_id row \<noteq> uid)
      then Inl (constraintFailed ''FOREIGN KEY'')
      else Inr (d\<lparr> tbl_room_participants := tbl_room_participants d @
             [\<lparr> p_room_id = rid, p_user_id = uid, p_joined_at = t \<rparr>] \<rparr>))"

definition SQLiteRoomRepository_removeParticipant ::
  "Database \<Rightarrow> RoomId \<Rightarrow> UserId \<Rightarrow> error + Database" where
  "SQLiteRoomRepository_removeParticipant d rid uid =
     Inr (d\<lparr> tbl_room_participants :=
             filter (\<lambda>row. \<not> (p_room_id row = rid \<and> p_user_id row = uid))
               (tbl_room_participants d) \<rparr>)"

definition SQLiteRoomRepository_getParticipantCount :: "Database \<Rightarrow> RoomId \<Rightarrow> error + nat" where
  "SQLiteRoomRepository_getParticipantCount d rid =
     Inr (length (filter (\<lambda>row. p_room_id row = rid) (tbl_room_participants d)))"

definition createUnitOfWork :: "Database UnitOfWork" where
  "createUnitOfWork =
     \<lparr> users_findById = SQLiteUserRepository_findById,
       users_findByUsername = SQLiteUserRepository_findByUsername,
       users_save = SQLiteUserRepository_save,
       users_findByIds = SQLiteUserRepository_findByIds,
       users_updateStatus = SQLiteUserRepository_updateStatus,
       users_updateLastSeen = SQLiteUserRepository_updateLastSeen,
       messages_findById = SQLiteMessageRepository_findById,
       messages_findByRoom = SQLiteMessageRepository_findByRoom,
       messages_save = SQLiteMessageRepository_save,
       messages_update = SQLiteMessageRepository_update,
       messages_delete = SQLiteMessageRepository_delete,
       rooms_findById = SQLiteRoomRepository_findById,
       rooms_findAll = SQLiteRoomRepository_findAll,
       rooms_addParticipant = SQLiteRoomRepository_addParticipant,
       rooms_removeParticipant = SQLiteRoomRepository_removeParticipant,
       rooms_getParticipants = SQLiteRoomRepository_getParticipants,
       rooms_getParticipantCount = SQLiteRoomRepository_getParticipantCount \<rparr>"

text \<open>\<^verbatim>\<open>runMigrations\<close> on an empty file: the schema and the three default rooms.\<close>

definition DEFAULT_ROOMS :: "(string \<times> string \<times> string) list" where
  "DEFAULT_ROOMS =
     [(''general'', ''General'', ''Welcome to the general chat room!''),
      (''random'', ''Random'', ''Off-topic discussions and fun stuff''),
      (''tech'', ''Tech'', ''Technology discussions and help'')]"

definition runMigrations :: "int \<Rightarrow> Database" where
  "runMigrations t =
     \<lparr> tbl_users = [],
       tbl_rooms = map (\<lambda>(i, n, descr).
                          \<lparr> r_id = i, r_name = n, r_description = descr, r_is_private = 0,
                            r_created_at = t, r_updated_at = t \<rparr>) DEFAULT_ROOMS,
       tbl_room_participants = [],
       tbl_messages = [] \<rparr>"

section \<open>Vocabulary of the properties\<close>

text \<open>
  The connections a broadcast to a room reaches: the subscribers of the room that are
  registered, in subscription order, without the excluded one.
\<close>

definition recipients :: "RoomId \<Rightarrow> ConnId option \<Rightarrow> 'db Server \<Rightarrow> ConnId list" where
  "recipients rid excludeConnectionId s =
     (case roomSubscriptions s rid of
        None \<Rightarrow> []
      | Some subscribers \<Rightarrow>
          filter (\<lambda>c. Some c \<noteq> excludeConnectionId \<and> connections s c \<noteq> None) subscribers)"

text \<open>
  The transport handing frames of one connection to \<^verbatim>\<open>handleMessage\<close> one after the
  other, each with the clock value at its arrival. The caller does not await the promise
  or look at its outcome, so a rejection does not stop the next frame.
\<close>

fun handleMessages ::
  "'db UnitOfWork \<Rightarrow> ConnId \<Rightarrow> (Env \<times> Frame) list \<Rightarrow> 'db Server \<Rightarrow> 'db Server" where
  "handleMessages uow connectionId [] s = s"
| "handleMessages uow connectionId ((env, frame) # frames) s =
     handleMessages uow connectionId frames (snd (handleMessage uow env connectionId frame s))"

text \<open>
  The first two steps of \<^verbatim>\<open>removeConnection\<close> for a session \<open>st\<close>, which call no
  collaborator: the pending timer is cancelled, and a session with a room leaves the
  room's subscriber set and USER_LEFT is broadcast to the room.
\<close>

definition departure :: "ConnId \<Rightarrow> ConnectionState \<Rightarrow> 'db Server \<Rightarrow> 'db Server" where
  "departure cid st s =
     (let s1 = (case typingTimeout st of Some h \<Rightarrow> clearTimeout h s | None \<Rightarrow> s)
      in if truthy (roomId st)
         then broadcastToRoom (asString (roomId st))
                (USER_LEFT (userId st) (asString (roomId st))) (Some cid)
                (ConnectionManager_leaveRoom cid (asString (roomId st)) s1)
         else s1)"

text \<open>A SEND_MESSAGE attempt: the clock and identifier source at its arrival, and its payload.\<close>

definition sendFrame :: "Env \<times> RoomId \<times> string \<times> string option \<Rightarrow> Env \<times> Frame" where
  "sendFrame a = (case a of (env, r, c, rt) \<Rightarrow> (env, Valid (SEND_MESSAGE r c rt)))"

definition typingFrame :: "Env \<times> RoomId \<Rightarrow> Env \<times> Frame" where
  "typingFrame a = (case a of (env, r) \<Rightarrow> (env, Valid (TYPING_START r)))"

text \<open>
  The timer discipline: every pending timer is the one recorded in the session of its
  connection, and handles are handed out in increasing order.
\<close>

definition timersOk :: "'db Server \<Rightarrow> bool" where
  "timersOk s =
     ((\<forall>h c r d. timers s h = Some (c, r, d)
          \<longrightarrow> (\<exists>st. connections s c = Some st \<and> typingTimeout st = Some h))
      \<and> (\<forall>h. timers s h \<noteq> None \<longrightarrow> h < nextTimer s)
      \<and> (\<forall>c h. (\<exists>st. connections s c = Some st \<and> typingTimeout st = Some h)
             \<longrightarrow> h < nextTimer s))"

text \<open>
  The states the server can be in: the transport opens connections under fresh ids with
  the initial session state, hands over frames, closes connections, and the run time
  fires pending timers.
\<close>

inductive reachable :: "'db UnitOfWork \<Rightarrow> 'db Server \<Rightarrow> bool" for uow :: "'db UnitOfWork" where
  started: "reachable uow (newServer d)"
| opened: "reachable uow s \<Longrightarrow> connections s cid = None
            \<Longrightarrow> reachable uow (addConnection cid initialState s)"
| received: "reachable uow s \<Longrightarrow> reachable uow (snd (handleMessage uow env cid frame s))"
| closed: "reachable uow s \<Longrightarrow> reachable uow (snd (removeConnection uow env cid s))"
| fired: "reachable uow s \<Longrightarrow> reachable uow (fireTimer h s)"

text \<open>What the timer discipline depends on: the recorded handles, the pending timers, the next handle.\<close>

definition timerView ::
  "'db Server \<Rightarrow> (ConnId \<Rightarrow> nat option option) \<times> (nat \<rightharpoonup> ConnId \<times> RoomId \<times> nat) \<times> nat" where
  "timerView s = (\<lambda>c. map_option typingTimeout (connections s c), timers s, nextTimer s)"

section \<open>Example inputs\<close>

text \<open>
  A unit of work over a database handle that has been closed (\<^verbatim>\<open>closeDatabase\<close>): every
  repository method rejects.
\<close>

definition closedUow :: "unit UnitOfWork" where
  "closedUow =
     \<lparr> users_findById = (\<lambda>d i. Inl (Error ''database is closed'')),
       users_findByUsername = (\<lambda>d n. Inl (Error ''database is closed'')),
       users_save = (\<lambda>t d u. Inl (Error ''database is closed'')),
       users_findByIds = (\<lambda>d is. Inl (Error ''database is closed'')),
       users_updateStatus = (\<lambda>t d i st. Inl (Error ''database is closed'')),
       users_updateLastSeen = (\<lambda>t d i. Inl (Error ''database is closed'')),
       messages_findById = (\<lambda>d i. Inl (Error ''database is closed'')),
       messages_findByRoom = (\<lambda>d r n b. Inl (Error ''database is closed'')),
       messages_save = (\<lambda>t d m. Inl (Error ''database is closed'')),
       messages_update = (\<lambda>t d m. Inl (Error ''database is closed'')),
       messages_delete = (\<lambda>t d i. Inl (Error ''database is closed'')),
       rooms_findById = (\<lambda>d i. Inl (Error ''database is closed'')),
       rooms_findAll = (\<lambda>d. Inl (Error ''database is closed'')),
       rooms_addParticipant = (\<lambda>t d r u. Inl (Error ''database is closed'')),
       rooms_removeParticipant = (\<lambda>d r u. Inl (Error ''database is closed'')),
       rooms_getParticipants = (\<lambda>d r. Inl (Error ''database is closed'')),
       rooms_getParticipantCount = (\<lambda>d r. Inl (Error ''database is closed'')) \<rparr>"

definition env0 :: Env where
  "env0 = \<lparr> now = 1700000000000, nanoid = (\<lambda>n. ''V1StGXR8_Z5j'') \<rparr>"

definition env_at :: "int \<Rightarrow> string \<Rightarrow> Env" where
  "env_at t i = \<lparr> now = t, nanoid = (\<lambda>n. i) \<rparr>"

text \<open>
  A server after alice has joined ``general'' on connection c1, bob ``general'' on c2 and
  carol ``random'' on c3, on a freshly migrated database, with the observation logs
  (\<open>sent\<close>, \<open>emitted\<close>) started anew.
\<close>

definition aliceSession :: ConnectionState where
  "aliceSession = \<lparr> userId = Some ''uAlice'', roomId = Some ''general'', username = Some ''alice'',
     typingTimeout = None, lastMessageTime = 0, messageCount = 0 \<rparr>"

definition bobSession :: ConnectionState where
  "bobSession = \<lparr> userId = Some ''uBob'', roomId = Some ''general'', username = Some ''bob'',
     typingTimeout = None, lastMessageTime = 0, messageCount = 0 \<rparr>"

definition carolSession :: ConnectionState where
  "carolSession = \<lparr> userId = Some ''uCarol'', roomId = Some ''random'', username = Some ''carol'',
     typingTimeout = None, lastMessageTime = 0, messageCount = 0 \<rparr>"

definition exampleDb :: Database where
  "exampleDb =
     \<lparr> tbl_users =
         [\<lparr> u_id = ''uAlice'', u_username = ''alice'', u_avatar = ''#98D8C8'', u_status = online,
            u_joined_at = 1700000000000, u_last_seen_at = None,
            u_created_at = 1700000000000, u_updated_at = 1700000000000 \<rparr>,
          \<lparr> u_id = ''uBob'', u_username = ''bob'', u_avatar = ''#F7DC6F'', u_status = online,
            u_joined_at = 1700000001000, u_last_seen_at = None,
            u_created_at = 1700000001000, u_updated_at = 1700000001000 \<rparr>,
          \<lparr> u_id = ''uCarol'', u_username = ''carol'', u_avatar = ''#4ECDC4'', u_status = online,
            u_joined_at = 1700000002000, u_last_seen_at = None,
            u_created_at = 1700000002000, u_updated_at = 1700000002000 \<rparr>],
       tbl_rooms = tbl_rooms (runMigrations 1699999999000),
       tbl_room_participants =
         [\<lparr> p_room_id = ''general'', p_user_id = ''uAlice'', p_joined_at = 1700000000000 \<rparr>,
          \<lparr> p_room_id = ''general'', p_user_id = ''uBob'', p_joined_at = 1700000001000 \<rparr>,
          \<lparr> p_room_id = ''random'', p_user_id = ''uCarol'', p_joined_at = 1700000002000 \<rparr>],
       tbl_messages = [] \<rparr>"

definition exampleServer :: "Database Server" where
  "exampleServer =
     \<lparr> connections = [''c1'' \<mapsto> aliceSession, ''c2'' \<mapsto> bobSession, ''c3'' \<mapsto> carolSession],
       userConnections = [''uAlice'' \<mapsto> ''c1'', ''uBob'' \<mapsto> ''c2'', ''uCarol'' \<mapsto> ''c3''],
       roomSubscriptions = [''general'' \<mapsto> [''c1'', ''c2''], ''random'' \<mapsto> [''c3'']],
       store = exampleDb, emitted = [], sent = [], timers = Map.empty, nextTimer = 0 \<rparr>"

text \<open>
  The SQLite unit of work while another process holds the write lock: the two statements
  that update a user row throw.
\<close>

definition lockedUow :: "Database UnitOfWork" where
  "lockedUow = createUnitOfWork
     \<lparr> users_updateStatus := (\<lambda>t d i st. Inl (Error ''database is locked'')),
       users_updateLastSeen := (\<lambda>t d i. Inl (Error ''database is locked'')) \<rparr>"


text \<open>
  Alice's session after thirty SEND_MESSAGE attempts at 1700000100000, the first of which
  opened the rate window, and the example server with that session.
\<close>

definition busySession :: ConnectionState where
  "busySession = aliceSession\<lparr> lastMessageTime := 1700000100000, messageCount := 30 \<rparr>"

definition busyServer :: "Database Server" where
  "busyServer = exampleServer\<lparr> connections := (connections exampleServer)(''c1'' \<mapsto> busySession) \<rparr>"

text \<open>
  A server that is reachable by construction: one connection is opened on a freshly
  migrated database and alice joins ``general'' on it. Then three TYPING_START frames in a
  row, as a client typing sends them.
\<close>

definition afterJoin :: "Database Server" where
  "afterJoin = snd (handleMessage createUnitOfWork (env_at 1700000000000 ''uAlice'') ''c1''
                      (Valid (JOIN_ROOM ''general'' ''alice''))
                      (addConnection ''c1'' initialState (newServer (runMigrations 1699999999000))))"

definition keystrokes :: "(Env \<times> RoomId) list" where
  "keystrokes = [(env_at 1700000010000 [], ''general''), (env_at 1700000011000 [], ''general''),
                 (env_at 1700000012000 [], ''general'')]"

text \<open>
  The example database with a thread in ``general'': alice's message m1 and bob's reply m2
  to it; the same database after m1 has been deleted at 1700000070000; and the entity of
  the reply.
\<close>

definition threadDb :: Database where
  "threadDb = exampleDb\<lparr> tbl_messages :=
     [\<lparr> m_id = ''m1'', m_room_id = ''general'', m_author_id = ''uAlice'', m_content = ''hello'',
        m_reply_to_id = None, m_is_deleted = 0, m_created_at = 1700000050000,
        m_edited_at = None, m_updated_at = 1700000050000 \<rparr>,
      \<lparr> m_id = ''m2'', m_room_id = ''general'', m_author_id = ''uBob'', m_content = ''hi alice'',
        m_reply_to_id = Some ''m1'', m_is_deleted = 0, m_created_at = 1700000060000,
        m_edited_at = None, m_updated_at = 1700000060000 \<rparr>] \<rparr>"

definition tombstoneDb :: Database where
  "tombstoneDb = exampleDb\<lparr> tbl_messages :=
     [\<lparr> m_id = ''m1'', m_room_id = ''general'', m_author_id = ''uAlice'', m_content = ''hello'',
        m_reply_to_id = None, m_is_deleted = 1, m_created_at = 1700000050000,
        m_edited_at = None, m_updated_at = 1700000070000 \<rparr>,
      \<lparr> m_id = ''m2'', m_room_id = ''general'', m_author_id = ''uBob'', m_content = ''hi alice'',
        m_reply_to_id = Some ''m1'', m_is_deleted = 0, m_created_at = 1700000060000,
        m_edited_at = None, m_updated_at = 1700000060000 \<rparr>] \<rparr>"

definition replyMessage :: Message where
  "replyMessage = \<lparr> msg_id = ''m2'', msg_roomId = ''general'', msg_authorId = ''uBob'',
     msg_content = ''hi alice'', msg_createdAt = 1700000060000, msg_editedAt = None,
     msg_replyTo = Some ''m1'' \<rparr>"

text \<open>The example server on the database with the thread.\<close>

definition threadServer :: "Database Server" where
  "threadServer = exampleServer\<lparr> store := threadDb \<rparr>"

section \<open>Properties\<close>

subsection \<open>What a broadcast and a use-case call can change\<close>

lemma broadcast_fold:
  "fold (\<lambda>connId s'.
           if Some connId = ex then s'
           else (case connections s' connId of None \<Rightarrow> s' | Some connection \<Rightarrow> send connId ev s'))
        subs s
   = s\<lparr> sent := sent s @ map (\<lambda>c. (c, ev))
                           (filter (\<lambda>c. Some c \<noteq> ex \<and> connections s c \<noteq> None) subs) \<rparr>"
proof (induction subs arbitrary: s)
  case Nil
  show ?case by simp
next
  case (Cons c subs)
  show ?case
    by (cases "connections s c") (simp_all add: Cons send_def)
qed

lemma broadcastToRoom_sent:
  "broadcastToRoom rid ev ex s = s\<lparr> sent := sent s @ map (\<lambda>c. (c, ev)) (recipients rid ex s) \<rparr>"
  by (cases "roomSubscriptions s rid") (simp_all add: broadcastToRoom_def recipients_def broadcast_fold)

lemma broadcast_rooms_fold:
  "\<exists>fs. fold (\<lambda>rid s'. broadcastToRoom rid ev ex s') rooms s = s\<lparr> sent := sent s @ fs \<rparr>"
proof (induction rooms arbitrary: s)
  case Nil
  show ?case by (rule exI [of _ "[]"]) simp
next
  case (Cons r rooms)
  obtain fs where fs: "fold (\<lambda>rid s'. broadcastToRoom rid ev ex s') rooms (broadcastToRoom r ev ex s)
      = (broadcastToRoom r ev ex s)\<lparr> sent := sent (broadcastToRoom r ev ex s) @ fs \<rparr>"
    using Cons by blast
  show ?case
    apply (rule exI [of _ "map (\<lambda>c. (c, ev)) (recipients r ex s) @ fs"])
    apply (simp add: fs)
    apply (simp add: broadcastToRoom_sent)
    done
qed

lemma deliver_sent: "\<exists>fs. deliver uow ev s = s\<lparr> sent := sent s @ fs \<rparr>"
proof (cases ev)
  case (user_status_changed uid status)
  show ?thesis
  proof (cases "getRoomsForUser uow uid (store s)")
    case (Inl e)
    then show ?thesis using user_status_changed
      by (intro exI [of _ "[]"]) (simp add: deliver_def)
  next
    case (Inr rooms)
    then show ?thesis
      using user_status_changed
        broadcast_rooms_fold [of "USER_STATUS_CHANGED uid status" None rooms s]
      by (simp add: deliver_def)
  qed
qed (auto simp: deliver_def intro: exI [of _ "[]"])

lemma deliver_fold_sent: "\<exists>fs. fold (deliver uow) evs s = s\<lparr> sent := sent s @ fs \<rparr>"
proof (induction evs arbitrary: s)
  case Nil
  show ?case by (rule exI [of _ "[]"]) simp
next
  case (Cons ev evs)
  obtain f1 where f1: "deliver uow ev s = s\<lparr> sent := sent s @ f1 \<rparr>"
    using deliver_sent by blast
  obtain f2 where f2: "fold (deliver uow) evs (deliver uow ev s)
      = (deliver uow ev s)\<lparr> sent := sent (deliver uow ev s) @ f2 \<rparr>"
    using Cons by blast
  show ?case
    by (rule exI [of _ "f1 @ f2"]) (simp add: f2, simp add: f1)
qed

lemma runUseCase_frame:
  "\<exists>fs. runUseCase uow m s
           = (fst (m (store s, [])),
              s\<lparr> store := fst (snd (m (store s, []))),
                 emitted := emitted s @ snd (snd (m (store s, []))),
                 sent := sent s @ fs \<rparr>)"
proof -
  obtain r d' evs where m: "m (store s, []) = (r, (d', evs))"
    by (metis prod_cases3)
  obtain fs where "fold (deliver uow) evs (s\<lparr> store := d', emitted := emitted s @ evs \<rparr>)
     = (s\<lparr> store := d', emitted := emitted s @ evs \<rparr>)
         \<lparr> sent := sent (s\<lparr> store := d', emitted := emitted s @ evs \<rparr>) @ fs \<rparr>"
    using deliver_fold_sent by blast
  then show ?thesis using m
    by (intro exI [of _ fs]) (simp add: runUseCase_def)
qed

text \<open>A use-case call leaves the registry, the session states and the timers alone.\<close>

lemma runUseCase_registry:
  "connections (snd (runUseCase uow m s)) = connections s"
  "roomSubscriptions (snd (runUseCase uow m s)) = roomSubscriptions s"
  "userConnections (snd (runUseCase uow m s)) = userConnections s"
  "timers (snd (runUseCase uow m s)) = timers s"
  "nextTimer (snd (runUseCase uow m s)) = nextTimer s"
  using runUseCase_frame [of uow m s] by auto

lemma runUseCase_store:
  "fst (runUseCase uow m s) = fst (m (store s, []))"
  "store (snd (runUseCase uow m s)) = fst (snd (m (store s, [])))"
  "emitted (snd (runUseCase uow m s)) = emitted s @ snd (snd (m (store s, [])))"
  using runUseCase_frame [of uow m s] by auto

lemma runUseCase_sent: "\<exists>fs. sent (snd (runUseCase uow m s)) = sent s @ fs"
  using runUseCase_frame [of uow m s] by auto

subsection \<open>One SEND_MESSAGE on an authorized connection\<close>

lemma checkRateLimit_eq:
  "checkRateLimit t st =
     (let n = (if lastMessageTime st < t - 60000 then 1 else messageCount st + 1)
      in (n \<le> 30, st\<lparr> messageCount := n, lastMessageTime := t \<rparr>))"
  by (simp add: checkRateLimit_def Let_def RATE_LIMIT_MESSAGES_PER_MINUTE_def)

lemma validateRateLimit_eq:
  "validateRateLimit t st cid s =
     (fst (checkRateLimit t st),
      (if fst (checkRateLimit t st) then id
       else sendError cid ''RATE_LIMITED'' ''Too many messages. Please slow down.'')
        (modState cid (\<lambda>x. x\<lparr> messageCount := messageCount (snd (checkRateLimit t st)),
                               lastMessageTime := t \<rparr>) s))"
  by (simp add: validateRateLimit_def checkRateLimit_eq Let_def)

lemma handleSendMessage_rejected:
  assumes "connections s cid = Some st" "truthy (userId st)" "truthy (username st)"
    and "\<not> fst (checkRateLimit (now env) st)"
  shows "handleSendMessage uow env cid st r c rt s =
           (Inr (), s\<lparr> connections := (connections s)(cid \<mapsto> snd (checkRateLimit (now env) st)),
                       sent := sent s @ [(cid, ERROR ''RATE_LIMITED''
                                                 ''Too many messages. Please slow down.'')] \<rparr>)"
  using assms
  by (simp add: handleSendMessage_def validateUserAuthorized_def validateRateLimit_eq
      modState_def sendError_def send_def)
     (simp add: checkRateLimit_eq Let_def)

lemma handleSendMessage_admitted:
  assumes reg: "connections s cid = Some st" and auth: "truthy (userId st)" "truthy (username st)"
    and ok: "fst (checkRateLimit (now env) st)"
  shows "handleSendMessage uow env cid st r c rt s =
     bindE (runUseCase uow (useCases_sendMessage uow env (buildSendMessageInput st r c rt)))
       (\<lambda>result. case result of
            failure err \<Rightarrow> (\<lambda>s. (Inr (), sendError cid (error_code err) (error_message err) s))
          | success dto \<Rightarrow> (\<lambda>s. (Inr (), broadcastToRoom r (MESSAGE_RECEIVED dto) None
                                         (handleTypingStop cid st r s))))
       (s\<lparr> connections := (connections s)(cid \<mapsto> snd (checkRateLimit (now env) st)) \<rparr>)"
  using assms
  by (simp add: handleSendMessage_def validateUserAuthorized_def validateRateLimit_eq modState_def)
     (simp add: checkRateLimit_eq Let_def)

text \<open>After the gates: what the rest of the handler does to the state.\<close>

lemma sendMessage_tail_state:
  assumes reg: "connections s1 cid = Some st1"
  shows "\<exists>st'. connections (snd (bindE (runUseCase uow m) (\<lambda>result. case result of
            failure err \<Rightarrow> (\<lambda>s. (Inr (), sendError cid (error_code err) (error_message err) s))
          | success dto \<Rightarrow> (\<lambda>s. (Inr (), broadcastToRoom r (MESSAGE_RECEIVED dto) None
                                         (handleTypingStop cid st r s)))) s1)) cid = Some st'
           \<and> userId st' = userId st1 \<and> username st' = username st1 \<and> roomId st' = roomId st1
           \<and> messageCount st' = messageCount st1 \<and> lastMessageTime st' = lastMessageTime st1"
    and "store (snd (bindE (runUseCase uow m) (\<lambda>result. case result of
            failure err \<Rightarrow> (\<lambda>s. (Inr (), sendError cid (error_code err) (error_message err) s))
          | success dto \<Rightarrow> (\<lambda>s. (Inr (), broadcastToRoom r (MESSAGE_RECEIVED dto) None
                                         (handleTypingStop cid st r s)))) s1)) = fst (snd (m (store s1, [])))"
    and "emitted (snd (bindE (runUseCase uow m) (\<lambda>result. case result of
            failure err \<Rightarrow> (\<lambda>s. (Inr (), sendError cid (error_code err) (error_message err) s))
          | success dto \<Rightarrow> (\<lambda>s. (Inr (), broadcastToRoom r (MESSAGE_RECEIVED dto) None
                                         (handleTypingStop cid st r s)))) s1))
           = emitted s1 @ snd (snd (m (store s1, [])))"
proof -
  obtain res s2 where run: "runUseCase uow m s1 = (res, s2)"
    by (cases "runUseCase uow m s1")
  have s2: "connections s2 = connections s1" "store s2 = fst (snd (m (store s1, [])))"
    "emitted s2 = emitted s1 @ snd (snd (m (store s1, [])))"
    using runUseCase_registry(1) [of uow m s1] runUseCase_store(2,3) [of uow m s1] run by simp_all
  show "\<exists>st'. connections (snd (bindE (runUseCase uow m) (\<lambda>result. case result of
            failure err \<Rightarrow> (\<lambda>s. (Inr (), sendError cid (error_code err) (error_message err) s))
          | success dto \<Rightarrow> (\<lambda>s. (Inr (), broadcastToRoom r (MESSAGE_RECEIVED dto) None
                                         (handleTypingStop cid st r s)))) s1)) cid = Some st'
           \<and> userId st' = userId st1 \<and> username st' = username st1 \<and> roomId st' = roomId st1
           \<and> messageCount st' = messageCount st1 \<and> lastMessageTime st' = lastMessageTime st1"
    using reg s2(1)
    by (simp add: bindE_def run broadcastToRoom_sent handleTypingStop_def sendError_def
        send_def modState_def clearTimeout_def Let_def
        split: sum.splits Result.splits option.splits)
  show "store (snd (bindE (runUseCase uow m) (\<lambda>result. case result of
            failure err \<Rightarrow> (\<lambda>s. (Inr (), sendError cid (error_code err) (error_message err) s))
          | success dto \<Rightarrow> (\<lambda>s. (Inr (), broadcastToRoom r (MESSAGE_RECEIVED dto) None
                                         (handleTypingStop cid st r s)))) s1)) = fst (snd (m (store s1, [])))"
    using s2(2)
    by (simp add: bindE_def run broadcastToRoom_sent handleTypingStop_def sendError_def
        send_def modState_def clearTimeout_def Let_def
        split: sum.splits Result.splits option.splits)
  show "emitted (snd (bindE (runUseCase uow m) (\<lambda>result. case result of
            failure err \<Rightarrow> (\<lambda>s. (Inr (), sendError cid (error_code err) (error_message err) s))
          | success dto \<Rightarrow> (\<lambda>s. (Inr (), broadcastToRoom r (MESSAGE_RECEIVED dto) None
                                         (handleTypingStop cid st r s)))) s1))
          = emitted s1 @ snd (snd (m (store s1, [])))"
    using s2(3)
    by (simp add: bindE_def run broadcastToRoom_sent handleTypingStop_def sendError_def
        send_def modState_def clearTimeout_def Let_def
        split: sum.splits Result.splits option.splits)
qed

lemma handleSendMessage_admitted_state:
  assumes reg: "connections s cid = Some st" and auth: "truthy (userId st)" "truthy (username st)"
    and ok: "fst (checkRateLimit (now env) st)"
  shows "\<exists>st'. connections (snd (handleSendMessage uow env cid st r c rt s)) cid = Some st'
           \<and> userId st' = userId st \<and> username st' = username st \<and> roomId st' = roomId st
           \<and> messageCount st' = messageCount (snd (checkRateLimit (now env) st))
           \<and> lastMessageTime st' = now env"
    and "store (snd (handleSendMessage uow env cid st r c rt s))
           = fst (snd (useCases_sendMessage uow env (buildSendMessageInput st r c rt) (store s, [])))"
    and "emitted (snd (handleSendMessage uow env cid st r c rt s))
           = emitted s @ snd (snd (useCases_sendMessage uow env (buildSendMessageInput st r c rt)
                                     (store s, [])))"
proof -
  let ?s1 = "s\<lparr> connections := (connections s)(cid \<mapsto> snd (checkRateLimit (now env) st)) \<rparr>"
  have reg1: "connections ?s1 cid = Some (snd (checkRateLimit (now env) st))" by simp
  note h = handleSendMessage_admitted [OF reg auth ok, of uow r c rt]
  note t = sendMessage_tail_state [OF reg1, where uow = uow and st = st and r = r
      and m = "useCases_sendMessage uow env (buildSendMessageInput st r c rt)"]
  show "\<exists>st'. connections (snd (handleSendMessage uow env cid st r c rt s)) cid = Some st'
           \<and> userId st' = userId st \<and> username st' = username st \<and> roomId st' = roomId st
           \<and> messageCount st' = messageCount (snd (checkRateLimit (now env) st))
           \<and> lastMessageTime st' = now env"
    using t(1) unfolding h by (simp add: checkRateLimit_eq Let_def)
  show "store (snd (handleSendMessage uow env cid st r c rt s))
           = fst (snd (useCases_sendMessage uow env (buildSendMessageInput st r c rt) (store s, [])))"
    using t(2) unfolding h by simp
  show "emitted (snd (handleSendMessage uow env cid st r c rt s))
           = emitted s @ snd (snd (useCases_sendMessage uow env (buildSendMessageInput st r c rt)
                                     (store s, [])))"
    using t(3) unfolding h by simp
qed

lemma sendFrame_simp [simp]: "sendFrame (env, r, c, rt) = (env, Valid (SEND_MESSAGE r c rt))"
  by (simp add: sendFrame_def)

lemma send_step:
  assumes reg: "connections s cid = Some st" and auth: "truthy (userId st)" "truthy (username st)"
  shows "\<exists>st'. connections (snd (handleMessage uow env cid (Valid (SEND_MESSAGE r c rt)) s)) cid
                 = Some st'
           \<and> userId st' = userId st \<and> username st' = username st
           \<and> messageCount st' = messageCount (snd (checkRateLimit (now env) st))
           \<and> lastMessageTime st' = now env"
proof (cases "fst (checkRateLimit (now env) st)")
  case True
  from handleSendMessage_admitted_state(1) [OF reg auth True, of uow r c rt]
  show ?thesis using reg by (auto simp: handleMessage_def)
next
  case False
  from handleSendMessage_rejected [OF reg auth False, of uow r c rt]
  show ?thesis using reg by (simp add: handleMessage_def checkRateLimit_eq Let_def)
qed



subsection \<open>The example server\<close>

lemma example_alice: "connections exampleServer ''c1'' = Some aliceSession"
  by (simp add: exampleServer_def)

subsection \<open>Closing a connection\<close>

lemma recipients_leaveRoom:
  "recipients rid (Some cid) (ConnectionManager_leaveRoom cid rid s) = recipients rid (Some cid) s"
proof (cases "roomSubscriptions s rid")
  case None
  then show ?thesis by (simp add: recipients_def ConnectionManager_leaveRoom_def)
next
  case (Some subs)
  have "filter (\<lambda>c. c \<noteq> cid \<and> connections s c \<noteq> None) (removeAll cid subs)
          = filter (\<lambda>c. c \<noteq> cid \<and> connections s c \<noteq> None) subs"
    by (induction subs) auto
  moreover have "removeAll cid subs = [] \<Longrightarrow> filter (\<lambda>c. c \<noteq> cid \<and> connections s c \<noteq> None) subs = []"
    by (induction subs) (auto split: if_splits)
  ultimately show ?thesis using Some
    by (auto simp: recipients_def ConnectionManager_leaveRoom_def Let_def)
qed

lemma leaveRoom_not_subscribed:
  "roomSubscriptions (ConnectionManager_leaveRoom cid rid s) rid = Some subs \<Longrightarrow> cid \<notin> set subs"
  by (auto simp: ConnectionManager_leaveRoom_def Let_def split: option.splits if_splits)

lemma departure_fields:
  "connections (departure cid st s) = connections s"
  "store (departure cid st s) = store s"
  "emitted (departure cid st s) = emitted s"
  "sent (departure cid st s) = sent s @
     (if truthy (roomId st)
      then map (\<lambda>c. (c, USER_LEFT (userId st) (asString (roomId st))))
             (recipients (asString (roomId st)) (Some cid) s)
      else [])"
proof -
  let ?s1 = "case typingTimeout st of Some h \<Rightarrow> clearTimeout h s | None \<Rightarrow> s"
  have s1: "connections ?s1 = connections s" "store ?s1 = store s" "emitted ?s1 = emitted s"
    "sent ?s1 = sent s" "roomSubscriptions ?s1 = roomSubscriptions s"
    by (simp_all add: clearTimeout_def split: option.splits)
  have rec: "recipients r ex ?s1 = recipients r ex s" for r ex
    by (cases "typingTimeout st"; cases "roomSubscriptions s r")
       (simp_all add: recipients_def clearTimeout_def)
  have lv: "connections (ConnectionManager_leaveRoom cid r ?s1) = connections s"
    "store (ConnectionManager_leaveRoom cid r ?s1) = store s"
    "emitted (ConnectionManager_leaveRoom cid r ?s1) = emitted s"
    "sent (ConnectionManager_leaveRoom cid r ?s1) = sent s" for r
    using s1 by (simp_all add: ConnectionManager_leaveRoom_def Let_def split: option.splits)
  show "connections (departure cid st s) = connections s"
    "store (departure cid st s) = store s"
    "emitted (departure cid st s) = emitted s"
    using s1 lv by (simp_all add: departure_def Let_def broadcastToRoom_sent)
  have "recipients r (Some cid) (ConnectionManager_leaveRoom cid r ?s1) = recipients r (Some cid) s" for r
    by (simp add: recipients_leaveRoom rec)
  then show "sent (departure cid st s) = sent s @
     (if truthy (roomId st)
      then map (\<lambda>c. (c, USER_LEFT (userId st) (asString (roomId st))))
             (recipients (asString (roomId st)) (Some cid) s)
      else [])"
    using s1 lv by (simp add: departure_def Let_def broadcastToRoom_sent)
qed

lemma departure_unsubscribed:
  assumes "truthy (roomId st)"
    and "roomSubscriptions (departure cid st s) (asString (roomId st)) = Some subs"
  shows "cid \<notin> set subs"
proof -
  let ?s1 = "case typingTimeout st of Some h \<Rightarrow> clearTimeout h s | None \<Rightarrow> s"
  have "roomSubscriptions (departure cid st s)
          = roomSubscriptions (ConnectionManager_leaveRoom cid (asString (roomId st)) ?s1)"
    using assms(1) by (simp add: departure_def Let_def broadcastToRoom_sent)
  then show ?thesis using assms(2) leaveRoom_not_subscribed by metis
qed

lemma emitEvent_user_disconnected:
  "emitEvent uow (user_disconnected u) s = s\<lparr> emitted := emitted s @ [user_disconnected u] \<rparr>"
  by (simp add: emitEvent_def deliver_def)

lemma removeConnection_absent:
  assumes "connections s cid = None"
  shows "removeConnection uow env cid s = (Inr (), s)"
proof -
  have "(connections s)(cid := None) = connections s"
    using assms by (simp add: fun_upd_idem)
  then show ?thesis using assms
    by (simp add: removeConnection_def bindE_def returnE_def)
qed

lemma removeConnection_present:
  assumes reg: "connections s cid = Some st"
  shows "removeConnection uow env cid s =
     (if \<not> truthy (userId st)
      then (Inr (), (departure cid st s)\<lparr> connections := (connections s)(cid := None) \<rparr>)
      else (case users_updateStatus uow (now env) (store s) (asString (userId st)) offline of
              Inl e \<Rightarrow> (Inl e, departure cid st s)
            | Inr d1 \<Rightarrow>
                (case users_updateLastSeen uow (now env) d1 (asString (userId st)) of
                   Inl e \<Rightarrow> (Inl e, (departure cid st s)\<lparr> store := d1 \<rparr>)
                 | Inr d2 \<Rightarrow>
                     (Inr (), (departure cid st s)
                        \<lparr> store := d2,
                          emitted := emitted s @ [user_disconnected (asString (userId st))],
                          connections := (connections s)(cid := None) \<rparr>))))"
proof -
  have "removeConnection uow env cid s =
     bindE (\<lambda>s0. if truthy (userId st)
                 then bindE (storeCommand (\<lambda>d. users_updateStatus uow (now env) d
                                                  (asString (userId st)) offline)) (\<lambda>_.
                      bindE (storeCommand (\<lambda>d. users_updateLastSeen uow (now env) d
                                                  (asString (userId st)))) (\<lambda>_ s'.
                        (Inr (), emitEvent uow (user_disconnected (asString (userId st))) s')))
                        (departure cid st s0)
                 else (Inr (), departure cid st s0))
       (\<lambda>_ s'. (Inr (), s'\<lparr> connections := (connections s')(cid := None) \<rparr>)) s"
    using reg unfolding removeConnection_def departure_def Let_def by simp
  then show ?thesis
    by (simp add: bindE_def storeCommand_def emitEvent_user_disconnected departure_fields
        split: sum.splits)
qed

lemma example_recipients_general: "recipients ''general'' (Some ''c1'') exampleServer = [''c2'']"
  by (simp add: recipients_def exampleServer_def)

subsection \<open>Typing timers\<close>

lemma timersOk_view: "timerView s' = timerView s \<Longrightarrow> timersOk s' = timersOk s"
proof -
  assume v: "timerView s' = timerView s"
  have c: "map_option typingTimeout (connections s' c) = map_option typingTimeout (connections s c)" for c
    using v by (simp add: timerView_def fun_eq_iff)
  have t: "timers s' = timers s" "nextTimer s' = nextTimer s"
    using v by (simp_all add: timerView_def)
  have 1: "(\<exists>st. connections s' c = Some st \<and> typingTimeout st = Some h)
           = (\<exists>st. connections s c = Some st \<and> typingTimeout st = Some h)" for c h
    using c [of c] by (cases "connections s' c"; cases "connections s c") auto
  show ?thesis
    unfolding timersOk_def t 1 by (rule refl)
qed

lemma view_modState:
  assumes "\<And>st. typingTimeout (f st) = typingTimeout st"
  shows "timerView (modState cid f s) = timerView s"
  using assms by (cases "connections s cid") (auto simp: timerView_def modState_def fun_eq_iff)

lemma view_sent [simp]: "timerView (s\<lparr> sent := x \<rparr>) = timerView s"
  by (simp add: timerView_def)

lemma view_broadcast [simp]: "timerView (broadcastToRoom r ev ex s) = timerView s"
  by (simp add: broadcastToRoom_sent)

lemma view_send [simp]: "timerView (send c ev s) = timerView s"
  by (simp add: send_def)

lemma view_sendError [simp]: "timerView (sendError c code msg s) = timerView s"
  by (simp add: sendError_def)

lemma view_runUseCase [simp]: "timerView (snd (runUseCase uow m s)) = timerView s"
  by (simp add: timerView_def runUseCase_registry)

lemma view_leaveRoom [simp]: "timerView (ConnectionManager_leaveRoom c r s) = timerView s"
  by (simp add: timerView_def ConnectionManager_leaveRoom_def Let_def split: option.splits)

lemma view_joinRoom [simp]: "timerView (ConnectionManager_joinRoom c r s) = timerView s"
  by (simp add: timerView_def ConnectionManager_joinRoom_def Let_def)

lemma view_userConnections [simp]: "timerView (s\<lparr> userConnections := x \<rparr>) = timerView s"
  by (simp add: timerView_def)

lemma bindE_run:
  "bindE (runUseCase uow m) k s = (case fst (runUseCase uow m s) of
       Inl e \<Rightarrow> (Inl e, snd (runUseCase uow m s))
     | Inr x \<Rightarrow> k x (snd (runUseCase uow m s)))"
  by (cases "runUseCase uow m s") (simp add: bindE_def split: sum.splits)

lemma view_handleJoinRoom:
  "timerView (snd (handleJoinRoom uow env cid r n s)) = timerView s"
proof -
  let ?run = "runUseCase uow (useCases_joinRoom uow env r n) s"
  have v1: "timerView (snd ?run) = timerView s" by simp
  show ?thesis
  proof (cases "fst ?run")
    case (Inl e)
    then show ?thesis using v1 by (simp add: handleJoinRoom_def bindE_run)
  next
    case (Inr result)
    show ?thesis
    proof (cases result)
      case (failure err)
      then show ?thesis using Inr v1 by (simp add: handleJoinRoom_def bindE_run)
    next
      case (success out)
      let ?s2 = "ConnectionManager_joinRoom cid r
                   ((modState cid (\<lambda>st. st\<lparr> userId := Some (user_id (out_user out)),
                                              roomId := Some r,
                                              username := Some (user_username (out_user out)) \<rparr>)
                      (snd ?run))
                    \<lparr> userConnections := (userConnections (snd ?run))
                                           (user_id (out_user out) \<mapsto> cid) \<rparr>)"
      have v2: "timerView ?s2 = timerView s"
        using v1 by (simp add: view_modState)
      have um: "userConnections (modState cid f x) = userConnections x" for f and x :: "'a Server"
        by (simp add: modState_def)
      have "snd (handleJoinRoom uow env cid r n s)
              = snd (bindE (runUseCase uow (useCases_getRooms uow))
                     (\<lambda>rooms s. (Inr (), broadcastToRoom r (USER_JOINED (out_user out) r) (Some cid)
                                   (send cid (ROOM_HISTORY r (out_messages out) (out_users out))
                                      (send cid (CONNECTED (out_user out) rooms) s)))) ?s2)"
        using Inr success
        by (simp add: handleJoinRoom_def bindE_run [where m = "useCases_joinRoom uow env r n"]
            Let_def um) (simp add: bindE_def)
      then show ?thesis
        using v2 by (simp add: bindE_run split: sum.splits)
    qed
  qed
qed

lemma view_handleLeaveRoom:
  "timerView (snd (handleLeaveRoom uow env cid st r s)) = timerView s"
  by (simp add: handleLeaveRoom_def bindE_run returnE_def split: sum.splits)

lemma view_handleEditMessage:
  "timerView (snd (handleEditMessage uow env cid st m c s)) = timerView s"
  by (simp add: handleEditMessage_def bindE_run returnE_def split: sum.splits Result.splits)

lemma view_handleDeleteMessage:
  "timerView (snd (handleDeleteMessage uow env cid st m s)) = timerView s"
  by (simp add: handleDeleteMessage_def bindE_run returnE_def split: sum.splits Result.splits)

lemma view_handleUpdateStatus:
  "timerView (snd (handleUpdateStatus uow env st x s)) = timerView s"
  by (simp add: handleUpdateStatus_def bindE_run returnE_def split: sum.splits)

lemma timersOk_stop:
  assumes ok: "timersOk s" and reg: "map_option typingTimeout (connections s cid) = Some (typingTimeout st)"
  shows "timersOk (handleTypingStop cid st r s)"
proof (cases "truthy (userId st)")
  case False
  then show ?thesis using ok by (simp add: handleTypingStop_def)
next
  case True
  show ?thesis
  proof (cases "typingTimeout st")
    case None
    then show ?thesis using True ok
      by (simp add: handleTypingStop_def timersOk_view [of "broadcastToRoom _ _ _ s" s])
  next
    case (Some h)
    let ?s1 = "modState cid (\<lambda>x. x\<lparr> typingTimeout := None \<rparr>) (clearTimeout h s)"
    obtain st0 where st0: "connections s cid = Some st0" "typingTimeout st0 = Some h"
      using reg Some by (cases "connections s cid") auto
    have "timersOk ?s1"
      unfolding timersOk_def
    proof (intro conjI allI impI)
      fix h' c r' d
      assume t: "timers ?s1 h' = Some (c, r', d)"
      then have ne: "h' \<noteq> h" and t0: "timers s h' = Some (c, r', d)"
        by (auto simp: modState_def clearTimeout_def split: if_splits)
      then obtain st' where st': "connections s c = Some st'" "typingTimeout st' = Some h'"
        using ok unfolding timersOk_def by blast
      have "c \<noteq> cid" using st' st0 ne by auto
      then show "\<exists>st. connections ?s1 c = Some st \<and> typingTimeout st = Some h'"
        using st' by (simp add: modState_def clearTimeout_def)
    next
      fix h'
      assume "timers ?s1 h' \<noteq> None"
      then have "timers s h' \<noteq> None"
        by (auto simp: modState_def clearTimeout_def split: if_splits)
      then show "h' < nextTimer ?s1"
        using ok unfolding timersOk_def by (simp add: modState_def clearTimeout_def)
    next
      fix c h'
      assume "\<exists>st. connections ?s1 c = Some st \<and> typingTimeout st = Some h'"
      then have "\<exists>st. connections s c = Some st \<and> typingTimeout st = Some h'"
        by (auto simp: modState_def clearTimeout_def split: if_splits)
      then show "h' < nextTimer ?s1"
        using ok unfolding timersOk_def by (simp add: modState_def clearTimeout_def)
    qed
    then show ?thesis using True Some
      by (simp add: handleTypingStop_def timersOk_view [of "broadcastToRoom _ _ _ ?s1" ?s1])
  qed
qed

lemma timersOk_start:
  assumes ok: "timersOk s" and reg: "connections s cid = Some st"
  shows "timersOk (handleTypingStart cid st r s)"
proof (cases "truthy (userId st) \<and> truthy (username st)")
  case False
  then show ?thesis using ok by (auto simp: handleTypingStart_def)
next
  case True
  define tm where "tm = (case typingTimeout st of Some h \<Rightarrow> (timers s)(h := None) | None \<Rightarrow> timers s)"
  define s3 where "s3 = s\<lparr> timers := tm(nextTimer s \<mapsto> (cid, r, TYPING_TIMEOUT_MS)),
                          nextTimer := nextTimer s + 1,
                          connections := (connections s)(cid \<mapsto> st\<lparr> typingTimeout := Some (nextTimer s) \<rparr>) \<rparr>"
  have eq: "handleTypingStart cid st r s
      = broadcastToRoom r (USER_TYPING (userId st) (username st) r) (Some cid) s3"
    using True reg
    by (cases "typingTimeout st")
       (simp_all add: handleTypingStart_def setTimeout_def Let_def s3_def tm_def modState_def
          clearTimeout_def)
  have c3: "connections s3 = (connections s)(cid \<mapsto> st\<lparr> typingTimeout := Some (nextTimer s) \<rparr>)"
    and t3: "timers s3 = tm(nextTimer s \<mapsto> (cid, r, TYPING_TIMEOUT_MS))"
    and n3: "nextTimer s3 = nextTimer s + 1"
    by (simp_all add: s3_def)
  have tm_sub: "tm h' = Some x \<Longrightarrow> timers s h' = Some x \<and> typingTimeout st \<noteq> Some h'" for h' x
    by (auto simp: tm_def split: option.splits if_splits)
  have "timersOk s3"
    unfolding timersOk_def
  proof (intro conjI allI impI)
    fix h' c r' d
    assume t: "timers s3 h' = Some (c, r', d)"
    show "\<exists>st'. connections s3 c = Some st' \<and> typingTimeout st' = Some h'"
    proof (cases "h' = nextTimer s")
      case True
      then show ?thesis using t unfolding t3 c3 by simp
    next
      case False
      then have t1: "tm h' = Some (c, r', d)" using t unfolding t3 by simp
      then have t0: "timers s h' = Some (c, r', d)" and old: "typingTimeout st \<noteq> Some h'"
        using tm_sub by blast+
      then obtain st' where st': "connections s c = Some st'" "typingTimeout st' = Some h'"
        using ok unfolding timersOk_def by blast
      have "c \<noteq> cid" using st' reg old by auto
      then show ?thesis using st' unfolding c3 by simp
    qed
  next
    fix h'
    assume "timers s3 h' \<noteq> None"
    then have "h' = nextTimer s \<or> timers s h' \<noteq> None"
      unfolding t3 using tm_sub by (cases "h' = nextTimer s") auto
    then have "h' = nextTimer s \<or> h' < nextTimer s"
      using ok unfolding timersOk_def by blast
    then show "h' < nextTimer s3"
      unfolding n3 by auto
  next
    fix c h'
    assume "\<exists>st'. connections s3 c = Some st' \<and> typingTimeout st' = Some h'"
    then have "h' = nextTimer s \<or> (\<exists>st'. connections s c = Some st' \<and> typingTimeout st' = Some h')"
      unfolding c3 by (auto split: if_splits)
    then have "h' = nextTimer s \<or> h' < nextTimer s"
      using ok unfolding timersOk_def by blast
    then show "h' < nextTimer s3"
      unfolding n3 by auto
  qed
  then show ?thesis
    unfolding eq by (simp add: timersOk_view [of "broadcastToRoom _ _ _ s3" s3])
qed

lemma timersOk_send:
  assumes ok: "timersOk s" and reg: "connections s cid = Some st"
  shows "timersOk (snd (handleSendMessage uow env cid st r c rt s))"
proof (cases "truthy (userId st) \<and> truthy (username st)")
  case False
  then have "timerView (snd (handleSendMessage uow env cid st r c rt s)) = timerView s"
    by (auto simp: handleSendMessage_def validateUserAuthorized_def)
  then show ?thesis using ok timersOk_view by blast
next
  case True
  let ?s1 = "modState cid (\<lambda>x. x\<lparr> messageCount := messageCount (snd (checkRateLimit (now env) st)),
                                  lastMessageTime := now env \<rparr>) s"
  have v1: "timerView ?s1 = timerView s" by (simp add: view_modState)
  have ok1: "timersOk ?s1" using ok timersOk_view [OF v1] by simp
  show ?thesis
  proof (cases "fst (checkRateLimit (now env) st)")
    case False
    then have "timerView (snd (handleSendMessage uow env cid st r c rt s)) = timerView s"
      using True v1 by (simp add: handleSendMessage_def validateUserAuthorized_def validateRateLimit_eq)
    then show ?thesis using ok timersOk_view by blast
  next
    case admitted: True
    let ?run = "runUseCase uow (useCases_sendMessage uow env (buildSendMessageInput st r c rt)) ?s1"
    have okr: "timersOk (snd ?run)"
      using ok1 timersOk_view [of "snd ?run" ?s1] by simp
    have regr: "map_option typingTimeout (connections (snd ?run) cid) = Some (typingTimeout st)"
      using reg by (simp add: runUseCase_registry modState_def)
    have stop: "timersOk (broadcastToRoom r ev None (handleTypingStop cid st r (snd ?run)))" for ev
      using timersOk_stop [OF okr regr, of r]
      by (simp add: timersOk_view [of "broadcastToRoom _ _ _ (handleTypingStop cid st r (snd ?run))"
            "handleTypingStop cid st r (snd ?run)"])
    have err: "timersOk (sendError cid a b (snd ?run))" for a b
      using okr by (simp add: timersOk_view [of "sendError _ _ _ (snd ?run)" "snd ?run"])
    have "handleSendMessage uow env cid st r c rt s =
       bindE (runUseCase uow (useCases_sendMessage uow env (buildSendMessageInput st r c rt)))
         (\<lambda>result. case result of
              failure err \<Rightarrow> (\<lambda>s. (Inr (), sendError cid (error_code err) (error_message err) s))
            | success dto \<Rightarrow> (\<lambda>s. (Inr (), broadcastToRoom r (MESSAGE_RECEIVED dto) None
                                           (handleTypingStop cid st r s)))) ?s1"
      using True admitted
      by (simp add: handleSendMessage_def validateUserAuthorized_def validateRateLimit_eq)
    then show ?thesis
      using okr stop err by (simp add: bindE_run split: sum.splits Result.splits)
  qed
qed

lemma timersOk_handleMessage:
  assumes ok: "timersOk s"
  shows "timersOk (snd (handleMessage uow env cid frame s))"
proof (cases "connections s cid")
  case None
  then show ?thesis using ok by (simp add: handleMessage_def)
next
  case (Some st)
  show ?thesis
  proof (cases frame)
    case InvalidJson
    then show ?thesis using Some ok
      by (simp add: handleMessage_def timersOk_view [of "sendError _ _ _ s" s])
  next
    case (SchemaInvalid issues)
    then show ?thesis using Some ok
      by (simp add: handleMessage_def timersOk_view [of "sendError _ _ _ s" s])
  next
    case (Valid ev)
    show ?thesis
    proof (cases ev)
      case (JOIN_ROOM r n)
      then show ?thesis using Some Valid ok
          timersOk_view [OF view_handleJoinRoom, of uow env cid r n s]
        by (simp add: handleMessage_def)
    next
      case (LEAVE_ROOM r)
      then show ?thesis using Some Valid ok
          timersOk_view [OF view_handleLeaveRoom, of uow env cid st r s]
        by (simp add: handleMessage_def)
    next
      case (SEND_MESSAGE r c rt)
      then show ?thesis using Some Valid timersOk_send [OF ok Some]
        by (simp add: handleMessage_def)
    next
      case (EDIT_MESSAGE m c)
      then show ?thesis using Some Valid ok
          timersOk_view [OF view_handleEditMessage, of uow env cid st m c s]
        by (simp add: handleMessage_def)
    next
      case (DELETE_MESSAGE m)
      then show ?thesis using Some Valid ok
          timersOk_view [OF view_handleDeleteMessage, of uow env cid st m s]
        by (simp add: handleMessage_def)
    next
      case (TYPING_START r)
      then show ?thesis using Some Valid timersOk_start [OF ok Some]
        by (simp add: handleMessage_def)
    next
      case (TYPING_STOP r)
      then show ?thesis using Some Valid timersOk_stop [OF ok, of cid st r]
        by (simp add: handleMessage_def)
    next
      case (UPDATE_STATUS x)
      then show ?thesis using Some Valid ok
          timersOk_view [OF view_handleUpdateStatus, of uow env st x s]
        by (simp add: handleMessage_def)
    qed
  qed
qed

lemma timersOk_cancel:
  assumes ok: "timersOk s"
  shows "timersOk (s\<lparr> timers := (timers s)(h := None) \<rparr>)"
  using ok unfolding timersOk_def by (auto split: if_splits)

lemma timersOk_departure:
  assumes ok: "timersOk s" and reg: "connections s cid = Some st"
  shows "timersOk (departure cid st s)"
    and "timers (departure cid st s) h \<noteq> Some (cid, r, d)"
proof -
  let ?s1 = "case typingTimeout st of Some h \<Rightarrow> clearTimeout h s | None \<Rightarrow> s"
  have ok1: "timersOk ?s1"
    using timersOk_cancel [OF ok] ok by (simp add: clearTimeout_def split: option.splits)
  have v: "timerView (departure cid st s) = timerView ?s1"
    by (simp add: departure_def Let_def)
  show "timersOk (departure cid st s)"
    using ok1 timersOk_view [OF v] by simp
  have t: "timers (departure cid st s) = timers ?s1"
    using v by (simp add: timerView_def)
  show "timers (departure cid st s) h \<noteq> Some (cid, r, d)"
  proof
    assume a: "timers (departure cid st s) h = Some (cid, r, d)"
    then have t0: "timers s h = Some (cid, r, d)" and ne: "typingTimeout st \<noteq> Some h"
      unfolding t by (auto simp: clearTimeout_def split: option.splits if_splits)
    then obtain st' where "connections s cid = Some st'" "typingTimeout st' = Some h"
      using ok unfolding timersOk_def by blast
    then have "typingTimeout st = Some h"
      using reg by simp
    then show False using ne by simp
  qed
qed

lemma timersOk_unregister:
  assumes ok: "timersOk s" and none: "\<And>h r d. timers s h \<noteq> Some (cid, r, d)"
  shows "timersOk (s\<lparr> connections := (connections s)(cid := None) \<rparr>)"
  unfolding timersOk_def
proof (intro conjI allI impI)
  fix h c r d
  assume "timers (s\<lparr> connections := (connections s)(cid := None) \<rparr>) h = Some (c, r, d)"
  then have t: "timers s h = Some (c, r, d)" by simp
  then have "c \<noteq> cid" using none by blast
  moreover obtain st where "connections s c = Some st" "typingTimeout st = Some h"
    using t ok unfolding timersOk_def by blast
  ultimately show "\<exists>st. connections (s\<lparr> connections := (connections s)(cid := None) \<rparr>) c = Some st
                        \<and> typingTimeout st = Some h"
    by simp
next
  fix h
  assume "timers (s\<lparr> connections := (connections s)(cid := None) \<rparr>) h \<noteq> None"
  then show "h < nextTimer (s\<lparr> connections := (connections s)(cid := None) \<rparr>)"
    using ok unfolding timersOk_def by simp
next
  fix c h
  assume "\<exists>st. connections (s\<lparr> connections := (connections s)(cid := None) \<rparr>) c = Some st
               \<and> typingTimeout st = Some h"
  then have "\<exists>st. connections s c = Some st \<and> typingTimeout st = Some h"
    by (auto split: if_splits)
  then show "h < nextTimer (s\<lparr> connections := (connections s)(cid := None) \<rparr>)"
    using ok unfolding timersOk_def by simp
qed

lemma view_store [simp]: "timerView (s\<lparr> store := x \<rparr>) = timerView s"
  by (simp add: timerView_def)

lemma view_emitted [simp]: "timerView (s\<lparr> emitted := x \<rparr>) = timerView s"
  by (simp add: timerView_def)

lemma timersOk_removeConnection:
  assumes ok: "timersOk s"
  shows "timersOk (snd (removeConnection uow env cid s))"
proof (cases "connections s cid")
  case None
  then show ?thesis using ok by (simp add: removeConnection_absent)
next
  case (Some st)
  let ?d = "departure cid st s"
  note dep = timersOk_departure [OF ok Some]
  have gone: "timersOk (?d\<lparr> connections := (connections ?d)(cid := None) \<rparr>)"
    by (rule timersOk_unregister [OF dep(1)]) (rule dep(2))
  have c: "connections ?d = connections s" by (simp add: departure_fields)
  have a: "timersOk (?d\<lparr> connections := (connections s)(cid := None) \<rparr>)"
    using gone unfolding c .
  have b: "timersOk (?d\<lparr> store := x \<rparr>)" for x
    using dep(1) timersOk_view [of "?d\<lparr> store := x \<rparr>" ?d] by simp
  have v: "timerView (?d\<lparr> store := x, emitted := y, connections := (connections s)(cid := None) \<rparr>)
             = timerView (?d\<lparr> connections := (connections s)(cid := None) \<rparr>)" for x y
    by (simp add: timerView_def)
  have e: "timersOk (?d\<lparr> store := x, emitted := y, connections := (connections s)(cid := None) \<rparr>)" for x y
    using a timersOk_view [OF v] by simp
  show ?thesis
    unfolding removeConnection_present [OF Some]
    using a b e dep(1) by (simp split: sum.splits)
qed

lemma timersOk_fireTimer:
  assumes ok: "timersOk s"
  shows "timersOk (fireTimer h s)"
proof (cases "timers s h")
  case None
  then show ?thesis using ok by (simp add: fireTimer_def)
next
  case (Some x)
  obtain c r d where x: "x = (c, r, d)" by (cases x) auto
  let ?s1 = "s\<lparr> timers := (timers s)(h := None) \<rparr>"
  have ok1: "timersOk ?s1" by (rule timersOk_cancel [OF ok])
  obtain st where st: "connections s c = Some st" "typingTimeout st = Some h"
    using ok Some x unfolding timersOk_def by blast
  have "timersOk (handleTypingStop c st r ?s1)"
    using st by (intro timersOk_stop [OF ok1]) simp
  then show ?thesis using Some x st by (simp add: fireTimer_def Let_def)
qed

lemma timersOk_addConnection:
  assumes ok: "timersOk s" and fresh: "connections s cid = None"
  shows "timersOk (addConnection cid initialState s)"
  unfolding timersOk_def
proof (intro conjI allI impI)
  fix h c r d
  assume "timers (addConnection cid initialState s) h = Some (c, r, d)"
  then have "timers s h = Some (c, r, d)" by (simp add: addConnection_def)
  then obtain st where st: "connections s c = Some st" "typingTimeout st = Some h"
    using ok unfolding timersOk_def by blast
  then have "c \<noteq> cid" using fresh by auto
  then show "\<exists>st. connections (addConnection cid initialState s) c = Some st
                 \<and> typingTimeout st = Some h"
    using st by (simp add: addConnection_def)
next
  fix h
  assume "timers (addConnection cid initialState s) h \<noteq> None"
  then show "h < nextTimer (addConnection cid initialState s)"
    using ok unfolding timersOk_def by (simp add: addConnection_def)
next
  fix c h
  assume "\<exists>st. connections (addConnection cid initialState s) c = Some st
               \<and> typingTimeout st = Some h"
  then have "\<exists>st. connections s c = Some st \<and> typingTimeout st = Some h"
    by (auto simp: addConnection_def initialState_def split: if_splits)
  then show "h < nextTimer (addConnection cid initialState s)"
    using ok unfolding timersOk_def by (simp add: addConnection_def)
qed

lemma reachable_timersOk: "reachable uow s \<Longrightarrow> timersOk s"
proof (induction rule: reachable.induct)
  case (started d)
  show ?case by (simp add: timersOk_def newServer_def)
next
  case (opened s cid)
  then show ?case by (simp add: timersOk_addConnection)
next
  case (received s env cid frame)
  then show ?case by (simp add: timersOk_handleMessage)
next
  case (closed s env cid)
  then show ?case by (simp add: timersOk_removeConnection)
next
  case (fired s h)
  then show ?case by (simp add: timersOk_fireTimer)
qed

lemma timersOk_at_most_one:
  assumes "timersOk s" "timers s h1 = Some (c, r1, d1)" "timers s h2 = Some (c, r2, d2)"
  shows "h1 = h2"
proof -
  obtain st1 where 1: "connections s c = Some st1" "typingTimeout st1 = Some h1"
    using assms(1,2) unfolding timersOk_def by blast
  obtain st2 where 2: "connections s c = Some st2" "typingTimeout st2 = Some h2"
    using assms(1,3) unfolding timersOk_def by blast
  show ?thesis using 1 2 by simp
qed

lemma typingFrame_simp [simp]: "typingFrame (env, r) = (env, Valid (TYPING_START r))"
  by (simp add: typingFrame_def)

lemma reachable_handleMessages:
  "reachable uow s \<Longrightarrow> reachable uow (handleMessages uow cid frames s)"
proof (induction frames arbitrary: s)
  case Nil
  then show ?case by simp
next
  case (Cons f frames)
  obtain env frame where f: "f = (env, frame)" by (cases f) auto
  show ?case
    unfolding f using Cons.IH [OF reachable.received [OF Cons.prems, of env cid frame]] by simp
qed

lemma typing_start_step:
  assumes reg: "connections s cid = Some st" and auth: "truthy (userId st)" "truthy (username st)"
  shows "timers (snd (handleMessage uow env cid (Valid (TYPING_START r)) s)) (nextTimer s)
           = Some (cid, r, TYPING_TIMEOUT_MS)"
    and "connections (snd (handleMessage uow env cid (Valid (TYPING_START r)) s)) cid
           = Some (st\<lparr> typingTimeout := Some (nextTimer s) \<rparr>)"
    and "sent (snd (handleMessage uow env cid (Valid (TYPING_START r)) s))
           = sent s @ map (\<lambda>c. (c, USER_TYPING (userId st) (username st) r))
                          (recipients r (Some cid) s)"
proof -
  have rec: "recipients r (Some cid) (modState cid f (x\<lparr> timers := tm, nextTimer := n \<rparr>))
               = recipients r (Some cid) x" for f tm n and x :: "'a Server"
    by (cases "roomSubscriptions x r") (auto simp: recipients_def modState_def intro: filter_cong)
  have ct: "(case typingTimeout st of Some h \<Rightarrow> clearTimeout h s | None \<Rightarrow> s)
              = s\<lparr> timers := (case typingTimeout st of Some h \<Rightarrow> (timers s)(h := None)
                                 | None \<Rightarrow> timers s) \<rparr>"
    by (simp add: clearTimeout_def split: option.splits)
  have recs: "recipients r (Some cid) (s\<lparr> timers := tm \<rparr>) = recipients r (Some cid) s" for tm
    by (cases "roomSubscriptions s r") (simp_all add: recipients_def)
  show "timers (snd (handleMessage uow env cid (Valid (TYPING_START r)) s)) (nextTimer s)
           = Some (cid, r, TYPING_TIMEOUT_MS)"
    using reg auth
    by (simp add: handleMessage_def handleTypingStart_def setTimeout_def Let_def ct
        broadcastToRoom_sent modState_def)
  show "connections (snd (handleMessage uow env cid (Valid (TYPING_START r)) s)) cid
           = Some (st\<lparr> typingTimeout := Some (nextTimer s) \<rparr>)"
    using reg auth
    by (simp add: handleMessage_def handleTypingStart_def setTimeout_def Let_def ct
        broadcastToRoom_sent modState_def)
  show "sent (snd (handleMessage uow env cid (Valid (TYPING_START r)) s))
           = sent s @ map (\<lambda>c. (c, USER_TYPING (userId st) (username st) r))
                          (recipients r (Some cid) s)"
    using reg auth
    by (simp add: handleMessage_def handleTypingStart_def setTimeout_def Let_def ct
        broadcastToRoom_sent rec recs)
       (simp add: modState_def)
qed

lemma typing_starts_run:
  assumes "connections s cid = Some st" and "truthy (userId st)" "truthy (username st)"
    and "starts \<noteq> []"
  shows "\<exists>h st' fs.
           timers (handleMessages uow cid (map typingFrame starts) s) h
             = Some (cid, snd (last starts), TYPING_TIMEOUT_MS)
         \<and> connections (handleMessages uow cid (map typingFrame starts) s) cid = Some st'
         \<and> typingTimeout st' = Some h \<and> userId st' = userId st
         \<and> sent (handleMessages uow cid (map typingFrame starts) s) = sent s @ fs
         \<and> (\<forall>f \<in> set fs. \<exists>c r. f = (c, USER_TYPING (userId st) (username st) r))"
  using assms
proof (induction starts arbitrary: s st)
  case Nil
  then show ?case by simp
next
  case (Cons a starts)
  obtain env r where a: "a = (env, r)" by (cases a) auto
  let ?s1 = "snd (handleMessage uow env cid (Valid (TYPING_START r)) s)"
  let ?st1 = "st\<lparr> typingTimeout := Some (nextTimer s) \<rparr>"
  note step = typing_start_step [OF Cons.prems(1,2,3), of uow env r]
  show ?case
  proof (cases "starts = []")
    case True
    show ?thesis
      apply (rule exI [of _ "nextTimer s"])
      apply (rule exI [of _ ?st1])
      apply (rule exI [of _ "map (\<lambda>c. (c, USER_TYPING (userId st) (username st) r))
                               (recipients r (Some cid) s)"])
      using step True by (auto simp: a)
  next
    case False
    have auth1: "truthy (userId ?st1)" "truthy (username ?st1)"
      using Cons.prems(2,3) by simp_all
    obtain h st' fs where ih:
      "timers (handleMessages uow cid (map typingFrame starts) ?s1) h
         = Some (cid, snd (last starts), TYPING_TIMEOUT_MS)"
      "connections (handleMessages uow cid (map typingFrame starts) ?s1) cid = Some st'"
      "typingTimeout st' = Some h" "userId st' = userId ?st1"
      "sent (handleMessages uow cid (map typingFrame starts) ?s1) = sent ?s1 @ fs"
      "\<forall>f \<in> set fs. \<exists>c r. f = (c, USER_TYPING (userId ?st1) (username ?st1) r)"
      using Cons.IH [OF step(2) auth1 False] by blast
    show ?thesis
      apply (rule exI [of _ h])
      apply (rule exI [of _ st'])
      apply (rule exI [of _ "map (\<lambda>c. (c, USER_TYPING (userId st) (username st) r))
                               (recipients r (Some cid) s) @ fs"])
      using ih step(3) False by (auto simp: a)
  qed
qed

lemma fire_is_stop:
  assumes t: "timers s h = Some (cid, r, d)"
    and reg: "connections s cid = Some st" and tt: "typingTimeout st = Some h"
    and auth: "truthy (userId st)"
  shows "fireTimer h s = snd (handleMessage uow env cid (Valid (TYPING_STOP r)) s)"
proof -
  have "clearTimeout h (s\<lparr> timers := (timers s)(h := None) \<rparr>) = clearTimeout h s"
    by (simp add: clearTimeout_def)
  then show ?thesis
    using t reg tt auth
    by (simp add: fireTimer_def handleMessage_def handleTypingStop_def Let_def)
qed

lemma afterJoin_alice: "connections afterJoin ''c1'' = Some aliceSession"
  by code_simp

subsection \<open>Soft deletion\<close>

lemma find_None_conv: "(find P xs = None) = (\<forall>x \<in> set xs. \<not> P x)"
  by (induction xs) auto

lemma tombstone_not_live:
  "\<not> (m_id (if m_id row = i then row\<lparr> m_is_deleted := 1, m_updated_at := t \<rparr> else row) = i
       \<and> m_is_deleted (if m_id row = i then row\<lparr> m_is_deleted := 1, m_updated_at := t \<rparr> else row) = 0)"
  by (cases "m_id row = i") simp_all

lemma find_tombstone:
  "find (\<lambda>row. m_id row = i \<and> m_is_deleted row = 0)
     (map (\<lambda>row. if m_id row = i then row\<lparr> m_is_deleted := 1, m_updated_at := t \<rparr> else row) rows)
   = None"
proof (induction rows)
  case Nil
  show ?case by simp
next
  case (Cons row rows)
  show ?case
    using Cons tombstone_not_live [of row i t] by (simp only: list.map find.simps if_False)
qed

lemma deleted_not_found:
  "SQLiteMessageRepository_findById
     (d\<lparr> tbl_messages := map (\<lambda>row. if m_id row = i
                                      then row\<lparr> m_is_deleted := 1, m_updated_at := t \<rparr>
                                      else row) (tbl_messages d) \<rparr>) i = Inr None"
  unfolding SQLiteMessageRepository_findById_def by (simp add: find_tombstone)

lemma tombstone_flag:
  "m_id (if m_id row = i then row\<lparr> m_is_deleted := 1, m_updated_at := t \<rparr> else row) = i
   \<longrightarrow> m_is_deleted (if m_id row = i then row\<lparr> m_is_deleted := 1, m_updated_at := t \<rparr> else row) = 1"
  by (cases "m_id row = i") simp_all

lemma ball_map_pointwise: "(\<And>x. P (g x)) \<Longrightarrow> \<forall>y \<in> set (map g xs). P y"
  by simp

lemma tombstones_flagged:
  "\<forall>row \<in> set (map (\<lambda>row. if m_id row = i
                                then row\<lparr> m_is_deleted := 1, m_updated_at := t \<rparr>
                                else row) rows).
     m_id row = i \<longrightarrow> m_is_deleted row = 1"
  by (rule ball_map_pointwise) (rule tombstone_flag)

lemma messageToDTO_reply_not_found:
  assumes author: "users_findById uow d (msg_authorId message) = Inr (Some author)"
    and gone: "messages_findById uow d (asString (msg_replyTo message)) = Inr None"
  shows "messageToDTO uow message (d, evs)
           = (Inr \<lparr> dto_id = msg_id message, dto_roomId = msg_roomId message,
                    dto_author_id = user_id author, dto_author_username = user_username author,
                    dto_author_avatar = user_avatar author, dto_content = msg_content message,
                    dto_createdAt = msg_createdAt message, dto_editedAt = msg_editedAt message,
                    dto_replyTo = None \<rparr>, (d, evs))"
  using assms
  by (simp add: messageToDTO_def bindE_def query_def returnE_def)

lemma reply_before_delete:
  "fst (messageToDTO createUnitOfWork replyMessage (threadDb, []))
     = Inr \<lparr> dto_id = ''m2'', dto_roomId = ''general'', dto_author_id = ''uBob'',
             dto_author_username = ''bob'', dto_author_avatar = ''#F7DC6F'',
             dto_content = ''hi alice'', dto_createdAt = 1700000060000, dto_editedAt = None,
             dto_replyTo = Some \<lparr> reply_id = ''m1'', reply_authorUsername = ''alice'',
                                   reply_contentPreview = ''hello'' \<rparr> \<rparr>"
  by code_simp

lemma delete_original:
  "fst (useCases_deleteMessage createUnitOfWork (env_at 1700000070000 []) ''m1'' ''uAlice''
          (threadDb, [])) = Inr (success ())
   \<and> fst (snd (useCases_deleteMessage createUnitOfWork (env_at 1700000070000 []) ''m1'' ''uAlice''
                 (threadDb, []))) = tombstoneDb"
  by code_simp

lemma reply_after_delete:
  "fst (messageToDTO createUnitOfWork replyMessage (tombstoneDb, []))
     = Inr \<lparr> dto_id = ''m2'', dto_roomId = ''general'', dto_author_id = ''uBob'',
             dto_author_username = ''bob'', dto_author_avatar = ''#F7DC6F'',
             dto_content = ''hi alice'', dto_createdAt = 1700000060000, dto_editedAt = None,
             dto_replyTo = None \<rparr>"
  by code_simp

subsection \<open>LEAVE_ROOM followed by SEND_MESSAGE\<close>

lemma find_map_keys:
  "(\<And>x. P (g x) = P x) \<Longrightarrow> find P (map g xs) = map_option g (find P xs)"
  by (induction xs) simp_all

lemma find_Some_mem: "find P xs = Some x \<Longrightarrow> x \<in> set xs \<and> P x"
  by (induction xs) (auto split: if_splits)

lemma mem_find_Some: "x \<in> set xs \<Longrightarrow> P x \<Longrightarrow> \<exists>y. find P xs = Some y"
  by (induction xs) auto

text \<open>
  What \<open>leaveRoom\<close> does to the SQLite database: it returns (it never throws), the rooms
  and the messages are as before, and every user row keeps its id, name and avatar.
\<close>

lemma sqlite_leaveRoom_db:
  "\<exists>res d1 evs g.
     useCases_leaveRoom createUnitOfWork env r uid (d, []) = (Inr res, (d1, evs))
     \<and> tbl_rooms d1 = tbl_rooms d \<and> tbl_messages d1 = tbl_messages d
     \<and> tbl_users d1 = map g (tbl_users d)
     \<and> (\<forall>row. u_id (g row) = u_id row \<and> u_username (g row) = u_username row
               \<and> u_avatar (g row) = u_avatar row)"
proof (cases "find (\<lambda>row. r_id row = r) (tbl_rooms d)")
  case None
  have "useCases_leaveRoom createUnitOfWork env r uid (d, [])
          = (Inr (failure (UseCaseError ''Room not found'' ''ROOM_NOT_FOUND'')), (d, []))"
    using None
    by (simp add: useCases_leaveRoom_def bindE_def query_def returnE_def createUnitOfWork_def
        SQLiteRoomRepository_findById_def)
  then show ?thesis
    by (intro exI [of _ "failure (UseCaseError ''Room not found'' ''ROOM_NOT_FOUND'')"]
        exI [of _ d] exI [of _ "[]"] exI [of _ "\<lambda>row. row"]) simp
next
  case (Some rrow)
  let ?g1 = "\<lambda>row. if u_id row = uid then row\<lparr> u_status := offline, u_updated_at := now env \<rparr>
                    else row"
  let ?g2 = "\<lambda>row. if u_id row = uid
                    then row\<lparr> u_last_seen_at := Some (now env), u_updated_at := now env \<rparr>
                    else row"
  let ?d1 = "d\<lparr> tbl_room_participants :=
                  filter (\<lambda>row. \<not> (p_room_id row = r \<and> p_user_id row = uid))
                    (tbl_room_participants d),
                tbl_users := map ?g2 (map ?g1 (tbl_users d)) \<rparr>"
  have run: "useCases_leaveRoom createUnitOfWork env r uid (d, [])
          = (Inr (success ()), (?d1, [room_user_left r uid]))"
    using Some
    by (simp add: useCases_leaveRoom_def bindE_def query_def command_def emit_def returnE_def
        createUnitOfWork_def SQLiteRoomRepository_findById_def getParticipantsSet_def
        SQLiteRoomRepository_getParticipants_def SQLiteRoomRepository_removeParticipant_def
        SQLiteUserRepository_updateStatus_def SQLiteUserRepository_updateLastSeen_def
        del: map_map)
  have g: "\<forall>row. u_id ((?g2 \<circ> ?g1) row) = u_id row
               \<and> u_username ((?g2 \<circ> ?g1) row) = u_username row
               \<and> u_avatar ((?g2 \<circ> ?g1) row) = u_avatar row"
  proof
    fix row
    show "u_id ((?g2 \<circ> ?g1) row) = u_id row
               \<and> u_username ((?g2 \<circ> ?g1) row) = u_username row
               \<and> u_avatar ((?g2 \<circ> ?g1) row) = u_avatar row"
      by (cases "u_id row = uid") simp_all
  qed
  have users: "tbl_users ?d1 = map (?g2 \<circ> ?g1) (tbl_users d)"
    by simp
  have tabs: "tbl_rooms ?d1 = tbl_rooms d" "tbl_messages ?d1 = tbl_messages d"
    by simp_all
  show ?thesis
    using run users tabs g
    by (intro exI [of _ "success ()"] exI [of _ ?d1] exI [of _ "[room_user_left r uid]"]
        exI [of _ "?g2 \<circ> ?g1"] conjI)
qed

lemma sqlite_sendMessage:
  assumes room: "find (\<lambda>row. r_id row = r) (tbl_rooms d) = Some rrow"
    and user: "find (\<lambda>row. u_id row = uid) (tbl_users d) = Some urow"
    and fresh: "\<forall>row \<in> set (tbl_messages d). m_id row \<noteq> nanoid env 16"
  shows "useCases_sendMessage createUnitOfWork env
           \<lparr> input_roomId = r, input_authorId = uid, input_content = c, input_replyTo = None \<rparr>
           (d, [])
     = (Inr (success \<lparr> dto_id = nanoid env 16, dto_roomId = r, dto_author_id = u_id urow,
                       dto_author_username = u_username urow, dto_author_avatar = u_avatar urow,
                       dto_content = c, dto_createdAt = now env, dto_editedAt = None,
                       dto_replyTo = None \<rparr>),
        (d\<lparr> tbl_messages := tbl_messages d @
             [\<lparr> m_id = nanoid env 16, m_room_id = r, m_author_id = uid, m_content = c,
                m_reply_to_id = None, m_is_deleted = 0, m_created_at = now env,
                m_edited_at = None, m_updated_at = now env \<rparr>] \<rparr>,
         [message_sent (nanoid env 16) r uid]))"
proof -
  have r1: "\<not> (\<forall>row \<in> set (tbl_rooms d). r_id row \<noteq> r)"
    using find_Some_mem [OF room] by blast
  have u1: "\<not> (\<forall>row \<in> set (tbl_users d). u_id row \<noteq> uid)"
    using find_Some_mem [OF user] by blast
  have f1: "\<not> (\<exists>row \<in> set (tbl_messages d). m_id row = nanoid env 16)"
    using fresh by blast
  let ?message = "\<lparr> msg_id = nanoid env 16, msg_roomId = r, msg_authorId = uid,
       msg_content = c, msg_createdAt = now env, msg_editedAt = None, msg_replyTo = None \<rparr>"
  let ?d2 = "d\<lparr> tbl_messages := tbl_messages d @
             [\<lparr> m_id = nanoid env 16, m_room_id = r, m_author_id = uid, m_content = c,
                m_reply_to_id = None, m_is_deleted = 0, m_created_at = now env,
                m_edited_at = None, m_updated_at = now env \<rparr>] \<rparr>"
  have save: "SQLiteMessageRepository_save (now env) d ?message = Inr ?d2"
    using r1 u1 f1 by (simp add: SQLiteMessageRepository_save_def)
  have fr: "SQLiteRoomRepository_findById d r
              = Inr (Some (roomRowToEntity rrow
                  (set (map p_user_id (filter (\<lambda>row. p_room_id row = r) (tbl_room_participants d))))))"
    using room
    by (simp add: SQLiteRoomRepository_findById_def getParticipantsSet_def
        SQLiteRoomRepository_getParticipants_def)
  have fu: "SQLiteUserRepository_findById d uid = Inr (Some (userRowToEntity urow))"
      "SQLiteUserRepository_findById ?d2 uid = Inr (Some (userRowToEntity urow))"
    using user by (simp_all add: SQLiteUserRepository_findById_def)
  have dto: "messageToDTO createUnitOfWork ?message (?d2, evs)
     = (Inr \<lparr> dto_id = nanoid env 16, dto_roomId = r, dto_author_id = u_id urow,
              dto_author_username = u_username urow, dto_author_avatar = u_avatar urow,
              dto_content = c, dto_createdAt = now env, dto_editedAt = None,
              dto_replyTo = None \<rparr>, (?d2, evs))" for evs
    using fu(2)
    by (simp add: messageToDTO_def bindE_def query_def returnE_def createUnitOfWork_def
        truthy_def userRowToEntity_def)
  show ?thesis
    using fr fu(1) save dto
    by (simp add: useCases_sendMessage_def bindE_def query_def command_def emit_def returnE_def
        createUnitOfWork_def MessageFactory_create_def truthy_def Let_def)
qed


lemma recipients_cong:
  assumes "roomSubscriptions a = roomSubscriptions b"
    and "\<And>c. (connections a c = None) = (connections b c = None)"
  shows "recipients r ex a = recipients r ex b"
  using assms by (cases "roomSubscriptions b r") (simp_all add: recipients_def)

lemma leaveRoom_fields:
  "connections (ConnectionManager_leaveRoom cid r s) = connections s"
  "store (ConnectionManager_leaveRoom cid r s) = store s"
  "sent (ConnectionManager_leaveRoom cid r s) = sent s"
  "userConnections (ConnectionManager_leaveRoom cid r s) = userConnections s"
  by (simp_all add: ConnectionManager_leaveRoom_def Let_def split: option.splits)

lemma leave_keeps_sessions:
  "connections (snd (handleLeaveRoom uow env cid st r s)) = connections s"
proof (cases "\<not> truthy (userId st) \<or> \<not> truthy (roomId st)")
  case True
  then show ?thesis by (simp add: handleLeaveRoom_def returnE_def)
next
  case False
  obtain res s2 where run:
    "runUseCase uow (useCases_leaveRoom uow env r (asString (userId st))) s = (res, s2)"
    by (cases "runUseCase uow (useCases_leaveRoom uow env r (asString (userId st))) s")
  have s2: "connections s2 = connections s"
    using runUseCase_registry(1) [of uow "useCases_leaveRoom uow env r (asString (userId st))" s] run
    by simp
  show ?thesis
    using False s2
    by (cases res) (simp_all add: handleLeaveRoom_def bindE_def run broadcastToRoom_sent
        leaveRoom_fields)
qed

lemma leave_step:
  assumes reg: "connections s cid = Some st"
    and joined: "truthy (userId st)" "truthy (roomId st)"
  shows "\<exists>s2. handleMessage createUnitOfWork env cid (Valid (LEAVE_ROOM r)) s
                = (Inr (), broadcastToRoom r (USER_LEFT (userId st) r) None
                             (ConnectionManager_leaveRoom cid r s2))
             \<and> store s2 = fst (snd (useCases_leaveRoom createUnitOfWork env r (asString (userId st))
                                       (store s, [])))
             \<and> userConnections s2 = userConnections s"
proof -
  let ?m = "useCases_leaveRoom createUnitOfWork env r (asString (userId st))"
  obtain res s2 where run: "runUseCase createUnitOfWork ?m s = (res, s2)"
    by (cases "runUseCase createUnitOfWork ?m s")
  obtain out d1 evs where out: "?m (store s, []) = (Inr out, (d1, evs))"
    using sqlite_leaveRoom_db [of env r "asString (userId st)" "store s"] by blast
  have res: "res = Inr out"
    using runUseCase_store(1) [of createUnitOfWork ?m s] run out by simp
  have st2: "store s2 = fst (snd (?m (store s, [])))"
    using runUseCase_store(2) [of createUnitOfWork ?m s] run by simp
  have "handleMessage createUnitOfWork env cid (Valid (LEAVE_ROOM r)) s
                = (Inr (), broadcastToRoom r (USER_LEFT (userId st) r) None
                             (ConnectionManager_leaveRoom cid r s2))"
    using reg joined by (simp add: handleMessage_def handleLeaveRoom_def bindE_def run res)
  moreover have "userConnections s2 = userConnections s"
    using runUseCase_registry(3) [of createUnitOfWork ?m s] run by simp
  ultimately show ?thesis using st2 by blast
qed

lemma send_accepted_step:
  assumes reg: "connections s cid = Some st"
    and uid: "userId st = Some uid" "uid \<noteq> []"
    and name: "truthy (username st)"
    and rate: "fst (checkRateLimit (now env) st)"
    and room: "find (\<lambda>row. r_id row = r) (tbl_rooms (store s)) = Some rrow"
    and user: "find (\<lambda>row. u_id row = uid) (tbl_users (store s)) = Some urow"
    and fresh: "\<forall>row \<in> set (tbl_messages (store s)). m_id row \<noteq> nanoid env 16"
  shows "fst (handleMessage createUnitOfWork env cid (Valid (SEND_MESSAGE r c None)) s) = Inr ()"
    and "sent (snd (handleMessage createUnitOfWork env cid (Valid (SEND_MESSAGE r c None)) s))
          = sent s
            @ map (\<lambda>x. (x, USER_STOPPED_TYPING (Some uid) r)) (recipients r (Some cid) s)
            @ map (\<lambda>x. (x, MESSAGE_RECEIVED
                   \<lparr> dto_id = nanoid env 16, dto_roomId = r, dto_author_id = u_id urow,
                     dto_author_username = u_username urow, dto_author_avatar = u_avatar urow,
                     dto_content = c, dto_createdAt = now env, dto_editedAt = None,
                     dto_replyTo = None \<rparr>)) (recipients r None s)"
    and "tbl_messages (store (snd (handleMessage createUnitOfWork env cid
                                     (Valid (SEND_MESSAGE r c None)) s)))
          = tbl_messages (store s) @
             [\<lparr> m_id = nanoid env 16, m_room_id = r, m_author_id = uid, m_content = c,
                m_reply_to_id = None, m_is_deleted = 0, m_created_at = now env,
                m_edited_at = None, m_updated_at = now env \<rparr>]"
proof -
  let ?dto = "\<lparr> dto_id = nanoid env 16, dto_roomId = r, dto_author_id = u_id urow,
                     dto_author_username = u_username urow, dto_author_avatar = u_avatar urow,
                     dto_content = c, dto_createdAt = now env, dto_editedAt = None,
                     dto_replyTo = None \<rparr>"
  let ?d2 = "(store s)\<lparr> tbl_messages := tbl_messages (store s) @
             [\<lparr> m_id = nanoid env 16, m_room_id = r, m_author_id = uid, m_content = c,
                m_reply_to_id = None, m_is_deleted = 0, m_created_at = now env,
                m_edited_at = None, m_updated_at = now env \<rparr>] \<rparr>"
  let ?s0 = "s\<lparr> connections := (connections s)(cid \<mapsto> snd (checkRateLimit (now env) st)) \<rparr>"
  let ?s1 = "s\<lparr> connections := (connections s)(cid \<mapsto> snd (checkRateLimit (now env) st)),
                store := ?d2, emitted := emitted s @ [message_sent (nanoid env 16) r uid] \<rparr>"
  have auth: "truthy (userId st)" using uid by (simp add: truthy_def)
  have input: "buildSendMessageInput st r c None
      = \<lparr> input_roomId = r, input_authorId = uid, input_content = c, input_replyTo = None \<rparr>"
    using uid by (simp add: buildSendMessageInput_def asString_def truthy_def)
  have run: "runUseCase createUnitOfWork
               (useCases_sendMessage createUnitOfWork env (buildSendMessageInput st r c None)) ?s0
             = (Inr (success ?dto), ?s1)"
    unfolding input
    by (simp add: runUseCase_def sqlite_sendMessage [OF room user fresh] deliver_def)
  have h: "handleMessage createUnitOfWork env cid (Valid (SEND_MESSAGE r c None)) s
      = (Inr (), broadcastToRoom r (MESSAGE_RECEIVED ?dto) None (handleTypingStop cid st r ?s1))"
    using reg
    by (simp add: handleMessage_def handleSendMessage_admitted [OF reg auth name rate]
        bindE_def run)
  let ?s2 = "case typingTimeout st of
               Some h \<Rightarrow> modState cid (\<lambda>st. st\<lparr> typingTimeout := None \<rparr>) (clearTimeout h ?s1)
             | None \<Rightarrow> ?s1"
  have s2: "sent ?s2 = sent s" "store ?s2 = ?d2" "roomSubscriptions ?s2 = roomSubscriptions s"
    "(connections ?s2 x = None) = (connections s x = None)" for x
    using reg by (simp_all add: modState_def clearTimeout_def split: option.splits)
  have rec2: "recipients r ex ?s2 = recipients r ex s" for ex
    by (rule recipients_cong) (simp_all add: s2)
  have stop: "handleTypingStop cid st r ?s1
      = ?s2\<lparr> sent := sent s @ map (\<lambda>x. (x, USER_STOPPED_TYPING (Some uid) r))
                                (recipients r (Some cid) s) \<rparr>"
    using auth uid(1) by (simp add: handleTypingStop_def broadcastToRoom_sent rec2 s2(1))
  have rec3: "recipients r ex (?s2\<lparr> sent := fs \<rparr>) = recipients r ex s" for ex fs
    by (rule recipients_cong) (simp_all add: s2)
  show "fst (handleMessage createUnitOfWork env cid (Valid (SEND_MESSAGE r c None)) s) = Inr ()"
    by (simp add: h)
  show "sent (snd (handleMessage createUnitOfWork env cid (Valid (SEND_MESSAGE r c None)) s))
          = sent s
            @ map (\<lambda>x. (x, USER_STOPPED_TYPING (Some uid) r)) (recipients r (Some cid) s)
            @ map (\<lambda>x. (x, MESSAGE_RECEIVED ?dto)) (recipients r None s)"
    unfolding h stop by (simp add: broadcastToRoom_sent rec3)
  show "tbl_messages (store (snd (handleMessage createUnitOfWork env cid
                                     (Valid (SEND_MESSAGE r c None)) s)))
          = tbl_messages (store s) @
             [\<lparr> m_id = nanoid env 16, m_room_id = r, m_author_id = uid, m_content = c,
                m_reply_to_id = None, m_is_deleted = 0, m_created_at = now env,
                m_edited_at = None, m_updated_at = now env \<rparr>]"
    unfolding h stop by (simp add: broadcastToRoom_sent s2(2))
qed

lemma after_leave_example:
  "sent (snd (handleMessage createUnitOfWork (env_at 1700000200000 []) ''c1''
                (Valid (LEAVE_ROOM ''general'')) exampleServer))
     = [(''c2'', USER_LEFT (Some ''uAlice'') ''general'')]"
  "recipients ''general'' (Some ''c1'')
     (snd (handleMessage createUnitOfWork (env_at 1700000200000 []) ''c1''
             (Valid (LEAVE_ROOM ''general'')) exampleServer)) = [''c2'']"
  "recipients ''general'' None
     (snd (handleMessage createUnitOfWork (env_at 1700000200000 []) ''c1''
             (Valid (LEAVE_ROOM ''general'')) exampleServer)) = [''c2'']"
  by code_simp+

lemma rollover_example:
  "sent (snd (handleMessage createUnitOfWork (env_at 1700000160001 ''m31'') ''c1''
                (Valid (SEND_MESSAGE ''general'' ''hi'' None)) busyServer))
     = [(''c2'', USER_STOPPED_TYPING (Some ''uAlice'') ''general''),
        (''c1'', MESSAGE_RECEIVED
           \<lparr> dto_id = ''m31'', dto_roomId = ''general'', dto_author_id = ''uAlice'',
             dto_author_username = ''alice'', dto_author_avatar = ''#98D8C8'',
             dto_content = ''hi'', dto_createdAt = 1700000160001, dto_editedAt = None,
             dto_replyTo = None \<rparr>),
        (''c2'', MESSAGE_RECEIVED
           \<lparr> dto_id = ''m31'', dto_roomId = ''general'', dto_author_id = ''uAlice'',
             dto_author_username = ''alice'', dto_author_avatar = ''#98D8C8'',
             dto_content = ''hi'', dto_createdAt = 1700000160001, dto_editedAt = None,
             dto_replyTo = None \<rparr>)]"
  "map m_id (tbl_messages (fst (snd (useCases_sendMessage createUnitOfWork
      (env_at 1700000160001 ''m31'') (buildSendMessageInput busySession ''general'' ''hi'' None)
      (store busyServer, []))))) = [''m31'']"
  by code_simp+

lemma sqlite_deleteMessage:
  assumes found: "SQLiteMessageRepository_findById d i = Inr (Some original)"
    and own: "msg_authorId original = uid"
  shows "useCases_deleteMessage createUnitOfWork env i uid (d, [])
           = (Inr (success ()),
              (d\<lparr> tbl_messages := map (\<lambda>row. if m_id row = i
                                               then row\<lparr> m_is_deleted := 1, m_updated_at := now env \<rparr>
                                               else row) (tbl_messages d) \<rparr>,
               [message_deleted i]))"
proof -
  have f: "messages_findById createUnitOfWork d i = Inr (Some original)"
    using found by (simp add: createUnitOfWork_def)
  have del: "messages_delete createUnitOfWork (now env) d i
               = Inr (d\<lparr> tbl_messages := map (\<lambda>row. if m_id row = i
                                               then row\<lparr> m_is_deleted := 1, m_updated_at := now env \<rparr>
                                               else row) (tbl_messages d) \<rparr>)"
    by (simp add: createUnitOfWork_def SQLiteMessageRepository_delete_def)
  show ?thesis
    unfolding useCases_deleteMessage_def
    by (simp add: bindE_def query_def command_def emit_def returnE_def f del own)
qed

lemma delete_step:
  assumes reg: "connections s cid = Some st"
    and uid: "userId st = Some uid" "uid \<noteq> []"
    and found: "SQLiteMessageRepository_findById (store s) i = Inr (Some original)"
    and own: "msg_authorId original = uid"
  shows "handleMessage createUnitOfWork env cid (Valid (DELETE_MESSAGE i)) s
           = (Inr (),
              (if truthy (roomId st)
               then broadcastToRoom (asString (roomId st)) (MESSAGE_DELETED i) None
               else (\<lambda>s. s))
                (s\<lparr> store := (store s)\<lparr> tbl_messages :=
                       map (\<lambda>row. if m_id row = i
                                  then row\<lparr> m_is_deleted := 1, m_updated_at := now env \<rparr>
                                  else row) (tbl_messages (store s)) \<rparr>,
                     emitted := emitted s @ [message_deleted i] \<rparr>))"
proof -
  have auth: "truthy (userId st)" using uid by (simp add: truthy_def)
  have uidS: "asString (userId st) = uid" using uid by (simp add: asString_def)
  have run: "runUseCase createUnitOfWork (useCases_deleteMessage createUnitOfWork env i uid) s
      = (Inr (success ()),
         s\<lparr> store := (store s)\<lparr> tbl_messages :=
                       map (\<lambda>row. if m_id row = i
                                  then row\<lparr> m_is_deleted := 1, m_updated_at := now env \<rparr>
                                  else row) (tbl_messages (store s)) \<rparr>,
            emitted := emitted s @ [message_deleted i] \<rparr>)"
    by (simp add: runUseCase_def sqlite_deleteMessage [OF found own] deliver_def)
  show ?thesis
    using reg auth
    by (simp add: handleMessage_def handleDeleteMessage_def uidS bindE_def run)
qed

subsection \<open>The authorization gate\<close>

text \<open>
  Claim C8. A SEND_MESSAGE, EDIT_MESSAGE, DELETE_MESSAGE, TYPING_START or TYPING_STOP frame
  on a registered connection whose \<open>userId\<close> is unset (no JOIN_ROOM has succeeded on it)
  never reaches the use-case layer: SEND_MESSAGE is answered with one UNAUTHORIZED error
  frame to the sender and changes nothing else, and the other four change nothing at
  all. The equations hold for every unit of work, so no repository method is consulted,
  and the database, the emitted events, the timers and the registry stay as they were.
\<close>

theorem authorization_gate:
  assumes "connections s cid = Some st" and "\<not> truthy (userId st)"
  shows "handleMessage uow env cid (Valid (SEND_MESSAGE r c rt)) s
           = (Inr (), s\<lparr> sent := sent s @ [(cid, ERROR ''UNAUTHORIZED'' ''Must join a room first'')] \<rparr>)
       \<and> handleMessage uow env cid (Valid (EDIT_MESSAGE m c)) s = (Inr (), s)
       \<and> handleMessage uow env cid (Valid (DELETE_MESSAGE m)) s = (Inr (), s)
       \<and> handleMessage uow env cid (Valid (TYPING_START r)) s = (Inr (), s)
       \<and> handleMessage uow env cid (Valid (TYPING_STOP r)) s = (Inr (), s)"
  using assms
  by (simp add: handleMessage_def handleSendMessage_def validateUserAuthorized_def sendError_def
      send_def handleEditMessage_def handleDeleteMessage_def handleTypingStart_def
      handleTypingStop_def returnE_def)

theorem authorization_gate_witness:
  "connections (addConnection ''c1'' initialState (newServer ())) ''c1'' = Some initialState
   \<and> \<not> truthy (userId initialState)
   \<and> handleMessage closedUow env0 ''c1'' (Valid (SEND_MESSAGE ''general'' ''hi'' None))
        (addConnection ''c1'' initialState (newServer ()))
      = (Inr (), (addConnection ''c1'' initialState (newServer ()))
                   \<lparr> sent := [(''c1'', ERROR ''UNAUTHORIZED'' ''Must join a room first'')] \<rparr>)
   \<and> handleMessage closedUow env0 ''c1'' (Valid (EDIT_MESSAGE ''m1'' ''hi''))
        (addConnection ''c1'' initialState (newServer ()))
      = (Inr (), addConnection ''c1'' initialState (newServer ()))
   \<and> handleMessage closedUow env0 ''c1'' (Valid (DELETE_MESSAGE ''m1''))
        (addConnection ''c1'' initialState (newServer ()))
      = (Inr (), addConnection ''c1'' initialState (newServer ()))
   \<and> handleMessage closedUow env0 ''c1'' (Valid (TYPING_START ''general''))
        (addConnection ''c1'' initialState (newServer ()))
      = (Inr (), addConnection ''c1'' initialState (newServer ()))
   \<and> handleMessage closedUow env0 ''c1'' (Valid (TYPING_STOP ''general''))
        (addConnection ''c1'' initialState (newServer ()))
      = (Inr (), addConnection ''c1'' initialState (newServer ()))"
proof -
  have reg: "connections (addConnection ''c1'' initialState (newServer ())) ''c1'' = Some initialState"
    by (simp add: addConnection_def newServer_def)
  have unset: "\<not> truthy (userId initialState)"
    by (simp add: truthy_def initialState_def)
  have nil: "sent (addConnection ''c1'' initialState (newServer ())) = []"
    by (simp add: addConnection_def newServer_def)
  show ?thesis
    using authorization_gate [OF reg unset, of closedUow env0 "''general''" "''hi''" None
        "''m1''"] reg unset nil
    by simp
qed

subsection \<open>The rate limit within one window\<close>



subsection \<open>Closing a connection when storage fails\<close>

text \<open>
  Claim C3, as amended. \<^verbatim>\<open>removeConnection\<close> has no handler for a failing storage
  call. For a registered connection it returns normally exactly when the session has no
  user or both storage calls of the teardown (marking the user offline, stamping
  last-seen) succeed; otherwise its promise rejects with the storage error. In every
  outcome the USER_LEFT frames of the room departure have been sent to the other
  registered subscribers of the session's room, and the connection is no longer in that
  room's subscriber set: a later failure does not undo them. When it returns normally
  the connection is unregistered and, for a session with a user,
  \<^verbatim>\<open>user:disconnected\<close> has been published; when it rejects, the connection stays
  registered and no event is published.
\<close>

theorem teardown_outcome:
  assumes reg: "connections s cid = Some st"
  shows "((fst (removeConnection uow env cid s) = Inr ()) =
            (\<not> truthy (userId st)
             \<or> (\<exists>d1 d2. users_updateStatus uow (now env) (store s) (asString (userId st)) offline
                          = Inr d1
                        \<and> users_updateLastSeen uow (now env) d1 (asString (userId st)) = Inr d2)))
       \<and> sent (snd (removeConnection uow env cid s)) =
           sent s @ (if truthy (roomId st)
                     then map (\<lambda>c. (c, USER_LEFT (userId st) (asString (roomId st))))
                            (recipients (asString (roomId st)) (Some cid) s)
                     else [])
       \<and> (\<forall>subs. truthy (roomId st)
             \<and> roomSubscriptions (snd (removeConnection uow env cid s)) (asString (roomId st))
                 = Some subs
             \<longrightarrow> cid \<notin> set subs)
       \<and> (if fst (removeConnection uow env cid s) = Inr ()
          then connections (snd (removeConnection uow env cid s)) cid = None
             \<and> emitted (snd (removeConnection uow env cid s)) =
                 emitted s @ (if truthy (userId st)
                              then [user_disconnected (asString (userId st))] else [])
          else connections (snd (removeConnection uow env cid s)) cid = Some st
             \<and> emitted (snd (removeConnection uow env cid s)) = emitted s)"
proof -
  note rc = removeConnection_present [OF reg, of uow env]
  have subs: "roomSubscriptions (snd (removeConnection uow env cid s))
                = roomSubscriptions (departure cid st s)"
    unfolding rc by (simp split: sum.splits)
  have p1: "(fst (removeConnection uow env cid s) = Inr ()) =
            (\<not> truthy (userId st)
             \<or> (\<exists>d1 d2. users_updateStatus uow (now env) (store s) (asString (userId st)) offline
                          = Inr d1
                        \<and> users_updateLastSeen uow (now env) d1 (asString (userId st)) = Inr d2))"
    unfolding rc by (auto split: sum.splits)
  have p2: "sent (snd (removeConnection uow env cid s)) =
           sent s @ (if truthy (roomId st)
                     then map (\<lambda>c. (c, USER_LEFT (userId st) (asString (roomId st))))
                            (recipients (asString (roomId st)) (Some cid) s)
                     else [])"
    unfolding rc by (simp add: departure_fields split: sum.splits)
  have p3: "\<forall>subs. truthy (roomId st)
             \<and> roomSubscriptions (snd (removeConnection uow env cid s)) (asString (roomId st))
                 = Some subs
             \<longrightarrow> cid \<notin> set subs"
    unfolding subs using departure_unsubscribed by blast
  have p4: "if fst (removeConnection uow env cid s) = Inr ()
          then connections (snd (removeConnection uow env cid s)) cid = None
             \<and> emitted (snd (removeConnection uow env cid s)) =
                 emitted s @ (if truthy (userId st)
                              then [user_disconnected (asString (userId st))] else [])
          else connections (snd (removeConnection uow env cid s)) cid = Some st
             \<and> emitted (snd (removeConnection uow env cid s)) = emitted s"
    unfolding rc using reg by (simp add: departure_fields split: sum.splits)
  show ?thesis using p1 p2 p3 p4 by blast
qed

theorem teardown_outcome_witness:
  "connections exampleServer ''c1'' = Some aliceSession
   \<and> fst (removeConnection lockedUow (env_at 1700000200000 []) ''c1'' exampleServer) \<noteq> Inr ()
   \<and> sent (snd (removeConnection lockedUow (env_at 1700000200000 []) ''c1'' exampleServer))
       = [(''c2'', USER_LEFT (Some ''uAlice'') ''general'')]
   \<and> connections (snd (removeConnection lockedUow (env_at 1700000200000 []) ''c1'' exampleServer)) ''c1''
       = Some aliceSession
   \<and> emitted (snd (removeConnection lockedUow (env_at 1700000200000 []) ''c1'' exampleServer)) = []"
proof -
  have locked: "users_updateStatus lockedUow t d i x = Inl (Error ''database is locked'')" for t d i x
    by (simp add: lockedUow_def)
  have tr: "truthy (userId aliceSession)" "truthy (roomId aliceSession)"
    "asString (roomId aliceSession) = ''general''" "userId aliceSession = Some ''uAlice''"
    by (simp_all add: aliceSession_def truthy_def asString_def)
  have logs: "sent exampleServer = []" "emitted exampleServer = []"
    by (simp_all add: exampleServer_def)
  from teardown_outcome [OF example_alice, of lockedUow "env_at 1700000200000 []"]
  show ?thesis
    using example_alice tr by (simp add: locked example_recipients_general logs)
qed

text \<open>
  The claim as stated (``never throws, even when the storage calls fail'') is false: on
  the example server, with a database whose user update throws, closing alice's
  connection rejects with the storage error.
\<close>

theorem teardown_rejects_counterexample:
  "fst (removeConnection lockedUow (env_at 1700000200000 []) ''c1'' exampleServer)
     = Inl (Error ''database is locked'')"
  by code_simp

subsection \<open>Closing a connection twice\<close>

text \<open>
  Claim C6, as amended. When a call of \<^verbatim>\<open>removeConnection\<close> has returned normally, a
  second call with the same connection id is a no-op: it returns normally and leaves the
  whole server state (registry, database, published events, sent frames, timers) as the
  first call left it, whatever the storage collaborator would answer (the equation holds
  for every unit of work, so none of its methods is consulted).
\<close>

theorem second_removal_noop:
  assumes "fst (removeConnection uow env cid s) = Inr ()"
  shows "removeConnection uow' env' cid (snd (removeConnection uow env cid s))
           = (Inr (), snd (removeConnection uow env cid s))"
proof (cases "connections s cid")
  case None
  then show ?thesis by (simp add: removeConnection_absent)
next
  case (Some st)
  have "connections (snd (removeConnection uow env cid s)) cid = None"
    using assms unfolding removeConnection_present [OF Some, of uow env]
    by (simp split: if_splits sum.splits)
  then show ?thesis by (rule removeConnection_absent)
qed

theorem second_removal_noop_witness:
  "fst (removeConnection createUnitOfWork (env_at 1700000200000 []) ''c1'' exampleServer) = Inr ()
   \<and> removeConnection lockedUow (env_at 1700000300000 []) ''c1''
        (snd (removeConnection createUnitOfWork (env_at 1700000200000 []) ''c1'' exampleServer))
       = (Inr (), snd (removeConnection createUnitOfWork (env_at 1700000200000 []) ''c1'' exampleServer))"
proof -
  have ok: "fst (removeConnection createUnitOfWork (env_at 1700000200000 []) ''c1'' exampleServer) = Inr ()"
    by code_simp
  from second_removal_noop [OF ok, of lockedUow "env_at 1700000300000 []"] ok
  show ?thesis by simp
qed

text \<open>
  Without the proviso the claim is false: when the first call was rejected by a failing
  storage call, the connection is still registered, and a second call broadcasts
  USER_LEFT to the room a second time and rejects again while storage keeps failing.
\<close>

theorem second_removal_counterexample:
  "fst (removeConnection lockedUow (env_at 1700000200000 []) ''c1'' exampleServer)
     = Inl (Error ''database is locked'')
   \<and> fst (removeConnection lockedUow (env_at 1700000300000 []) ''c1''
        (snd (removeConnection lockedUow (env_at 1700000200000 []) ''c1'' exampleServer)))
     = Inl (Error ''database is locked'')
   \<and> sent (snd (removeConnection lockedUow (env_at 1700000300000 []) ''c1''
        (snd (removeConnection lockedUow (env_at 1700000200000 []) ''c1'' exampleServer))))
     = [(''c2'', USER_LEFT (Some ''uAlice'') ''general''),
        (''c2'', USER_LEFT (Some ''uAlice'') ''general'')]"
  by code_simp

subsection \<open>When the rate window rolls over\<close>

text \<open>
  Claim C2, as amended. The session keeps the time of the last counted SEND_MESSAGE
  attempt, not the time the window began: every attempt that passes the authorization
  gate, admitted or rejected, sets \<open>lastMessageTime\<close> to the clock. On such an attempt,
  if strictly more than 60 seconds have passed since the previous attempt
  (\<open>lastMessageTime < now - 60000\<close>), the count restarts at 1, however many attempts were
  made before; otherwise the count is incremented. The attempt is admitted when the count
  restarted or the new count is at most 30: it passes the rate gate and the handler goes
  on with the send-message use case on the state with the new count, so the database and
  the events of the use case become the server's. Otherwise it is rejected: the handler
  answers with exactly one RATE_LIMITED error frame to the sender and changes nothing but
  the count and the time of the last attempt.
\<close>

theorem rate_window_from_last_attempt:
  assumes reg: "connections s cid = Some st"
    and auth: "truthy (userId st)" "truthy (username st)"
  shows "\<exists>st'. connections (snd (handleMessage uow env cid (Valid (SEND_MESSAGE r c rt)) s)) cid
                 = Some st'
           \<and> lastMessageTime st' = now env
           \<and> messageCount st'
                = (if lastMessageTime st < now env - 60000 then 1 else messageCount st + 1)
           \<and> (if lastMessageTime st < now env - 60000 \<or> messageCount st + 1 \<le> 30
               then fst (validateRateLimit (now env) st cid s)
                  \<and> handleMessage uow env cid (Valid (SEND_MESSAGE r c rt)) s
                      = bindE (runUseCase uow
                                 (useCases_sendMessage uow env (buildSendMessageInput st r c rt)))
                          (\<lambda>result. case result of
                               failure err \<Rightarrow>
                                 (\<lambda>s. (Inr (), sendError cid (error_code err) (error_message err) s))
                             | success dto \<Rightarrow>
                                 (\<lambda>s. (Inr (), broadcastToRoom r (MESSAGE_RECEIVED dto) None
                                                  (handleTypingStop cid st r s))))
                          (s\<lparr> connections := (connections s)
                                 (cid \<mapsto> snd (checkRateLimit (now env) st)) \<rparr>)
                  \<and> store (snd (handleMessage uow env cid (Valid (SEND_MESSAGE r c rt)) s))
                      = fst (snd (useCases_sendMessage uow env
                                    (buildSendMessageInput st r c rt) (store s, [])))
                  \<and> emitted (snd (handleMessage uow env cid (Valid (SEND_MESSAGE r c rt)) s))
                      = emitted s @ snd (snd (useCases_sendMessage uow env
                                    (buildSendMessageInput st r c rt) (store s, [])))
               else \<not> fst (validateRateLimit (now env) st cid s)
                  \<and> handleMessage uow env cid (Valid (SEND_MESSAGE r c rt)) s
                      = (Inr (), s\<lparr> connections := (connections s)
                                         (cid \<mapsto> st\<lparr> messageCount := messageCount st + 1,
                                                       lastMessageTime := now env \<rparr>),
                                     sent := sent s @
                                       [(cid, ERROR ''RATE_LIMITED''
                                                ''Too many messages. Please slow down.'')] \<rparr>))"
proof -
  obtain st' where st': "connections (snd (handleMessage uow env cid (Valid (SEND_MESSAGE r c rt)) s)) cid
      = Some st'" "messageCount st' = messageCount (snd (checkRateLimit (now env) st))"
      "lastMessageTime st' = now env"
    using send_step [OF reg auth, of uow env r c rt] by blast
  have cnt: "messageCount st'
                = (if lastMessageTime st < now env - 60000 then 1 else messageCount st + 1)"
    using st'(2) by (simp add: checkRateLimit_eq Let_def)
  have verdict: "fst (checkRateLimit (now env) st)
                   = (lastMessageTime st < now env - 60000 \<or> messageCount st + 1 \<le> 30)"
    by (simp add: checkRateLimit_eq Let_def)
  have gate: "fst (validateRateLimit (now env) st cid s) = fst (checkRateLimit (now env) st)"
    by (simp add: validateRateLimit_eq)
  show ?thesis
  proof (cases "lastMessageTime st < now env - 60000 \<or> messageCount st + 1 \<le> 30")
    case True
    then have ok: "fst (checkRateLimit (now env) st)" using verdict by simp
    have h: "handleMessage uow env cid (Valid (SEND_MESSAGE r c rt)) s
               = handleSendMessage uow env cid st r c rt s"
      using reg by (simp add: handleMessage_def)
    note adm = handleSendMessage_admitted [OF reg auth ok, of uow r c rt]
    note eff = handleSendMessage_admitted_state(2,3) [OF reg auth ok, of uow r c rt]
    have branch: "fst (validateRateLimit (now env) st cid s)
        \<and> handleMessage uow env cid (Valid (SEND_MESSAGE r c rt)) s
                      = bindE (runUseCase uow
                                 (useCases_sendMessage uow env (buildSendMessageInput st r c rt)))
                          (\<lambda>result. case result of
                               failure err \<Rightarrow>
                                 (\<lambda>s. (Inr (), sendError cid (error_code err) (error_message err) s))
                             | success dto \<Rightarrow>
                                 (\<lambda>s. (Inr (), broadcastToRoom r (MESSAGE_RECEIVED dto) None
                                                  (handleTypingStop cid st r s))))
                          (s\<lparr> connections := (connections s)
                                 (cid \<mapsto> snd (checkRateLimit (now env) st)) \<rparr>)
        \<and> store (snd (handleMessage uow env cid (Valid (SEND_MESSAGE r c rt)) s))
                      = fst (snd (useCases_sendMessage uow env
                                    (buildSendMessageInput st r c rt) (store s, [])))
        \<and> emitted (snd (handleMessage uow env cid (Valid (SEND_MESSAGE r c rt)) s))
                      = emitted s @ snd (snd (useCases_sendMessage uow env
                                    (buildSendMessageInput st r c rt) (store s, [])))"
      unfolding h using gate ok adm eff by (intro conjI) simp_all
    show ?thesis
      apply (intro exI [of _ st'] conjI)
         apply (rule st'(1))
        apply (rule st'(3))
       apply (rule cnt)
      apply (subst if_P [OF True])
      apply (rule branch)
      done
  next
    case False
    then have no: "\<not> fst (checkRateLimit (now env) st)" using verdict by simp
    have snd_eq: "snd (checkRateLimit (now env) st)
                    = st\<lparr> messageCount := messageCount st + 1, lastMessageTime := now env \<rparr>"
      using False by (simp add: checkRateLimit_eq Let_def)
    have branch: "\<not> fst (validateRateLimit (now env) st cid s)
        \<and> handleMessage uow env cid (Valid (SEND_MESSAGE r c rt)) s
                      = (Inr (), s\<lparr> connections := (connections s)
                                         (cid \<mapsto> st\<lparr> messageCount := messageCount st + 1,
                                                       lastMessageTime := now env \<rparr>),
                                     sent := sent s @
                                       [(cid, ERROR ''RATE_LIMITED''
                                                ''Too many messages. Please slow down.'')] \<rparr>)"
      using handleSendMessage_rejected [OF reg auth no, of uow r c rt] reg gate no
      by (simp add: handleMessage_def snd_eq)
    show ?thesis
      apply (intro exI [of _ st'] conjI)
         apply (rule st'(1))
        apply (rule st'(3))
       apply (rule cnt)
      apply (subst if_not_P [OF False])
      apply (rule branch)
      done
  qed
qed

theorem rate_window_from_last_attempt_witness:
  "connections busyServer ''c1'' = Some busySession
   \<and> truthy (userId busySession) \<and> truthy (username busySession)
   \<and> messageCount busySession = 30
   \<and> lastMessageTime busySession < now (env_at 1700000160001 ''m31'') - 60000
   \<and> (\<exists>st'. connections (snd (handleMessage createUnitOfWork (env_at 1700000160001 ''m31'') ''c1''
                                 (Valid (SEND_MESSAGE ''general'' ''hi'' None)) busyServer)) ''c1''
               = Some st'
          \<and> lastMessageTime st' = 1700000160001
          \<and> messageCount st' = 1)
   \<and> fst (validateRateLimit 1700000160001 busySession ''c1'' busyServer)
   \<and> map m_id (tbl_messages (store (snd (handleMessage createUnitOfWork
                  (env_at 1700000160001 ''m31'') ''c1''
                  (Valid (SEND_MESSAGE ''general'' ''hi'' None)) busyServer)))) = [''m31'']
   \<and> sent (snd (handleMessage createUnitOfWork (env_at 1700000160001 ''m31'') ''c1''
                (Valid (SEND_MESSAGE ''general'' ''hi'' None)) busyServer))
     = [(''c2'', USER_STOPPED_TYPING (Some ''uAlice'') ''general''),
        (''c1'', MESSAGE_RECEIVED
           \<lparr> dto_id = ''m31'', dto_roomId = ''general'', dto_author_id = ''uAlice'',
             dto_author_username = ''alice'', dto_author_avatar = ''#98D8C8'',
             dto_content = ''hi'', dto_createdAt = 1700000160001, dto_editedAt = None,
             dto_replyTo = None \<rparr>),
        (''c2'', MESSAGE_RECEIVED
           \<lparr> dto_id = ''m31'', dto_roomId = ''general'', dto_author_id = ''uAlice'',
             dto_author_username = ''alice'', dto_author_avatar = ''#98D8C8'',
             dto_content = ''hi'', dto_createdAt = 1700000160001, dto_editedAt = None,
             dto_replyTo = None \<rparr>)]"
proof -
  have reg: "connections busyServer ''c1'' = Some busySession"
    by (simp add: busyServer_def)
  have auth: "truthy (userId busySession)" "truthy (username busySession)"
    by (simp_all add: busySession_def aliceSession_def truthy_def)
  have t: "now (env_at 1700000160001 ''m31'') = 1700000160001" by (simp add: env_at_def)
  have old: "lastMessageTime busySession < 1700000160001 - 60000" "messageCount busySession = 30"
    by (simp_all add: busySession_def)
  note main = rate_window_from_last_attempt [OF reg auth, of createUnitOfWork
      "env_at 1700000160001 ''m31''" "''general''" "''hi''" None, unfolded t]
  have cond: "lastMessageTime busySession < 1700000160001 - 60000
                \<or> messageCount busySession + 1 \<le> 30"
    by (rule disjI1 [OF old(1)])
  note main1 = main [unfolded if_P [OF cond] if_P [OF old(1)]]
  from main1 obtain st' where st':
      "connections (snd (handleMessage createUnitOfWork (env_at 1700000160001 ''m31'') ''c1''
                                 (Valid (SEND_MESSAGE ''general'' ''hi'' None)) busyServer)) ''c1''
               = Some st'"
      "lastMessageTime st' = 1700000160001" "messageCount st' = 1"
      and gate: "fst (validateRateLimit 1700000160001 busySession ''c1'' busyServer)"
      and stored: "store (snd (handleMessage createUnitOfWork (env_at 1700000160001 ''m31'') ''c1''
                                 (Valid (SEND_MESSAGE ''general'' ''hi'' None)) busyServer))
                      = fst (snd (useCases_sendMessage createUnitOfWork (env_at 1700000160001 ''m31'')
                                    (buildSendMessageInput busySession ''general'' ''hi'' None)
                                    (store busyServer, [])))"
    by (elim exE conjE) (rule that)
  have ex: "\<exists>st'. connections (snd (handleMessage createUnitOfWork (env_at 1700000160001 ''m31'') ''c1''
                                 (Valid (SEND_MESSAGE ''general'' ''hi'' None)) busyServer)) ''c1''
               = Some st'
          \<and> lastMessageTime st' = 1700000160001
          \<and> messageCount st' = 1"
    using st' by blast
  have ids: "map m_id (tbl_messages (store (snd (handleMessage createUnitOfWork
                  (env_at 1700000160001 ''m31'') ''c1''
                  (Valid (SEND_MESSAGE ''general'' ''hi'' None)) busyServer)))) = [''m31'']"
    unfolding stored by (rule rollover_example(2))
  have old_now: "lastMessageTime busySession < now (env_at 1700000160001 ''m31'') - 60000"
    unfolding t by (rule old(1))
  show ?thesis
    using reg auth old(2) old_now ex gate ids rollover_example(1)
    by (intro conjI)
qed

text \<open>
  The claim as stated measures the 60 seconds from the start of the window and resets at
  ``at least 60 seconds''. Both fail on the code. Thirty attempts at 1700000100000 open a
  window and fill it. An attempt exactly 60 seconds after the window began is rejected
  (the comparison is strict); and after one rejected attempt 59 seconds into the window,
  an attempt 61 seconds after the window began is rejected too, since only 2 seconds have
  passed since the last attempt.
\<close>

theorem window_start_counterexample:
  "fold (\<lambda>t st. snd (checkRateLimit t st)) (replicate 30 1700000100000) aliceSession = busySession
   \<and> sent (snd (handleMessage createUnitOfWork (env_at 1700000160000 ''m31'') ''c1''
                  (Valid (SEND_MESSAGE ''general'' ''hi'' None)) busyServer))
       = [(''c1'', ERROR ''RATE_LIMITED'' ''Too many messages. Please slow down.'')]
   \<and> sent (snd (handleMessage createUnitOfWork (env_at 1700000161000 ''m32'') ''c1''
                  (Valid (SEND_MESSAGE ''general'' ''hi'' None))
                  (snd (handleMessage createUnitOfWork (env_at 1700000159000 ''m31'') ''c1''
                          (Valid (SEND_MESSAGE ''general'' ''hi'' None)) busyServer))))
       = [(''c1'', ERROR ''RATE_LIMITED'' ''Too many messages. Please slow down.''),
          (''c1'', ERROR ''RATE_LIMITED'' ''Too many messages. Please slow down.'')]"
  by code_simp

subsection \<open>One typing timer per connection\<close>

text \<open>
  Claim C7, as amended. In every reachable state each connection has at most one pending
  typing timer. When an authorized connection sends TYPING_START \<open>N \<ge> 1\<close> times in a
  row, exactly one timer of that connection is pending afterwards (the one recorded in
  its session, armed for 3000 ms with the room of the last TYPING_START), the frames sent
  meanwhile are USER_TYPING frames only (no USER_STOPPED_TYPING), and the timer firing
  does exactly what an inbound TYPING_STOP for the room named in the TYPING_START that
  armed it does.
\<close>

theorem typing_timer_single:
  assumes reach: "reachable uow s"
    and reg: "connections s cid = Some st"
    and auth: "truthy (userId st)" "truthy (username st)"
    and ne: "starts \<noteq> []"
    and s': "s' = handleMessages uow cid (map typingFrame starts) s"
  shows "(\<forall>c h1 h2 r1 d1 r2 d2.
            timers s' h1 = Some (c, r1, d1) \<and> timers s' h2 = Some (c, r2, d2) \<longrightarrow> h1 = h2)
       \<and> (\<exists>h st'. timers s' h = Some (cid, snd (last starts), TYPING_TIMEOUT_MS)
                  \<and> connections s' cid = Some st' \<and> typingTimeout st' = Some h
                  \<and> fireTimer h s'
                      = snd (handleMessage uow env cid (Valid (TYPING_STOP (snd (last starts)))) s'))
       \<and> (\<exists>fs. sent s' = sent s @ fs
               \<and> (\<forall>f \<in> set fs. \<exists>c r. f = (c, USER_TYPING (userId st) (username st) r)))"
proof -
  have ok: "timersOk s'"
    unfolding s' by (rule reachable_timersOk [OF reachable_handleMessages [OF reach]])
  have one: "\<forall>c h1 h2 r1 d1 r2 d2.
            timers s' h1 = Some (c, r1, d1) \<and> timers s' h2 = Some (c, r2, d2) \<longrightarrow> h1 = h2"
    using timersOk_at_most_one [OF ok] by blast
  obtain h st' fs where run:
    "timers s' h = Some (cid, snd (last starts), TYPING_TIMEOUT_MS)"
    "connections s' cid = Some st'" "typingTimeout st' = Some h" "userId st' = userId st"
    "sent s' = sent s @ fs"
    "\<forall>f \<in> set fs. \<exists>c r. f = (c, USER_TYPING (userId st) (username st) r)"
    using typing_starts_run [OF reg auth ne, of uow] unfolding s' by blast
  have fire: "fireTimer h s'
                = snd (handleMessage uow env cid (Valid (TYPING_STOP (snd (last starts)))) s')"
    using run(4) auth(1) by (intro fire_is_stop [OF run(1,2,3)]) simp
  show ?thesis
    using one run fire by blast
qed

theorem typing_timer_single_witness:
  "reachable createUnitOfWork afterJoin
   \<and> connections afterJoin ''c1'' = Some aliceSession
   \<and> truthy (userId aliceSession) \<and> truthy (username aliceSession)
   \<and> keystrokes \<noteq> []
   \<and> (\<exists>h st'. timers (handleMessages createUnitOfWork ''c1'' (map typingFrame keystrokes) afterJoin) h
                 = Some (''c1'', ''general'', 3000)
          \<and> connections (handleMessages createUnitOfWork ''c1'' (map typingFrame keystrokes) afterJoin)
               ''c1'' = Some st'
          \<and> typingTimeout st' = Some h
          \<and> fireTimer h (handleMessages createUnitOfWork ''c1'' (map typingFrame keystrokes) afterJoin)
              = snd (handleMessage createUnitOfWork (env_at 1700000015000 []) ''c1''
                       (Valid (TYPING_STOP ''general''))
                       (handleMessages createUnitOfWork ''c1'' (map typingFrame keystrokes) afterJoin)))
   \<and> (\<exists>fs. sent (handleMessages createUnitOfWork ''c1'' (map typingFrame keystrokes) afterJoin)
              = sent afterJoin @ fs
          \<and> list_all (\<lambda>f. \<exists>c r. f = (c, USER_TYPING (Some ''uAlice'') (Some ''alice'') r)) fs)"
proof -
  have reach: "reachable createUnitOfWork afterJoin"
    unfolding afterJoin_def
    by (intro reachable.received reachable.opened reachable.started) (simp add: newServer_def)
  have auth: "truthy (userId aliceSession)" "truthy (username aliceSession)"
    by (simp_all add: aliceSession_def truthy_def)
  have ne: "keystrokes \<noteq> []" by (simp add: keystrokes_def)
  have lst: "snd (last keystrokes) = ''general''" by (simp add: keystrokes_def)
  have ids: "userId aliceSession = Some ''uAlice''" "username aliceSession = Some ''alice''"
    by (simp_all add: aliceSession_def)
  from typing_timer_single [OF reach afterJoin_alice auth ne refl, of "env_at 1700000015000 []"]
  show ?thesis
    using reach afterJoin_alice auth ne
    unfolding lst ids TYPING_TIMEOUT_MS_def list_all_iff by blast
qed

text \<open>
  The room of the timer is the payload of the TYPING_START, not the session's current
  room. On the example server alice, whose current room is ``general'', sends TYPING_START
  for ``random''. When the timer fires, USER_STOPPED_TYPING for ``random'' goes to carol;
  an inbound TYPING_STOP for alice's current room would have sent USER_STOPPED_TYPING for
  ``general'' to bob.
\<close>

theorem timer_room_counterexample:
  "map_option roomId (connections (snd (handleMessage createUnitOfWork (env_at 1700000010000 []) ''c1''
                                        (Valid (TYPING_START ''random'')) exampleServer)) ''c1'')
     = Some (Some ''general'')
   \<and> sent (fireTimer 0 (snd (handleMessage createUnitOfWork (env_at 1700000010000 []) ''c1''
                              (Valid (TYPING_START ''random'')) exampleServer)))
     = [(''c3'', USER_TYPING (Some ''uAlice'') (Some ''alice'') ''random''),
        (''c3'', USER_STOPPED_TYPING (Some ''uAlice'') ''random'')]
   \<and> sent (snd (handleMessage createUnitOfWork (env_at 1700000013000 []) ''c1''
                  (Valid (TYPING_STOP ''general''))
                  (snd (handleMessage createUnitOfWork (env_at 1700000010000 []) ''c1''
                          (Valid (TYPING_START ''random'')) exampleServer))))
     = [(''c3'', USER_TYPING (Some ''uAlice'') (Some ''alice'') ''random''),
        (''c2'', USER_STOPPED_TYPING (Some ''uAlice'') ''general'')]"
  by code_simp

subsection \<open>Deleting a message that has replies\<close>

text \<open>
  Claim C9, as amended. A DELETE_MESSAGE frame from the author of a message, on the SQLite
  unit of work, is a soft delete: the handler resolves, MESSAGE_DELETED goes to the
  author's room, and the messages table keeps every row, with its id, author, content and
  reply reference, the row of the deleted message now marked \<open>is_deleted = 1\<close>. After
  that the repository's \<open>findById\<close> no longer returns the deleted message, so the reply
  information of a reply to it is not resolved any more: the DTO of the reply, built on
  the database the handler left, is produced (its author still resolves) with no
  \<open>replyTo\<close> at all, neither the original author's name nor a content preview.
\<close>

theorem soft_delete_hides_reply_info:
  assumes reg: "connections s cid = Some st"
    and uid: "userId st = Some uid" "uid \<noteq> []"
    and found: "SQLiteMessageRepository_findById (store s) i = Inr (Some original)"
    and own: "msg_authorId original = uid"
    and reply: "msg_replyTo message = Some i"
    and author: "SQLiteUserRepository_findById (store s) (msg_authorId message) = Inr (Some author)"
    and after: "s' = snd (handleMessage createUnitOfWork env cid (Valid (DELETE_MESSAGE i)) s)"
  shows "fst (handleMessage createUnitOfWork env cid (Valid (DELETE_MESSAGE i)) s) = Inr ()
       \<and> sent s' = sent s @ (if truthy (roomId st)
                              then map (\<lambda>x. (x, MESSAGE_DELETED i))
                                     (recipients (asString (roomId st)) None s)
                              else [])
       \<and> store s' = (store s)\<lparr> tbl_messages :=
                        map (\<lambda>row. if m_id row = i
                                   then row\<lparr> m_is_deleted := 1, m_updated_at := now env \<rparr>
                                   else row) (tbl_messages (store s)) \<rparr>
       \<and> map (\<lambda>row. (m_id row, m_author_id row, m_content row, m_reply_to_id row))
             (tbl_messages (store s'))
           = map (\<lambda>row. (m_id row, m_author_id row, m_content row, m_reply_to_id row))
               (tbl_messages (store s))
       \<and> (\<forall>row \<in> set (tbl_messages (store s')). m_id row = i \<longrightarrow> m_is_deleted row = 1)
       \<and> SQLiteMessageRepository_findById (store s') i = Inr None
       \<and> (\<exists>dto. messageToDTO createUnitOfWork message (store s', evs) = (Inr dto, (store s', evs))
                \<and> dto_id dto = msg_id message
                \<and> dto_author_username dto = user_username author
                \<and> dto_replyTo dto = None)"
proof -
  let ?d' = "(store s)\<lparr> tbl_messages :=
                        map (\<lambda>row. if m_id row = i
                                   then row\<lparr> m_is_deleted := 1, m_updated_at := now env \<rparr>
                                   else row) (tbl_messages (store s)) \<rparr>"
  let ?s1 = "s\<lparr> store := ?d', emitted := emitted s @ [message_deleted i] \<rparr>"
  note h = delete_step [OF reg uid found own, of env]
  have res: "fst (handleMessage createUnitOfWork env cid (Valid (DELETE_MESSAGE i)) s) = Inr ()"
    unfolding h by simp
  have rec: "recipients r ex ?s1 = recipients r ex s" for r ex
    by (rule recipients_cong) simp_all
  have snt: "sent s' = sent s @ (if truthy (roomId st)
                              then map (\<lambda>x. (x, MESSAGE_DELETED i))
                                     (recipients (asString (roomId st)) None s)
                              else [])"
    unfolding after h by (simp add: broadcastToRoom_sent rec)
  have d': "store s' = ?d'"
    unfolding after h by (simp add: broadcastToRoom_sent)
  have tm: "tbl_messages (store s') = map (\<lambda>row. if m_id row = i
                                   then row\<lparr> m_is_deleted := 1, m_updated_at := now env \<rparr>
                                   else row) (tbl_messages (store s))"
    unfolding d' by simp
  have rows: "map (\<lambda>row. (m_id row, m_author_id row, m_content row, m_reply_to_id row))
             (tbl_messages (store s'))
           = map (\<lambda>row. (m_id row, m_author_id row, m_content row, m_reply_to_id row))
               (tbl_messages (store s))"
    unfolding tm by (simp add: comp_def)
  have flag: "\<forall>row \<in> set (tbl_messages (store s')). m_id row = i \<longrightarrow> m_is_deleted row = 1"
    unfolding tm by (rule tombstones_flagged)
  have gone: "SQLiteMessageRepository_findById (store s') i = Inr None"
    unfolding d' by (rule deleted_not_found)
  have a: "users_findById createUnitOfWork (store s') (msg_authorId message) = Inr (Some author)"
    using author unfolding d' by (simp add: createUnitOfWork_def SQLiteUserRepository_findById_def)
  have g: "messages_findById createUnitOfWork (store s') (asString (msg_replyTo message)) = Inr None"
    using gone reply by (simp add: createUnitOfWork_def asString_def)
  have dto: "\<exists>dto. messageToDTO createUnitOfWork message (store s', evs) = (Inr dto, (store s', evs))
                \<and> dto_id dto = msg_id message
                \<and> dto_author_username dto = user_username author
                \<and> dto_replyTo dto = None"
    using messageToDTO_reply_not_found [OF a g, of evs] by simp
  show ?thesis
    using res snt d' rows flag gone dto by (intro conjI)
qed

theorem soft_delete_hides_reply_info_witness:
  "connections threadServer ''c1'' = Some aliceSession
   \<and> userId aliceSession = Some ''uAlice'' \<and> ''uAlice'' \<noteq> []
   \<and> SQLiteMessageRepository_findById (store threadServer) ''m1''
       = Inr (Some \<lparr> msg_id = ''m1'', msg_roomId = ''general'', msg_authorId = ''uAlice'',
                     msg_content = ''hello'', msg_createdAt = 1700000050000, msg_editedAt = None,
                     msg_replyTo = None \<rparr>)
   \<and> msg_replyTo replyMessage = Some ''m1''
   \<and> SQLiteUserRepository_findById (store threadServer) (msg_authorId replyMessage)
       = Inr (Some \<lparr> user_id = ''uBob'', user_username = ''bob'', user_avatar = ''#F7DC6F'',
                     user_status = online, user_joinedAt = 1700000001000 \<rparr>)
   \<and> fst (handleMessage createUnitOfWork (env_at 1700000070000 []) ''c1''
            (Valid (DELETE_MESSAGE ''m1'')) threadServer) = Inr ()
   \<and> sent (snd (handleMessage createUnitOfWork (env_at 1700000070000 []) ''c1''
                   (Valid (DELETE_MESSAGE ''m1'')) threadServer))
       = [(''c1'', MESSAGE_DELETED ''m1''), (''c2'', MESSAGE_DELETED ''m1'')]
   \<and> store (snd (handleMessage createUnitOfWork (env_at 1700000070000 []) ''c1''
                    (Valid (DELETE_MESSAGE ''m1'')) threadServer)) = tombstoneDb
   \<and> SQLiteMessageRepository_findById tombstoneDb ''m1'' = Inr None
   \<and> (\<exists>dto. messageToDTO createUnitOfWork replyMessage (tombstoneDb, [])
                = (Inr dto, (tombstoneDb, []))
          \<and> dto_id dto = ''m2'' \<and> dto_author_username dto = ''bob'' \<and> dto_replyTo dto = None)"
proof -
  have reg: "connections threadServer ''c1'' = Some aliceSession"
    by (simp add: threadServer_def exampleServer_def)
  have uid: "userId aliceSession = Some ''uAlice''" "''uAlice'' \<noteq> []"
    by (simp_all add: aliceSession_def)
  have found: "SQLiteMessageRepository_findById (store threadServer) ''m1''
       = Inr (Some \<lparr> msg_id = ''m1'', msg_roomId = ''general'', msg_authorId = ''uAlice'',
                     msg_content = ''hello'', msg_createdAt = 1700000050000, msg_editedAt = None,
                     msg_replyTo = None \<rparr>)"
    by (simp add: SQLiteMessageRepository_findById_def threadServer_def threadDb_def
        messageRowToEntity_def)
  have reply: "msg_replyTo replyMessage = Some ''m1''"
    by (simp add: replyMessage_def)
  have author: "SQLiteUserRepository_findById (store threadServer) (msg_authorId replyMessage)
       = Inr (Some \<lparr> user_id = ''uBob'', user_username = ''bob'', user_avatar = ''#F7DC6F'',
                     user_status = online, user_joinedAt = 1700000001000 \<rparr>)"
    by (simp add: SQLiteUserRepository_findById_def threadServer_def threadDb_def exampleDb_def
        replyMessage_def userRowToEntity_def)
  have id: "msg_id replyMessage = ''m2''" by (simp add: replyMessage_def)
  have room: "truthy (roomId aliceSession)" "asString (roomId aliceSession) = ''general''"
    by (simp_all add: aliceSession_def truthy_def asString_def)
  have rec: "recipients ''general'' None threadServer = [''c1'', ''c2'']"
    by (simp add: recipients_def threadServer_def exampleServer_def)
  have snt0: "sent threadServer = []"
    by (simp add: threadServer_def exampleServer_def)
  have tomb: "(store threadServer)\<lparr> tbl_messages :=
                 map (\<lambda>row. if m_id row = ''m1''
                            then row\<lparr> m_is_deleted := 1,
                                      m_updated_at := now (env_at 1700000070000 []) \<rparr>
                            else row) (tbl_messages (store threadServer)) \<rparr> = tombstoneDb"
    by (simp add: threadServer_def threadDb_def tombstoneDb_def env_at_def)
  note main = soft_delete_hides_reply_info [OF reg uid found _ reply author refl,
      where env = "env_at 1700000070000 []" and evs = "[]", unfolded tomb room if_True rec snt0]
  have own: "msg_authorId \<lparr> msg_id = ''m1'', msg_roomId = ''general'', msg_authorId = ''uAlice'',
                     msg_content = ''hello'', msg_createdAt = 1700000050000, msg_editedAt = None,
                     msg_replyTo = None \<rparr> = ''uAlice''"
    by simp
  note m = main [OF own]
  have st: "store (snd (handleMessage createUnitOfWork (env_at 1700000070000 []) ''c1''
                    (Valid (DELETE_MESSAGE ''m1'')) threadServer)) = tombstoneDb"
    using m by (elim conjE)
  have c1: "fst (handleMessage createUnitOfWork (env_at 1700000070000 []) ''c1''
            (Valid (DELETE_MESSAGE ''m1'')) threadServer) = Inr ()"
    using m by (elim conjE)
  have c2: "sent (snd (handleMessage createUnitOfWork (env_at 1700000070000 []) ''c1''
                   (Valid (DELETE_MESSAGE ''m1'')) threadServer))
       = [(''c1'', MESSAGE_DELETED ''m1''), (''c2'', MESSAGE_DELETED ''m1'')]"
    using m room(1) by (elim conjE) simp
  have c3: "SQLiteMessageRepository_findById tombstoneDb ''m1'' = Inr None"
    using m unfolding st by (elim conjE)
  have c4: "\<exists>dto. messageToDTO createUnitOfWork replyMessage (tombstoneDb, [])
                = (Inr dto, (tombstoneDb, []))
          \<and> dto_id dto = ''m2'' \<and> dto_author_username dto = ''bob'' \<and> dto_replyTo dto = None"
    using m unfolding st id by (elim conjE) simp
  show ?thesis
    using reg uid found reply author c1 c2 st c3 c4 by (intro conjI)
qed

text \<open>
  The claim as stated, that the reply information of replies stays resolvable after the
  original is deleted, fails on the example thread. Before the deletion the DTO of bob's
  reply m2 names alice and previews ``hello''; alice's DELETE_MESSAGE of m1 succeeds and
  leaves the tombstone database; after it the DTO of m2 has no reply information.
\<close>

theorem reply_info_lost_counterexample:
  "fst (messageToDTO createUnitOfWork replyMessage (threadDb, []))
     = Inr \<lparr> dto_id = ''m2'', dto_roomId = ''general'', dto_author_id = ''uBob'',
             dto_author_username = ''bob'', dto_author_avatar = ''#F7DC6F'',
             dto_content = ''hi alice'', dto_createdAt = 1700000060000, dto_editedAt = None,
             dto_replyTo = Some \<lparr> reply_id = ''m1'', reply_authorUsername = ''alice'',
                                   reply_contentPreview = ''hello'' \<rparr> \<rparr>
   \<and> fst (useCases_deleteMessage createUnitOfWork (env_at 1700000070000 []) ''m1'' ''uAlice''
            (threadDb, [])) = Inr (success ())
   \<and> fst (snd (useCases_deleteMessage createUnitOfWork (env_at 1700000070000 []) ''m1'' ''uAlice''
                 (threadDb, []))) = tombstoneDb
   \<and> fst (messageToDTO createUnitOfWork replyMessage (tombstoneDb, []))
     = Inr \<lparr> dto_id = ''m2'', dto_roomId = ''general'', dto_author_id = ''uBob'',
             dto_author_username = ''bob'', dto_author_avatar = ''#F7DC6F'',
             dto_content = ''hi alice'', dto_createdAt = 1700000060000, dto_editedAt = None,
             dto_replyTo = None \<rparr>"
  using reply_before_delete delete_original reply_after_delete by (intro conjI) simp_all

subsection \<open>Joining a second room\<close>

text \<open>
  Claim C4: a connection is in the subscriber set of at most one room. The code does not
  keep this: \<open>handleJoinRoom\<close> subscribes the connection to the new room and overwrites
  the session's \<open>roomId\<close> without unsubscribing it from the room it was in. On the example
  server alice (c1, in ``general'') sends JOIN_ROOM for ``random'': afterwards c1 is a
  subscriber of both rooms while its session names ``random'' only, and when the
  connection is closed, which unsubscribes the session's room alone, c1 stays in the
  subscriber set of ``general''.
\<close>

theorem join_second_room_evaluation:
  "roomSubscriptions (snd (handleMessage createUnitOfWork (env_at 1700000020000 ''x1'') ''c1''
                             (Valid (JOIN_ROOM ''random'' ''alice'')) exampleServer)) ''general''
     = Some [''c1'', ''c2'']
   \<and> roomSubscriptions (snd (handleMessage createUnitOfWork (env_at 1700000020000 ''x1'') ''c1''
                             (Valid (JOIN_ROOM ''random'' ''alice'')) exampleServer)) ''random''
     = Some [''c3'', ''c1'']
   \<and> map_option roomId
         (connections (snd (handleMessage createUnitOfWork (env_at 1700000020000 ''x1'') ''c1''
                              (Valid (JOIN_ROOM ''random'' ''alice'')) exampleServer)) ''c1'')
     = Some (Some ''random'')
   \<and> roomSubscriptions
         (snd (removeConnection createUnitOfWork (env_at 1700000030000 ''x2'') ''c1''
                 (snd (handleMessage createUnitOfWork (env_at 1700000020000 ''x1'') ''c1''
                         (Valid (JOIN_ROOM ''random'' ''alice'')) exampleServer)))) ''general''
     = Some [''c1'', ''c2'']"
  by code_simp

subsection \<open>A use case that fails on LEAVE_ROOM\<close>

text \<open>
  Claim C5: a failure result of the use case is answered by an ERROR frame to the sender,
  also on LEAVE_ROOM. The code does not do this for LEAVE_ROOM: \<open>handleLeaveRoom\<close> drops
  the result of the use case and goes on to unsubscribe and to broadcast USER_LEFT. On the
  example server alice sends LEAVE_ROOM for a room that does not exist: the use case
  returns the failure ROOM_NOT_FOUND, the handler resolves, and no frame at all is sent.
  JOIN_ROOM for the same room, whose handler checks the result, answers with the ERROR
  frame ROOM_NOT_FOUND.
\<close>

theorem leave_unknown_room_evaluation:
  "fst (useCases_leaveRoom createUnitOfWork (env_at 1700000020000 ''x1'') ''nowhere'' ''uAlice''
          (exampleDb, []))
     = Inr (failure (UseCaseError ''Room not found'' ''ROOM_NOT_FOUND''))
   \<and> fst (handleMessage createUnitOfWork (env_at 1700000020000 ''x1'') ''c1''
            (Valid (LEAVE_ROOM ''nowhere'')) exampleServer) = Inr ()
   \<and> sent (snd (handleMessage createUnitOfWork (env_at 1700000020000 ''x1'') ''c1''
                   (Valid (LEAVE_ROOM ''nowhere'')) exampleServer)) = []
   \<and> sent (snd (handleMessage createUnitOfWork (env_at 1700000020000 ''x1'') ''c1''
                   (Valid (JOIN_ROOM ''nowhere'' ''alice'')) exampleServer))
     = [(''c1'', ERROR ''ROOM_NOT_FOUND''
                   (''Room '' @ CHR 0x27 # ''nowhere'' @ CHR 0x27 # '' not found''))]"
  by code_simp

subsection \<open>Sending after leaving the room\<close>

text \<open>
  Claim C10. LEAVE_ROOM leaves the session state of the connection as it is, in
  particular \<open>userId\<close>, \<open>username\<close> and \<open>roomId\<close> keep the values set at join; of the
  registry only the subscriber set of the room changes (the session states and the
  user-to-connection map are as before, and the connection is no longer a recipient of
  the room left). Consequently a SEND_MESSAGE that follows on the connection, on the
  SQLite unit of work, for a room that exists, with the user's row in place, a message id
  not yet used, no reply reference and the rate limit not exceeded, passes the
  authorization gate, is accepted by the use case, which stores the message and returns
  its DTO, and MESSAGE_RECEIVED with that DTO is broadcast to the subscribers of the named
  room, after the USER_STOPPED_TYPING that a sent message implies.
\<close>

theorem send_after_leave:
  assumes reg: "connections s cid = Some st"
    and uid: "userId st = Some uid" "uid \<noteq> []"
    and name: "truthy (username st)"
    and joined: "truthy (roomId st)"
    and author: "SQLiteUserRepository_findById (store s) uid = Inr (Some author)"
    and room: "r \<in> r_id ` set (tbl_rooms (store s))"
    and fresh: "nanoid envS 16 \<notin> m_id ` set (tbl_messages (store s))"
    and rate: "fst (checkRateLimit (now envS) st)"
    and left: "s1 = snd (handleMessage createUnitOfWork envL cid (Valid (LEAVE_ROOM rL)) s)"
    and dto: "dto = \<lparr> dto_id = nanoid envS 16, dto_roomId = r, dto_author_id = uid,
                      dto_author_username = user_username author,
                      dto_author_avatar = user_avatar author, dto_content = c,
                      dto_createdAt = now envS, dto_editedAt = None, dto_replyTo = None \<rparr>"
  shows "connections s1 cid = Some st
       \<and> connections s1 = connections s \<and> userConnections s1 = userConnections s
       \<and> cid \<notin> set (recipients rL None s1)
       \<and> fst (validateUserAuthorized st cid s1)
       \<and> fst (useCases_sendMessage createUnitOfWork envS (buildSendMessageInput st r c None)
                (store s1, [])) = Inr (success dto)
       \<and> fst (handleMessage createUnitOfWork envS cid (Valid (SEND_MESSAGE r c None)) s1) = Inr ()
       \<and> sent (snd (handleMessage createUnitOfWork envS cid (Valid (SEND_MESSAGE r c None)) s1))
           = sent s1
             @ map (\<lambda>x. (x, USER_STOPPED_TYPING (Some uid) r)) (recipients r (Some cid) s1)
             @ map (\<lambda>x. (x, MESSAGE_RECEIVED dto)) (recipients r None s1)
       \<and> tbl_messages (store (snd (handleMessage createUnitOfWork envS cid
                                      (Valid (SEND_MESSAGE r c None)) s1)))
           = tbl_messages (store s) @
               [\<lparr> m_id = nanoid envS 16, m_room_id = r, m_author_id = uid, m_content = c,
                  m_reply_to_id = None, m_is_deleted = 0, m_created_at = now envS,
                  m_edited_at = None, m_updated_at = now envS \<rparr>]"
proof -
  have auth: "truthy (userId st)" using uid by (simp add: truthy_def)
  have uidS: "asString (userId st) = uid" using uid by (simp add: asString_def)
  obtain s2 where L: "handleMessage createUnitOfWork envL cid (Valid (LEAVE_ROOM rL)) s
                = (Inr (), broadcastToRoom rL (USER_LEFT (userId st) rL) None
                             (ConnectionManager_leaveRoom cid rL s2))"
      and st2: "store s2 = fst (snd (useCases_leaveRoom createUnitOfWork envL rL uid (store s, [])))"
      and uc2: "userConnections s2 = userConnections s"
    using leave_step [OF reg auth joined, of envL rL] unfolding uidS by blast
  have s1: "s1 = (ConnectionManager_leaveRoom cid rL s2)
                   \<lparr> sent := sent (ConnectionManager_leaveRoom cid rL s2)
                        @ map (\<lambda>c. (c, USER_LEFT (userId st) rL))
                            (recipients rL None (ConnectionManager_leaveRoom cid rL s2)) \<rparr>"
    unfolding left L by (simp add: broadcastToRoom_sent)
  have conn: "connections s1 = connections s"
    unfolding left using reg leave_keeps_sessions [of createUnitOfWork envL cid st rL s]
    by (simp add: handleMessage_def)
  have reg1: "connections s1 cid = Some st" using conn reg by simp
  have ucs: "userConnections s1 = userConnections s"
    unfolding s1 using uc2 by (simp add: leaveRoom_fields)
  have store1: "store s1 = fst (snd (useCases_leaveRoom createUnitOfWork envL rL uid (store s, [])))"
    unfolding s1 using st2 by (simp add: leaveRoom_fields)
  obtain res d1 evs g where out:
      "useCases_leaveRoom createUnitOfWork envL rL uid (store s, []) = (Inr res, (d1, evs))"
      and tabs: "tbl_rooms d1 = tbl_rooms (store s)" "tbl_messages d1 = tbl_messages (store s)"
        "tbl_users d1 = map g (tbl_users (store s))"
      and g: "\<And>row. u_id (g row) = u_id row" "\<And>row. u_username (g row) = u_username row"
        "\<And>row. u_avatar (g row) = u_avatar row"
    using sqlite_leaveRoom_db [of envL rL uid "store s"] by blast
  have d1: "store s1 = d1" using store1 out by simp
  obtain rrow where room1: "find (\<lambda>row. r_id row = r) (tbl_rooms (store s1)) = Some rrow"
    using room mem_find_Some [of _ "tbl_rooms (store s)" "\<lambda>row. r_id row = r"]
    unfolding d1 tabs by blast
  obtain urow0 where u0: "find (\<lambda>row. u_id row = uid) (tbl_users (store s)) = Some urow0"
      and a0: "userRowToEntity urow0 = author"
    using author by (auto simp: SQLiteUserRepository_findById_def)
  have user1: "find (\<lambda>row. u_id row = uid) (tbl_users (store s1)) = Some (g urow0)"
    unfolding d1 tabs using u0 by (simp add: find_map_keys g)
  have fresh1: "\<forall>row \<in> set (tbl_messages (store s1)). m_id row \<noteq> nanoid envS 16"
    unfolding d1 tabs using fresh by (auto simp: image_iff)
  have dto1: "\<lparr> dto_id = nanoid envS 16, dto_roomId = r, dto_author_id = u_id (g urow0),
                dto_author_username = u_username (g urow0), dto_author_avatar = u_avatar (g urow0),
                dto_content = c, dto_createdAt = now envS, dto_editedAt = None,
                dto_replyTo = None \<rparr> = dto"
    unfolding dto using a0 find_Some_mem [OF u0] by (auto simp: g userRowToEntity_def)
  have msgs1: "tbl_messages (store s1) = tbl_messages (store s)"
    unfolding d1 tabs ..
  note step = send_accepted_step [OF reg1 uid name rate room1 user1 fresh1, of c,
      unfolded dto1 msgs1]
  have input: "buildSendMessageInput st r c None
      = \<lparr> input_roomId = r, input_authorId = uid, input_content = c, input_replyTo = None \<rparr>"
    using uid by (simp add: buildSendMessageInput_def asString_def truthy_def)
  have accepted: "fst (useCases_sendMessage createUnitOfWork envS (buildSendMessageInput st r c None)
                (store s1, [])) = Inr (success dto)"
    unfolding input using sqlite_sendMessage [OF room1 user1 fresh1, of c] dto1 by simp
  have gate: "fst (validateUserAuthorized st cid s1)"
    using auth name by (simp add: validateUserAuthorized_def)
  have gone: "cid \<notin> set (recipients rL None s1)"
  proof (cases "roomSubscriptions (ConnectionManager_leaveRoom cid rL s2) rL")
    case None
    then show ?thesis unfolding s1 by (simp add: recipients_def)
  next
    case (Some subs)
    then have "cid \<notin> set subs" by (rule leaveRoom_not_subscribed)
    then show ?thesis unfolding s1 using Some by (simp add: recipients_def)
  qed
  show ?thesis
    using reg1 conn ucs gone gate accepted step by (intro conjI)
qed

theorem send_after_leave_witness:
  "connections exampleServer ''c1'' = Some aliceSession
   \<and> userId aliceSession = Some ''uAlice'' \<and> ''uAlice'' \<noteq> []
   \<and> truthy (username aliceSession) \<and> truthy (roomId aliceSession)
   \<and> SQLiteUserRepository_findById (store exampleServer) ''uAlice''
       = Inr (Some \<lparr> user_id = ''uAlice'', user_username = ''alice'', user_avatar = ''#98D8C8'',
                     user_status = online, user_joinedAt = 1700000000000 \<rparr>)
   \<and> ''general'' \<in> r_id ` set (tbl_rooms (store exampleServer))
   \<and> nanoid (env_at 1700000201000 ''m1'') 16 \<notin> m_id ` set (tbl_messages (store exampleServer))
   \<and> fst (checkRateLimit (now (env_at 1700000201000 ''m1'')) aliceSession)
   \<and> connections (snd (handleMessage createUnitOfWork (env_at 1700000200000 []) ''c1''
                          (Valid (LEAVE_ROOM ''general'')) exampleServer)) ''c1''
       = Some aliceSession
   \<and> ''c1'' \<notin> set (recipients ''general'' None
                      (snd (handleMessage createUnitOfWork (env_at 1700000200000 []) ''c1''
                              (Valid (LEAVE_ROOM ''general'')) exampleServer)))
   \<and> fst (handleMessage createUnitOfWork (env_at 1700000201000 ''m1'') ''c1''
            (Valid (SEND_MESSAGE ''general'' ''still here'' None))
            (snd (handleMessage createUnitOfWork (env_at 1700000200000 []) ''c1''
                    (Valid (LEAVE_ROOM ''general'')) exampleServer))) = Inr ()
   \<and> sent (snd (handleMessage createUnitOfWork (env_at 1700000201000 ''m1'') ''c1''
                   (Valid (SEND_MESSAGE ''general'' ''still here'' None))
                   (snd (handleMessage createUnitOfWork (env_at 1700000200000 []) ''c1''
                           (Valid (LEAVE_ROOM ''general'')) exampleServer))))
       = [(''c2'', USER_LEFT (Some ''uAlice'') ''general''),
          (''c2'', USER_STOPPED_TYPING (Some ''uAlice'') ''general''),
          (''c2'', MESSAGE_RECEIVED
             \<lparr> dto_id = ''m1'', dto_roomId = ''general'', dto_author_id = ''uAlice'',
               dto_author_username = ''alice'', dto_author_avatar = ''#98D8C8'',
               dto_content = ''still here'', dto_createdAt = 1700000201000, dto_editedAt = None,
               dto_replyTo = None \<rparr>)]"
proof -
  have uid: "userId aliceSession = Some ''uAlice''" "''uAlice'' \<noteq> []"
    by (simp_all add: aliceSession_def)
  have name: "truthy (username aliceSession)" and joined: "truthy (roomId aliceSession)"
    by (simp_all add: aliceSession_def truthy_def)
  have author: "SQLiteUserRepository_findById (store exampleServer) ''uAlice''
       = Inr (Some \<lparr> user_id = ''uAlice'', user_username = ''alice'', user_avatar = ''#98D8C8'',
                     user_status = online, user_joinedAt = 1700000000000 \<rparr>)"
    by (simp add: SQLiteUserRepository_findById_def exampleServer_def exampleDb_def
        userRowToEntity_def)
  have room: "''general'' \<in> r_id ` set (tbl_rooms (store exampleServer))"
    by (simp add: exampleServer_def exampleDb_def runMigrations_def DEFAULT_ROOMS_def)
  have fresh: "nanoid (env_at 1700000201000 ''m1'') 16
                 \<notin> m_id ` set (tbl_messages (store exampleServer))"
    by (simp add: exampleServer_def exampleDb_def)
  have rate: "fst (checkRateLimit (now (env_at 1700000201000 ''m1'')) aliceSession)"
    by (simp add: checkRateLimit_eq aliceSession_def env_at_def)
  note main = send_after_leave [OF example_alice uid name joined author room fresh rate refl refl,
      where c = "''still here''" and envL = "env_at 1700000200000 []" and rL = "''general''"]
  have c1: "connections (snd (handleMessage createUnitOfWork (env_at 1700000200000 []) ''c1''
                          (Valid (LEAVE_ROOM ''general'')) exampleServer)) ''c1''
       = Some aliceSession"
    using main by (elim conjE)
  have c2: "''c1'' \<notin> set (recipients ''general'' None
                      (snd (handleMessage createUnitOfWork (env_at 1700000200000 []) ''c1''
                              (Valid (LEAVE_ROOM ''general'')) exampleServer)))"
    using main by (elim conjE)
  have c3: "fst (handleMessage createUnitOfWork (env_at 1700000201000 ''m1'') ''c1''
            (Valid (SEND_MESSAGE ''general'' ''still here'' None))
            (snd (handleMessage createUnitOfWork (env_at 1700000200000 []) ''c1''
                    (Valid (LEAVE_ROOM ''general'')) exampleServer))) = Inr ()"
    using main by (elim conjE)
  have c4: "sent (snd (handleMessage createUnitOfWork (env_at 1700000201000 ''m1'') ''c1''
                   (Valid (SEND_MESSAGE ''general'' ''still here'' None))
                   (snd (handleMessage createUnitOfWork (env_at 1700000200000 []) ''c1''
                           (Valid (LEAVE_ROOM ''general'')) exampleServer))))
       = [(''c2'', USER_LEFT (Some ''uAlice'') ''general''),
          (''c2'', USER_STOPPED_TYPING (Some ''uAlice'') ''general''),
          (''c2'', MESSAGE_RECEIVED
             \<lparr> dto_id = ''m1'', dto_roomId = ''general'', dto_author_id = ''uAlice'',
               dto_author_username = ''alice'', dto_author_avatar = ''#98D8C8'',
               dto_content = ''still here'', dto_createdAt = 1700000201000, dto_editedAt = None,
               dto_replyTo = None \<rparr>)]"
    using main unfolding after_leave_example by (simp add: env_at_def)
  show ?thesis
    using example_alice uid name joined author room fresh rate c1 c2 c3 c4 by (intro conjI)
qed

end
